theory Spec2Isabelle
  imports Complex_Main
begin

section \<open>Python values used by \<^verbatim>\<open>qeijo/pw.py\<close>\<close>

text \<open>
  The module \<^verbatim>\<open>pw.py\<close> defines the class \<^verbatim>\<open>calc\<close> (an input deck for the PW program,
  with \<^verbatim>\<open>read_input\<close> and \<^verbatim>\<open>build_input\<close>), the scanner \<^verbatim>\<open>__get_output_info__\<close> of a
  PW log, the writer \<^verbatim>\<open>__write_coords__\<close> and the class \<^verbatim>\<open>out\<close>. This theory embeds these
  functions. A method that mutates \<^verbatim>\<open>self\<close> takes the object and returns the new one;
  an exception is a value of \<open>py_error\<close>, and a method that raised still returns the
  object as the statements before the \<^verbatim>\<open>raise\<close> left it. Strings are lists of 8-bit
  characters and are read as ASCII text. Printing to the terminal is not modelled.
\<close>

datatype py_error = IndexError | KeyError | ValueError | TypeError | UnboundLocalError

definition nl :: char where
  "nl = CHR 0x0A"

definition quote :: char where
  "quote = CHR 0x27"

text \<open>\<^verbatim>\<open>xs[i]\<close> for an index \<open>i \<ge> 0\<close>: out of range raises \<^verbatim>\<open>IndexError\<close>.\<close>

definition py_nth :: "'a list \<Rightarrow> nat \<Rightarrow> py_error + 'a" where
  "py_nth xs i = (if i < length xs then Inr (xs ! i) else Inl IndexError)"

definition bind_err :: "py_error + 'a \<Rightarrow> ('a \<Rightarrow> py_error + 'b) \<Rightarrow> py_error + 'b" where
  "bind_err r f = (case r of Inl e \<Rightarrow> Inl e | Inr a \<Rightarrow> f a)"

subsection \<open>\<^verbatim>\<open>str.split()\<close>, \<^verbatim>\<open>str.lower()\<close>, \<^verbatim>\<open>str.replace(",","")\<close>\<close>

text \<open>
  A character is a code point below 256. \<^verbatim>\<open>str.isspace\<close> holds for twelve of them: tab
  to carriage return (9 to 13), the four separators 28 to 31, the space, the next-line
  character \<^verbatim>\<open>U+0085\<close> and the no-break space \<^verbatim>\<open>U+00A0\<close>.
\<close>

definition is_space :: "char \<Rightarrow> bool" where
  "is_space c \<longleftrightarrow>
     c = CHR 0x09 \<or> c = CHR 0x0A \<or> c = CHR 0x0B \<or> c = CHR 0x0C \<or> c = CHR 0x0D \<or>
     c = CHR 0x1C \<or> c = CHR 0x1D \<or> c = CHR 0x1E \<or> c = CHR 0x1F \<or> c = CHR 0x20 \<or>
     c = CHR 0x85 \<or> c = CHR 0xA0"

text \<open>
  \<^verbatim>\<open>s.split()\<close> with no argument: the maximal runs of characters that are not white
  space. \<open>cur\<close> is the run read so far.
\<close>

fun split_acc :: "string \<Rightarrow> string \<Rightarrow> string list" where
  "split_acc cur [] = (if cur = [] then [] else [cur])"
| "split_acc cur (c # cs) =
     (if is_space c then (if cur = [] then split_acc [] cs else cur # split_acc [] cs)
      else split_acc (cur @ [c]) cs)"

definition py_split :: "string \<Rightarrow> string list" where
  "py_split s = split_acc [] s"

text \<open>
  \<^verbatim>\<open>str.lower()\<close> on one character: the letters \<^verbatim>\<open>A\<close> to \<^verbatim>\<open>Z\<close>, and the capital letters
  \<^verbatim>\<open>U+00C0\<close> to \<^verbatim>\<open>U+00DE\<close> other than the sign \<^verbatim>\<open>U+00D7\<close>, move up by 32.
\<close>

definition lower_char :: "char \<Rightarrow> char" where
  "lower_char c =
     (let n = (of_char c :: nat) in
      if (65 \<le> n \<and> n \<le> 90) \<or> (192 \<le> n \<and> n \<le> 214) \<or> (216 \<le> n \<and> n \<le> 222)
      then char_of (n + 32) else c)"

definition py_lower :: "string \<Rightarrow> string" where
  "py_lower s = map lower_char s"

definition remove_commas :: "string \<Rightarrow> string" where
  "remove_commas s = filter (\<lambda>c. c \<noteq> CHR '','') s"

subsection \<open>\<^verbatim>\<open>str(n)\<close> and \<^verbatim>\<open>int(s)\<close> for integers\<close>

definition digit_char :: "nat \<Rightarrow> char" where
  "digit_char d = ''0123456789'' ! d"

fun str_nat :: "nat \<Rightarrow> string" where
  "str_nat n = (if n < 10 then [digit_char n] else str_nat (n div 10) @ [digit_char (n mod 10)])"

declare str_nat.simps [simp del]

definition str_int :: "int \<Rightarrow> string" where
  "str_int i = (if i < 0 then CHR ''-'' # str_nat (nat (- i)) else str_nat (nat i))"

definition is_digit :: "char \<Rightarrow> bool" where
  "is_digit c \<longleftrightarrow> c \<in> set ''0123456789''"

definition digit_val :: "char \<Rightarrow> nat" where
  "digit_val c = of_char c - 48"

text \<open>
  The digits of a decimal literal after its first digit; \<^verbatim>\<open>int\<close> accepts one underscore
  between two digits.
\<close>

fun digits_val :: "nat \<Rightarrow> string \<Rightarrow> nat option" where
  "digits_val acc [] = Some acc"
| "digits_val acc (c # cs) =
     (if is_digit c then digits_val (10 * acc + digit_val c) cs
      else if c = CHR ''_'' then
        (case cs of
           [] \<Rightarrow> None
         | d # ds \<Rightarrow> if is_digit d then digits_val (10 * acc + digit_val d) ds else None)
      else None)"

definition parse_nat :: "string \<Rightarrow> nat option" where
  "parse_nat s =
     (case s of [] \<Rightarrow> None | c # cs \<Rightarrow> if is_digit c then digits_val (digit_val c) cs else None)"

text \<open>
  The white space that \<^verbatim>\<open>int\<close> and \<^verbatim>\<open>float\<close> drop around a literal: the six characters
  of the C locale (9 to 13 and the space), and \<^verbatim>\<open>U+0085\<close> and \<^verbatim>\<open>U+00A0\<close>, which the
  conversion first replaces by a space. The separators 28 to 31 are not dropped:
  \<^verbatim>\<open>int("1" + chr(31))\<close> raises \<^verbatim>\<open>ValueError\<close>.
\<close>

definition is_num_space :: "char \<Rightarrow> bool" where
  "is_num_space c \<longleftrightarrow>
     c = CHR 0x09 \<or> c = CHR 0x0A \<or> c = CHR 0x0B \<or> c = CHR 0x0C \<or> c = CHR 0x0D \<or>
     c = CHR 0x20 \<or> c = CHR 0x85 \<or> c = CHR 0xA0"

definition num_strip :: "string \<Rightarrow> string" where
  "num_strip s = rev (dropWhile is_num_space (rev (dropWhile is_num_space s)))"

text \<open>
  \<^verbatim>\<open>int(s)\<close> in base 10: white space around the literal is dropped, one sign may come
  first, the digits are \<^verbatim>\<open>0\<close> to \<^verbatim>\<open>9\<close>. \<open>None\<close> is \<^verbatim>\<open>ValueError\<close>. The integers are
  unbounded, as they are where the interpreter sets no limit on the number of digits that
  \<^verbatim>\<open>int\<close> and \<^verbatim>\<open>str\<close> convert (\<^verbatim>\<open>sys.set_int_max_str_digits(0)\<close>, and every CPython before
  that setting existed); under the default limit of 4300 digits a longer literal raises
  \<^verbatim>\<open>ValueError\<close>, which is outside this model.
\<close>

definition py_int :: "string \<Rightarrow> int option" where
  "py_int s =
     (case num_strip s of
        [] \<Rightarrow> None
      | c # cs \<Rightarrow>
          if c = CHR ''-'' then map_option (\<lambda>n. - int n) (parse_nat cs)
          else if c = CHR ''+'' then map_option int (parse_nat cs)
          else map_option int (parse_nat (c # cs)))"

text \<open>\<^verbatim>\<open>str(v)\<close> for a value that is \<^verbatim>\<open>None\<close> or an integer.\<close>

definition str_opt_int :: "int option \<Rightarrow> string" where
  "str_opt_int v = (case v of None \<Rightarrow> ''None'' | Some i \<Rightarrow> str_int i)"

subsection \<open>Floating-point numbers\<close>

text \<open>
  The floats of Python are not fixed here: the functions below take the operations they
  use on them as a parameter \<open>F\<close>, over any type \<open>'f\<close> of float values.
  \<^item> \<open>py_float s\<close> is \<^verbatim>\<open>float(s)\<close>, \<open>None\<close> for \<^verbatim>\<open>ValueError\<close>;
  \<^item> \<open>str_float x\<close> is \<^verbatim>\<open>str(x)\<close> (and \<^verbatim>\<open>repr(x)\<close>);
  \<^item> \<open>fmt_6f x\<close> is \<^verbatim>\<open>"%.6f" % x\<close>;
  \<^item> \<open>fmul\<close> and \<open>fdiv\<close> are \<^verbatim>\<open>*\<close> and \<^verbatim>\<open>/\<close>;
  \<^item> \<open>float_lit m k\<close> is the float that the decimal literal \<open>m \<sqdot> 10\<^sup>-\<^sup>k\<close> denotes.
\<close>

record 'f float_ops =
  py_float :: "string \<Rightarrow> 'f option"
  str_float :: "'f \<Rightarrow> string"
  fmt_6f :: "'f \<Rightarrow> string"
  fmul :: "'f \<Rightarrow> 'f \<Rightarrow> 'f"
  fdiv :: "'f \<Rightarrow> 'f \<Rightarrow> 'f"
  float_lit :: "int \<Rightarrow> nat \<Rightarrow> 'f"

text \<open>\<^verbatim>\<open>ry2ev=13.605\<close> and \<^verbatim>\<open>bohr2angs=0.529177\<close> of \<^verbatim>\<open>__get_output_info__\<close>.\<close>

definition ry2ev :: "'f float_ops \<Rightarrow> 'f" where
  "ry2ev F = float_lit F 13605 3"

definition bohr2angs :: "'f float_ops \<Rightarrow> 'f" where
  "bohr2angs F = float_lit F 529177 6"

text \<open>\<^verbatim>\<open>str(xs)\<close> for a list of floats: \<^verbatim>\<open>[a, b, c]\<close>.\<close>

fun join_comma :: "string list \<Rightarrow> string" where
  "join_comma [] = []"
| "join_comma [s] = s"
| "join_comma (s # t # ts) = s @ '', '' @ join_comma (t # ts)"

definition str_float_list :: "'f float_ops \<Rightarrow> 'f list \<Rightarrow> string" where
  "str_float_list F xs = ''['' @ join_comma (map (str_float F) xs) @ '']''"

section \<open>The class \<^verbatim>\<open>calc\<close>\<close>

text \<open>
  A \<^verbatim>\<open>dict\<close> is the list of its items in insertion order, with distinct keys. The five
  namelist dictionaries hold the raw text of each value. \<^verbatim>\<open>d[k] = v\<close> replaces the value
  of a key that is present, where it stands, and appends a new key.
\<close>

type_synonym py_dict = "(string \<times> string) list"

fun dict_set :: "string \<Rightarrow> string \<Rightarrow> py_dict \<Rightarrow> py_dict" where
  "dict_set k v [] = [(k, v)]"
| "dict_set k v (p # d) = (if fst p = k then (k, v) # d else p # dict_set k v d)"

text \<open>\<^verbatim>\<open>d[k]\<close>: a missing key raises \<^verbatim>\<open>KeyError\<close>.\<close>

definition dict_get :: "py_dict \<Rightarrow> string \<Rightarrow> py_error + string" where
  "dict_get d k = (case map_of d k of None \<Rightarrow> Inl KeyError | Some v \<Rightarrow> Inr v)"

text \<open>
  The attributes of a \<^verbatim>\<open>calc\<close> object. \<^verbatim>\<open>x\<close>, \<^verbatim>\<open>y\<close>, \<^verbatim>\<open>z\<close> are \<open>pos_x\<close>, \<open>pos_y\<close>, \<open>pos_z\<close>
  here. The types are those of the values \<^verbatim>\<open>read_input\<close> stores: \<^verbatim>\<open>atomic_mass\<close> holds
  strings, the positions, cell vectors and k-points floats, the movement flags and the
  grid integers.
\<close>

record 'f calc =
  control :: py_dict
  system :: py_dict
  electrons :: py_dict
  ions :: py_dict
  cell :: py_dict
  atomic_species :: "string list"
  atomic_mass :: "string list"
  pseudopotential :: "string list"
  atom_type :: "string list"
  pos_x :: "'f list"
  pos_y :: "'f list"
  pos_z :: "'f list"
  kx :: "'f list"
  ky :: "'f list"
  kz :: "'f list"
  wk :: "'f list"
  if_pos1 :: "int list"
  if_pos2 :: "int list"
  if_pos3 :: "int list"
  v1 :: "'f list"
  v2 :: "'f list"
  v3 :: "'f list"
  nk1 :: "int option"
  nk2 :: "int option"
  nk3 :: "int option"
  sk1 :: "int option"
  sk2 :: "int option"
  sk3 :: "int option"
  atomic_positions_units :: string
  cell_parameters_units :: string
  k_points_type :: string

text \<open>\<^verbatim>\<open>calc.__init__\<close>.\<close>

definition calc_init :: "'f calc" where
  "calc_init =
     \<lparr>control = [], system = [], electrons = [], ions = [], cell = [],
      atomic_species = [], atomic_mass = [], pseudopotential = [], atom_type = [],
      pos_x = [], pos_y = [], pos_z = [], kx = [], ky = [], kz = [], wk = [],
      if_pos1 = [], if_pos2 = [], if_pos3 = [], v1 = [], v2 = [], v3 = [],
      nk1 = None, nk2 = None, nk3 = None, sk1 = None, sk2 = None, sk3 = None,
      atomic_positions_units = [], cell_parameters_units = [], k_points_type = []\<rparr>"

section \<open>\<^verbatim>\<open>calc.build_input\<close>\<close>

text \<open>The lines \<^verbatim>\<open>key = value,\<close> of one namelist, in the order of the dictionary.\<close>

definition namelist_lines :: "py_dict \<Rightarrow> string" where
  "namelist_lines d = concat (map (\<lambda>(k, v). k @ '' = '' @ v @ '','' @ [nl]) d)"

text \<open>
  \<^verbatim>\<open>for i in range(n): input_string += line(i)\<close>, where computing a line may raise: the
  first line that raises ends the loop.
\<close>

fun for_range :: "(nat \<Rightarrow> py_error + string) \<Rightarrow> nat list \<Rightarrow> py_error + string" where
  "for_range f [] = Inr []"
| "for_range f (i # js) =
     (case f i of
        Inl e \<Rightarrow> Inl e
      | Inr s \<Rightarrow> (case for_range f js of Inl e \<Rightarrow> Inl e | Inr t \<Rightarrow> Inr (s @ t)))"

definition sep3 :: string where
  "sep3 = ''   ''"

definition species_line :: "'f calc \<Rightarrow> nat \<Rightarrow> py_error + string" where
  "species_line self i =
     bind_err (py_nth (atomic_species self) i) (\<lambda>a.
     bind_err (py_nth (atomic_mass self) i) (\<lambda>m.
     bind_err (py_nth (pseudopotential self) i) (\<lambda>p.
       Inr (a @ sep3 @ m @ sep3 @ p @ [nl]))))"

definition vector_line :: "'f float_ops \<Rightarrow> 'f list \<Rightarrow> py_error + string" where
  "vector_line F v =
     bind_err (py_nth v 0) (\<lambda>a.
     bind_err (py_nth v 1) (\<lambda>b.
     bind_err (py_nth v 2) (\<lambda>c.
       Inr (str_float F a @ sep3 @ str_float F b @ sep3 @ str_float F c @ [nl]))))"

definition cell_parameters_card :: "'f float_ops \<Rightarrow> 'f calc \<Rightarrow> py_error + string" where
  "cell_parameters_card F self =
     bind_err (vector_line F (v1 self)) (\<lambda>l1.
     bind_err (vector_line F (v2 self)) (\<lambda>l2.
     bind_err (vector_line F (v3 self)) (\<lambda>l3.
       Inr (''CELL_PARAMETERS '' @ cell_parameters_units self @ [nl] @ l1 @ l2 @ l3))))"

definition position_line :: "'f float_ops \<Rightarrow> 'f calc \<Rightarrow> nat \<Rightarrow> py_error + string" where
  "position_line F self i =
     (if length (if_pos1 self) = 0 then
        bind_err (py_nth (atom_type self) i) (\<lambda>t.
        bind_err (py_nth (pos_x self) i) (\<lambda>a.
        bind_err (py_nth (pos_y self) i) (\<lambda>b.
        bind_err (py_nth (pos_z self) i) (\<lambda>c.
          Inr (t @ sep3 @ str_float F a @ sep3 @ str_float F b @ sep3 @ str_float F c
               @ [nl])))))
      else
        bind_err (py_nth (atom_type self) i) (\<lambda>t.
        bind_err (py_nth (pos_x self) i) (\<lambda>a.
        bind_err (py_nth (pos_y self) i) (\<lambda>b.
        bind_err (py_nth (pos_z self) i) (\<lambda>c.
        bind_err (py_nth (if_pos1 self) i) (\<lambda>p.
        bind_err (py_nth (if_pos2 self) i) (\<lambda>q.
        bind_err (py_nth (if_pos3 self) i) (\<lambda>r.
          Inr (t @ sep3 @ str_float F a @ sep3 @ str_float F b @ sep3 @ str_float F c
               @ sep3 @ str_int p @ sep3 @ str_int q @ sep3 @ str_int r @ [nl])))))))))"

definition kpoint_line :: "'f float_ops \<Rightarrow> 'f calc \<Rightarrow> nat \<Rightarrow> py_error + string" where
  "kpoint_line F self i =
     bind_err (py_nth (kx self) i) (\<lambda>a.
     bind_err (py_nth (ky self) i) (\<lambda>b.
     bind_err (py_nth (kz self) i) (\<lambda>c.
     bind_err (py_nth (wk self) i) (\<lambda>w.
       Inr (str_float F a @ sep3 @ str_float F b @ sep3 @ str_float F c @ sep3
            @ str_float F w @ [nl])))))"

definition k_points_card :: "'f float_ops \<Rightarrow> 'f calc \<Rightarrow> py_error + string" where
  "k_points_card F self =
     (if k_points_type self \<noteq> ''gamma'' then
        if k_points_type self = ''automatic'' then
          Inr (''K_POINTS '' @ k_points_type self @ [nl]
               @ str_opt_int (nk1 self) @ sep3 @ str_opt_int (nk2 self) @ sep3
               @ str_opt_int (nk3 self) @ sep3 @ str_opt_int (sk1 self) @ sep3
               @ str_opt_int (sk2 self) @ sep3 @ str_opt_int (sk3 self) @ [nl])
        else
          bind_err (for_range (kpoint_line F self) [0..<length (wk self)]) (\<lambda>ks.
            Inr (''K_POINTS '' @ k_points_type self @ [nl]
                 @ str_float_list F (wk self) @ [nl] @ ks))
      else Inr (''K_POINTS '' @ k_points_type self @ [nl]))"

text \<open>The five namelists; \<^verbatim>\<open>&CELL\<close> only for a variable-cell calculation.\<close>

definition namelists_text :: "'f calc \<Rightarrow> string \<Rightarrow> string" where
  "namelists_text self calculation =
     ''&CONTROL'' @ [nl] @ namelist_lines (control self) @ ''/'' @ [nl]
     @ ''&SYSTEM'' @ [nl] @ namelist_lines (system self) @ ''/'' @ [nl]
     @ ''&ELECTRONS'' @ [nl] @ namelist_lines (electrons self) @ ''/'' @ [nl]
     @ ''&IONS'' @ [nl] @ namelist_lines (ions self) @ ''/'' @ [nl]
     @ (if calculation = [quote] @ ''vc-relax'' @ [quote]
           \<or> calculation = [quote] @ ''vc-md'' @ [quote]
        then ''&CELL'' @ [nl] @ namelist_lines (cell self) @ ''/'' @ [nl] else [])"

text \<open>
  The first two statements of \<^verbatim>\<open>build_input\<close>: \<^verbatim>\<open>self.system["nat"]\<close> and
  \<^verbatim>\<open>self.system["ntyp"]\<close> are overwritten with the lengths of the lists.
\<close>

definition set_counts :: "'f calc \<Rightarrow> 'f calc" where
  "set_counts self =
     self\<lparr>system :=
       dict_set ''ntyp'' (str_int (int (length (atomic_species self))))
         (dict_set ''nat'' (str_int (int (length (atom_type self)))) (system self))\<rparr>"

text \<open>
  The text that \<^verbatim>\<open>build_input\<close> returns, or the exception it raises, in the order in
  which the statements can raise: \<^verbatim>\<open>self.control["calculation"]\<close>, the species lines,
  \<^verbatim>\<open>int(self.system["ibrav"])\<close>, the cell vectors, the positions, the k-points.
\<close>

definition deck_text :: "'f float_ops \<Rightarrow> 'f calc \<Rightarrow> py_error + string" where
  "deck_text F self =
     bind_err (dict_get (control self) ''calculation'') (\<lambda>calculation.
     bind_err (for_range (species_line self) [0..<length (atomic_species self)]) (\<lambda>species.
     bind_err (dict_get (system self) ''ibrav'') (\<lambda>ibrav.
     bind_err (case py_int ibrav of None \<Rightarrow> Inl ValueError | Some n \<Rightarrow> Inr n) (\<lambda>n.
     bind_err (if n = 0 then cell_parameters_card F self else Inr []) (\<lambda>cellpar.
     bind_err (for_range (position_line F self) [0..<length (atom_type self)]) (\<lambda>positions.
     bind_err (k_points_card F self) (\<lambda>kpoints.
       Inr (namelists_text self calculation
            @ ''ATOMIC_SPECIES'' @ [nl] @ species
            @ cellpar
            @ ''ATOMIC_POSITIONS '' @ atomic_positions_units self @ [nl] @ positions
            @ kpoints))))))))"

text \<open>
  \<^verbatim>\<open>build_input\<close> with \<^verbatim>\<open>saveinp=False\<close>: the object after the call, and the string returned
  or the exception raised. With \<^verbatim>\<open>saveinp=True\<close> the same string is also written to a file.
\<close>

definition build_input :: "'f float_ops \<Rightarrow> 'f calc \<Rightarrow> 'f calc \<times> (py_error + string)" where
  "build_input F self = (set_counts self, deck_text F (set_counts self))"

section \<open>\<^verbatim>\<open>calc.read_input\<close>\<close>

text \<open>
  The local variables of \<^verbatim>\<open>read_input\<close> and the object it fills. \<^verbatim>\<open>j\<close> and \<^verbatim>\<open>nk\<close> are
  \<open>r_j\<close> and \<open>r_nk\<close>; \<^verbatim>\<open>nk\<close> is unbound until the count line of a \<^verbatim>\<open>K_POINTS\<close> list is
  read. \<open>obj\<close> is \<^verbatim>\<open>self\<close>.
\<close>

record 'f reader =
  iscontrol :: bool
  issystem :: bool
  iselectrons :: bool
  isions :: bool
  iscell :: bool
  iscellparameters :: bool
  isatomicspecies :: bool
  isatomicpositions :: bool
  iskpoints :: bool
  r_j :: int
  r_nk :: "int option"
  obj :: "'f calc"

definition reader_init :: "'f calc \<Rightarrow> 'f reader" where
  "reader_init self =
     \<lparr>iscontrol = False, issystem = False, iselectrons = False, isions = False,
      iscell = False, iscellparameters = False, isatomicspecies = False,
      isatomicpositions = False, iskpoints = False, r_j = 0, r_nk = None, obj = self\<rparr>"

text \<open>
  A statement takes the state and returns the state it leaves and the exception it
  raised, if any. \<open>then_do\<close> runs the next statement unless the one before raised.
\<close>

definition then_do :: "'s \<times> py_error option \<Rightarrow> ('s \<Rightarrow> 's \<times> py_error option) \<Rightarrow> 's \<times> py_error option" where
  "then_do r f = (case r of (s, None) \<Rightarrow> f s | (s, Some e) \<Rightarrow> (s, Some e))"

definition on_obj :: "('f calc \<Rightarrow> 'f calc) \<Rightarrow> 'f reader \<Rightarrow> 'f reader" where
  "on_obj f r = r\<lparr>obj := f (obj r)\<rparr>"

text \<open>\<^verbatim>\<open>self.a.append(l[k])\<close>, \<^verbatim>\<open>self.a.append(float(l[k]))\<close>, \<^verbatim>\<open>self.a.append(int(l[k]))\<close>.\<close>

definition append_str ::
  "string list \<Rightarrow> nat \<Rightarrow> ((string list \<Rightarrow> string list) \<Rightarrow> 'f calc \<Rightarrow> 'f calc) \<Rightarrow> 'f reader
    \<Rightarrow> 'f reader \<times> py_error option" where
  "append_str l k upd r =
     (case py_nth l k of
        Inl e \<Rightarrow> (r, Some e)
      | Inr w \<Rightarrow> (on_obj (upd (\<lambda>xs. xs @ [w])) r, None))"

definition append_float ::
  "'f float_ops \<Rightarrow> string list \<Rightarrow> nat \<Rightarrow> (('f list \<Rightarrow> 'f list) \<Rightarrow> 'f calc \<Rightarrow> 'f calc)
    \<Rightarrow> 'f reader \<Rightarrow> 'f reader \<times> py_error option" where
  "append_float F l k upd r =
     (case py_nth l k of
        Inl e \<Rightarrow> (r, Some e)
      | Inr w \<Rightarrow>
          (case py_float F w of
             None \<Rightarrow> (r, Some ValueError)
           | Some a \<Rightarrow> (on_obj (upd (\<lambda>xs. xs @ [a])) r, None)))"

definition append_int ::
  "string list \<Rightarrow> nat \<Rightarrow> ((int list \<Rightarrow> int list) \<Rightarrow> 'f calc \<Rightarrow> 'f calc) \<Rightarrow> 'f reader
    \<Rightarrow> 'f reader \<times> py_error option" where
  "append_int l k upd r =
     (case py_nth l k of
        Inl e \<Rightarrow> (r, Some e)
      | Inr w \<Rightarrow>
          (case py_int w of
             None \<Rightarrow> (r, Some ValueError)
           | Some n \<Rightarrow> (on_obj (upd (\<lambda>xs. xs @ [n])) r, None)))"

text \<open>\<^verbatim>\<open>self.nk1=int(l[k])\<close> and its five siblings.\<close>

definition assign_int ::
  "string list \<Rightarrow> nat \<Rightarrow> ((int option \<Rightarrow> int option) \<Rightarrow> 'f calc \<Rightarrow> 'f calc) \<Rightarrow> 'f reader
    \<Rightarrow> 'f reader \<times> py_error option" where
  "assign_int l k upd r =
     (case py_nth l k of
        Inl e \<Rightarrow> (r, Some e)
      | Inr w \<Rightarrow>
          (case py_int w of
             None \<Rightarrow> (r, Some ValueError)
           | Some n \<Rightarrow> (on_obj (upd (\<lambda>_. Some n)) r, None)))"

text \<open>
  A line inside a namelist: \<^verbatim>\<open>/\<close> closes it, any other line stores
  \<^verbatim>\<open>l[2].replace(",","")\<close> under the key \<^verbatim>\<open>l[0]\<close>. \<open>l\<close> is not empty here.
\<close>

definition namelist_line ::
  "string list \<Rightarrow> ((bool \<Rightarrow> bool) \<Rightarrow> 'f reader \<Rightarrow> 'f reader)
    \<Rightarrow> ((py_dict \<Rightarrow> py_dict) \<Rightarrow> 'f calc \<Rightarrow> 'f calc) \<Rightarrow> 'f reader
    \<Rightarrow> 'f reader \<times> py_error option" where
  "namelist_line l flag dict r =
     (if hd l = ''/'' then (flag (\<lambda>_. False) r, None)
      else
        (case py_nth l 2 of
           Inl e \<Rightarrow> (r, Some e)
         | Inr w \<Rightarrow> (on_obj (dict (dict_set (hd l) (remove_commas w))) r, None)))"

text \<open>The three lines after \<^verbatim>\<open>CELL_PARAMETERS\<close>, told apart by \<^verbatim>\<open>j\<close>.\<close>

definition cell_parameters_line ::
  "'f float_ops \<Rightarrow> string list \<Rightarrow> 'f reader \<Rightarrow> 'f reader \<times> py_error option" where
  "cell_parameters_line F l r =
     (if r_j r = 0 then
        then_do (append_float F l 0 v1_update r) (\<lambda>r.
        then_do (append_float F l 1 v1_update r) (\<lambda>r.
        then_do (append_float F l 2 v1_update r) (\<lambda>r.
          (r\<lparr>r_j := 1\<rparr>, None))))
      else if r_j r = 1 then
        then_do (append_float F l 0 v2_update r) (\<lambda>r.
        then_do (append_float F l 1 v2_update r) (\<lambda>r.
        then_do (append_float F l 2 v2_update r) (\<lambda>r.
          (r\<lparr>r_j := 2\<rparr>, None))))
      else if r_j r = 2 then
        then_do (append_float F l 0 v3_update r) (\<lambda>r.
        then_do (append_float F l 1 v3_update r) (\<lambda>r.
        then_do (append_float F l 2 v3_update r) (\<lambda>r.
          (r\<lparr>r_j := 0, iscellparameters := False\<rparr>, None))))
      else (r, None))"

text \<open>
  \<^verbatim>\<open>j+=1\<close> and the test \<^verbatim>\<open>j==int(self.system[key])\<close> that ends a card of \<^verbatim>\<open>ntyp\<close> or
  \<^verbatim>\<open>nat\<close> lines.
\<close>

definition count_line ::
  "string \<Rightarrow> ((bool \<Rightarrow> bool) \<Rightarrow> 'f reader \<Rightarrow> 'f reader) \<Rightarrow> 'f reader
    \<Rightarrow> 'f reader \<times> py_error option" where
  "count_line key flag r0 =
     (let r = r0\<lparr>r_j := r_j r0 + 1\<rparr> in
      case dict_get (system (obj r)) key of
        Inl e \<Rightarrow> (r, Some e)
      | Inr w \<Rightarrow>
          (case py_int w of
             None \<Rightarrow> (r, Some ValueError)
           | Some n \<Rightarrow>
               if r_j r = n then (flag (\<lambda>_. False) (r\<lparr>r_j := 0\<rparr>), None) else (r, None)))"

definition atomic_species_line :: "string list \<Rightarrow> 'f reader \<Rightarrow> 'f reader \<times> py_error option" where
  "atomic_species_line l r =
     then_do (append_str l 0 atomic_species_update r) (\<lambda>r.
     then_do (append_str l 1 atomic_mass_update r) (\<lambda>r.
     then_do (append_str l 2 pseudopotential_update r) (\<lambda>r.
       count_line ''ntyp'' isatomicspecies_update r)))"

definition atomic_positions_line ::
  "'f float_ops \<Rightarrow> string list \<Rightarrow> 'f reader \<Rightarrow> 'f reader \<times> py_error option" where
  "atomic_positions_line F l r =
     then_do (append_str l 0 atom_type_update r) (\<lambda>r.
     then_do (append_float F l 1 pos_x_update r) (\<lambda>r.
     then_do (append_float F l 2 pos_y_update r) (\<lambda>r.
     then_do (append_float F l 3 pos_z_update r) (\<lambda>r.
     then_do
       (if length l = 7 then
          then_do (append_int l 4 if_pos1_update r) (\<lambda>r.
          then_do (append_int l 5 if_pos2_update r) (\<lambda>r.
            append_int l 6 if_pos3_update r))
        else (r, None))
       (\<lambda>r. count_line ''nat'' isatomicpositions_update r)))))"

text \<open>The header line \<^verbatim>\<open>K_POINTS type\<close>.\<close>

definition k_points_header :: "string list \<Rightarrow> 'f reader \<Rightarrow> 'f reader \<times> py_error option" where
  "k_points_header l r =
     (case py_nth l 1 of
        Inl e \<Rightarrow> (r, Some e)
      | Inr w \<Rightarrow>
          (let r1 = on_obj (k_points_type_update (\<lambda>_. w)) r in
           if w \<noteq> ''gamma'' then (r1\<lparr>iskpoints := True\<rparr>, None) else (r1, None)))"

text \<open>
  A line read while \<^verbatim>\<open>iskpoints\<close> holds: the six integers of an automatic grid, or the
  count line and then the points of a list. Reading \<^verbatim>\<open>nk\<close> before it is assigned raises
  \<^verbatim>\<open>UnboundLocalError\<close>.
\<close>

definition k_points_line ::
  "'f float_ops \<Rightarrow> string list \<Rightarrow> 'f reader \<Rightarrow> 'f reader \<times> py_error option" where
  "k_points_line F l r =
     (if k_points_type (obj r) = ''automatic'' then
        then_do (assign_int l 0 nk1_update r) (\<lambda>r.
        then_do (assign_int l 1 nk2_update r) (\<lambda>r.
        then_do (assign_int l 2 nk3_update r) (\<lambda>r.
        then_do (assign_int l 3 sk1_update r) (\<lambda>r.
        then_do (assign_int l 4 sk2_update r) (\<lambda>r.
          assign_int l 5 sk3_update r)))))
      else if r_j r = 0 then
        (case py_nth l 0 of
           Inl e \<Rightarrow> (r, Some e)
         | Inr w \<Rightarrow>
             (case py_int w of
                None \<Rightarrow> (r, Some ValueError)
              | Some n \<Rightarrow> (r\<lparr>r_nk := Some n, r_j := 1\<rparr>, None)))
      else
        then_do (append_float F l 0 kx_update r) (\<lambda>r.
        then_do (append_float F l 1 ky_update r) (\<lambda>r.
        then_do (append_float F l 2 kz_update r) (\<lambda>r.
        then_do (append_float F l 3 wk_update r) (\<lambda>r0.
          (let r = r0\<lparr>r_j := r_j r0 + 1\<rparr> in
           case r_nk r of
             None \<Rightarrow> (r, Some UnboundLocalError)
           | Some n \<Rightarrow>
               if r_j r > n then (r\<lparr>iskpoints := False, r_j := 0\<rparr>, None)
               else (r, None)))))))"

text \<open>
  The body of the loop \<^verbatim>\<open>for line in lines\<close>: the chain of \<^verbatim>\<open>if\<close>/\<^verbatim>\<open>elif\<close> in the order of
  the source. Its first test reads \<^verbatim>\<open>l[0]\<close>, so a line without a token raises
  \<^verbatim>\<open>IndexError\<close>.
\<close>

definition read_line :: "'f float_ops \<Rightarrow> 'f reader \<Rightarrow> string \<Rightarrow> 'f reader \<times> py_error option" where
  "read_line F r line =
     (let l = py_split line in
      if l = [] then (r, Some IndexError)
      else if py_lower (hd l) = ''&control'' then (r\<lparr>iscontrol := True\<rparr>, None)
      else if iscontrol r then namelist_line l iscontrol_update control_update r
      else if py_lower (hd l) = ''&system'' then (r\<lparr>issystem := True\<rparr>, None)
      else if issystem r then namelist_line l issystem_update system_update r
      else if py_lower (hd l) = ''&electrons'' then (r\<lparr>iselectrons := True\<rparr>, None)
      else if iselectrons r then namelist_line l iselectrons_update electrons_update r
      else if py_lower (hd l) = ''&ions'' then (r\<lparr>isions := True\<rparr>, None)
      else if isions r then namelist_line l isions_update ions_update r
      else if py_lower (hd l) = ''&cell'' then (r\<lparr>iscell := True\<rparr>, None)
      else if iscell r then namelist_line l iscell_update cell_update r
      else if py_lower (hd l) = ''cell_parameters'' then
        (if length l = 2
         then (on_obj (cell_parameters_units_update (\<lambda>_. l ! 1)) (r\<lparr>iscellparameters := True\<rparr>),
               None)
         else (r\<lparr>iscellparameters := True\<rparr>, None))
      else if iscellparameters r then cell_parameters_line F l r
      else if py_lower (hd l) = ''atomic_species'' then (r\<lparr>isatomicspecies := True\<rparr>, None)
      else if isatomicspecies r then atomic_species_line l r
      else if py_lower (hd l) = ''atomic_positions'' then
        (if length l = 2
         then (on_obj (atomic_positions_units_update (\<lambda>_. l ! 1)) (r\<lparr>isatomicpositions := True\<rparr>),
               None)
         else (r\<lparr>isatomicpositions := True\<rparr>, None))
      else if isatomicpositions r then atomic_positions_line F l r
      else if py_lower (hd l) = ''k_points'' then k_points_header l r
      else if iskpoints r then k_points_line F l r
      else (r, None))"

text \<open>The loop: the first line that raises ends it.\<close>

fun read_lines :: "'f float_ops \<Rightarrow> 'f reader \<Rightarrow> string list \<Rightarrow> 'f reader \<times> py_error option" where
  "read_lines F r [] = (r, None)"
| "read_lines F r (line # rest) =
     (case read_line F r line of
        (r', None) \<Rightarrow> read_lines F r' rest
      | (r', Some e) \<Rightarrow> (r', Some e))"

text \<open>
  \<^verbatim>\<open>f.readlines()\<close> for a file opened in text mode: a line ends at \<^verbatim>\<open>\n\<close>, \<^verbatim>\<open>\r\n\<close> or
  \<^verbatim>\<open>\r\<close>, each read as \<^verbatim>\<open>\n\<close>, and keeps that character.
\<close>

fun readlines_acc :: "string \<Rightarrow> string \<Rightarrow> string list" where
  "readlines_acc cur [] = (if cur = [] then [] else [cur])"
| "readlines_acc cur (c # cs) =
     (if c = nl then (cur @ [nl]) # readlines_acc [] cs
      else if c = CHR 0x0D then
        (case cs of
           [] \<Rightarrow> [cur @ [nl]]
         | d # ds \<Rightarrow>
             if d = nl then (cur @ [nl]) # readlines_acc [] ds
             else (cur @ [nl]) # readlines_acc [] cs)
      else readlines_acc (cur @ [c]) cs)"

definition readlines :: "string \<Rightarrow> string list" where
  "readlines text = readlines_acc [] text"

text \<open>
  \<^verbatim>\<open>read_input\<close>: \<open>file\<close> is the text of \<^verbatim>\<open>inpfile\<close>, or \<open>None\<close> when there is no such
  file, in which case the method returns at once. The result is the object after the
  call and the exception raised, if any.
\<close>

definition read_input :: "'f float_ops \<Rightarrow> 'f calc \<Rightarrow> string option \<Rightarrow> 'f calc \<times> py_error option" where
  "read_input F self file =
     (case file of
        None \<Rightarrow> (self, None)
      | Some text \<Rightarrow>
          (case read_lines F (reader_init self) (readlines text) of (r, e) \<Rightarrow> (obj r, e)))"

section \<open>The class \<^verbatim>\<open>out\<close> and \<^verbatim>\<open>calc.__write_coords__\<close>\<close>

text \<open>
  The attributes of an \<^verbatim>\<open>out\<close> object; \<^verbatim>\<open>atom_type\<close>, \<^verbatim>\<open>x\<close>, \<^verbatim>\<open>y\<close>, \<^verbatim>\<open>z\<close>, \<^verbatim>\<open>v1\<close>, \<^verbatim>\<open>v2\<close>, \<^verbatim>\<open>v3\<close>
  carry the prefix \<open>out_\<close> here.
\<close>

record 'f out =
  out_atom_type :: "string list"
  out_x :: "'f list"
  out_y :: "'f list"
  out_z :: "'f list"
  fx :: "'f list"
  fy :: "'f list"
  fz :: "'f list"
  out_v1 :: "'f list"
  out_v2 :: "'f list"
  out_v3 :: "'f list"
  energy :: "'f list"
  efermi :: "'f option"
  magnetization :: "'f list"
  absmagnetization :: "'f list"
  jobdone :: bool

definition dquote :: char where
  "dquote = CHR 0x22"

text \<open>The second line of the file: the nine components of the cell vectors.\<close>

definition lattice_line :: "'f float_ops \<Rightarrow> 'f out \<Rightarrow> py_error + string" where
  "lattice_line F pw_out_obj =
     bind_err (py_nth (out_v1 pw_out_obj) 0) (\<lambda>a1.
     bind_err (py_nth (out_v1 pw_out_obj) 1) (\<lambda>a2.
     bind_err (py_nth (out_v1 pw_out_obj) 2) (\<lambda>a3.
     bind_err (py_nth (out_v2 pw_out_obj) 0) (\<lambda>b1.
     bind_err (py_nth (out_v2 pw_out_obj) 1) (\<lambda>b2.
     bind_err (py_nth (out_v2 pw_out_obj) 2) (\<lambda>b3.
     bind_err (py_nth (out_v3 pw_out_obj) 0) (\<lambda>c1.
     bind_err (py_nth (out_v3 pw_out_obj) 1) (\<lambda>c2.
     bind_err (py_nth (out_v3 pw_out_obj) 2) (\<lambda>c3.
       Inr (''Lattice='' @ [dquote]
            @ fmt_6f F a1 @ '' '' @ fmt_6f F a2 @ '' '' @ fmt_6f F a3 @ '' ''
            @ fmt_6f F b1 @ '' '' @ fmt_6f F b2 @ '' '' @ fmt_6f F b3 @ '' ''
            @ fmt_6f F c1 @ '' '' @ fmt_6f F c2 @ '' '' @ fmt_6f F c3
            @ [dquote] @ '' Properties=species:S:1:pos:R:3'' @ [nl]))))))))))"

definition coord_line :: "'f float_ops \<Rightarrow> 'f out \<Rightarrow> nat \<Rightarrow> py_error + string" where
  "coord_line F pw_out_obj i =
     bind_err (py_nth (out_atom_type pw_out_obj) i) (\<lambda>t.
     bind_err (py_nth (out_x pw_out_obj) i) (\<lambda>a.
     bind_err (py_nth (out_y pw_out_obj) i) (\<lambda>b.
     bind_err (py_nth (out_z pw_out_obj) i) (\<lambda>c.
       Inr (t @ '' '' @ fmt_6f F a @ '' '' @ fmt_6f F b @ '' '' @ fmt_6f F c @ [nl])))))"

text \<open>
  \<^verbatim>\<open>__write_coords__\<close>: the object after the call, and the text written to
  \<^verbatim>\<open>coordfile\<close> when the call returns, or the exception raised.
\<close>

definition write_coords :: "'f float_ops \<Rightarrow> 'f out \<Rightarrow> 'f out \<times> (py_error + string)" where
  "write_coords F pw_out_obj =
     (pw_out_obj,
      bind_err (lattice_line F pw_out_obj) (\<lambda>lattice.
      bind_err (for_range (coord_line F pw_out_obj) [0..<length (out_atom_type pw_out_obj)])
        (\<lambda>coords.
          Inr (str_int (int (length (out_atom_type pw_out_obj))) @ [nl] @ lattice @ coords))))"

section \<open>\<^verbatim>\<open>calc.__get_output_info__\<close>\<close>

text \<open>
  The local variables of the scanner, each with the prefix \<open>s_\<close>. \<^verbatim>\<open>a0\<close>, \<^verbatim>\<open>natoms\<close> and
  \<^verbatim>\<open>efermi\<close> start as \<^verbatim>\<open>None\<close>.
\<close>

record 'f scan =
  s_nextcellpar :: bool
  s_nextcoords :: bool
  s_nextforces :: bool
  s_i :: int
  s_j :: int
  s_a0 :: "'f option"
  s_t :: "string list"
  s_x :: "'f list"
  s_y :: "'f list"
  s_z :: "'f list"
  s_fx :: "'f list"
  s_fy :: "'f list"
  s_fz :: "'f list"
  s_v1 :: "'f list"
  s_v2 :: "'f list"
  s_v3 :: "'f list"
  s_natoms :: "int option"
  s_energy :: "'f list"
  s_magnetization :: "'f list"
  s_absmagnetization :: "'f list"
  s_efermi :: "'f option"
  s_jobdone :: bool

definition scan_init :: "'f scan" where
  "scan_init =
     \<lparr>s_nextcellpar = False, s_nextcoords = False, s_nextforces = False, s_i = 0, s_j = 0,
      s_a0 = None, s_t = [], s_x = [], s_y = [], s_z = [], s_fx = [], s_fy = [], s_fz = [],
      s_v1 = [], s_v2 = [], s_v3 = [], s_natoms = None, s_energy = [],
      s_magnetization = [], s_absmagnetization = [], s_efermi = None, s_jobdone = False\<rparr>"

text \<open>\<^verbatim>\<open>float(l[k])\<close>: \<^verbatim>\<open>IndexError\<close> or \<^verbatim>\<open>ValueError\<close>.\<close>

definition float_at :: "'f float_ops \<Rightarrow> string list \<Rightarrow> nat \<Rightarrow> py_error + 'f" where
  "float_at F l k =
     bind_err (py_nth l k) (\<lambda>w.
       case py_float F w of None \<Rightarrow> Inl ValueError | Some a \<Rightarrow> Inr a)"

text \<open>\<^verbatim>\<open>float(l[k])*a0\<close>: the product with \<^verbatim>\<open>None\<close> raises \<^verbatim>\<open>TypeError\<close>.\<close>

definition scaled_at :: "'f float_ops \<Rightarrow> string list \<Rightarrow> nat \<Rightarrow> 'f option \<Rightarrow> py_error + 'f" where
  "scaled_at F l k a0 =
     bind_err (float_at F l k) (\<lambda>a.
       case a0 of None \<Rightarrow> Inl TypeError | Some s \<Rightarrow> Inr (fmul F a s))"

text \<open>The three components \<^verbatim>\<open>l[3]\<close>, \<^verbatim>\<open>l[4]\<close>, \<^verbatim>\<open>l[5]\<close> of a cell vector, each times \<^verbatim>\<open>a0\<close>.\<close>

definition scaled_vector :: "'f float_ops \<Rightarrow> string list \<Rightarrow> 'f option \<Rightarrow> py_error + 'f list" where
  "scaled_vector F l a0 =
     bind_err (scaled_at F l 3 a0) (\<lambda>a.
     bind_err (scaled_at F l 4 a0) (\<lambda>b.
     bind_err (scaled_at F l 5 a0) (\<lambda>c. Inr [a, b, c])))"

text \<open>\<^verbatim>\<open>float(l[k])*ry2ev/bohr2angs\<close>.\<close>

definition force_at :: "'f float_ops \<Rightarrow> string list \<Rightarrow> nat \<Rightarrow> py_error + 'f" where
  "force_at F l k =
     bind_err (float_at F l k) (\<lambda>a. Inr (fdiv F (fmul F a (ry2ev F)) (bohr2angs F)))"

text \<open>The tests of the chain of \<^verbatim>\<open>if\<close>/\<^verbatim>\<open>elif\<close> on the tokens \<open>l\<close> of a line.\<close>

definition marker_energy :: "string list \<Rightarrow> bool" where
  "marker_energy l \<longleftrightarrow> length l \<ge> 5 \<and> l ! 0 = ''!''"

definition marker_fermi :: "string list \<Rightarrow> bool" where
  "marker_fermi l \<longleftrightarrow>
     length l \<ge> 5 \<and> py_lower (l ! 0) = ''the'' \<and> py_lower (l ! 1) = ''fermi''
     \<and> py_lower (l ! 2) = ''energy''"

definition marker_magnetization :: "string list \<Rightarrow> bool" where
  "marker_magnetization l \<longleftrightarrow> length l \<ge> 4 \<and> l ! 1 = ''magnetization''"

definition marker_lattice :: "string list \<Rightarrow> bool" where
  "marker_lattice l \<longleftrightarrow>
     length l \<ge> 5 \<and> py_lower (l ! 0) = ''lattice'' \<and> py_lower (l ! 1) = ''parameter''"

definition marker_number_of :: "string list \<Rightarrow> bool" where
  "marker_number_of l \<longleftrightarrow>
     length l \<ge> 5 \<and> py_lower (l ! 0) = ''number'' \<and> py_lower (l ! 1) = ''of''"

definition marker_crystal_axes :: "string list \<Rightarrow> bool" where
  "marker_crystal_axes l \<longleftrightarrow>
     length l \<ge> 2 \<and> py_lower (l ! 0) = ''crystal'' \<and> py_lower (l ! 1) = ''axes:''"

definition marker_forces :: "string list \<Rightarrow> bool" where
  "marker_forces l \<longleftrightarrow>
     length l \<ge> 7 \<and> py_lower (l ! 0) = ''forces'' \<and> py_lower (l ! 1) = ''acting''
     \<and> py_lower (l ! 2) = ''on'' \<and> py_lower (l ! 3) = ''atoms''"

definition marker_positions :: "string list \<Rightarrow> bool" where
  "marker_positions l \<longleftrightarrow> length l \<ge> 1 \<and> py_lower (l ! 0) = ''atomic_positions''"

definition marker_terminated :: "string list \<Rightarrow> bool" where
  "marker_terminated l \<longleftrightarrow> length l \<ge> 5 \<and> py_lower (l ! 3) = ''terminated''"

text \<open>
  The body of the loop over the lines of the log, where \<open>l\<close> is
  \<^verbatim>\<open>line.rstrip().split()\<close>. The local variables are lost when a statement raises, so
  the result is the new state or the exception. The counter \<^verbatim>\<open>i\<close> of the lines of a
  cell-vector block is incremented and never reset.
\<close>

definition scan_line :: "'f float_ops \<Rightarrow> 'f scan \<Rightarrow> string \<Rightarrow> py_error + 'f scan" where
  "scan_line F s line =
     (let l = py_split line in
      if marker_energy l then
        bind_err (float_at F l 4) (\<lambda>a.
          Inr (s\<lparr>s_energy := s_energy s @ [fmul F a (ry2ev F)]\<rparr>))
      else if marker_fermi l then
        bind_err (float_at F l 4) (\<lambda>a. Inr (s\<lparr>s_efermi := Some a\<rparr>))
      else if marker_magnetization l then
        (if l ! 0 = ''total'' then
           (case py_float F (l ! 3) of
              None \<Rightarrow> Inr s
            | Some a \<Rightarrow> Inr (s\<lparr>s_magnetization := s_magnetization s @ [a]\<rparr>))
         else if l ! 0 = ''absolute'' then
           (case py_float F (l ! 3) of
              None \<Rightarrow> Inr s
            | Some a \<Rightarrow> Inr (s\<lparr>s_absmagnetization := s_absmagnetization s @ [a]\<rparr>))
         else Inr s)
      else if marker_lattice l then
        bind_err (float_at F l 4) (\<lambda>a. Inr (s\<lparr>s_a0 := Some (fmul F a (bohr2angs F))\<rparr>))
      else if marker_number_of l then
        (if py_lower (l ! 2) = ''atoms/cell'' then
           (case py_int (l ! 4) of
              None \<Rightarrow> Inl ValueError
            | Some n \<Rightarrow> Inr (s\<lparr>s_natoms := Some n\<rparr>))
         else Inr s)
      else if marker_crystal_axes l then
        Inr (s\<lparr>s_nextcellpar := True, s_v1 := [], s_v2 := [], s_v3 := []\<rparr>)
      else if s_nextcellpar s then
        (if s_i s = 0 then
           bind_err (scaled_vector F l (s_a0 s)) (\<lambda>v.
             Inr (s\<lparr>s_v1 := s_v1 s @ v, s_i := s_i s + 1\<rparr>))
         else if s_i s = 1 then
           bind_err (scaled_vector F l (s_a0 s)) (\<lambda>v.
             Inr (s\<lparr>s_v2 := s_v2 s @ v, s_i := s_i s + 1\<rparr>))
         else if s_i s = 2 then
           bind_err (scaled_vector F l (s_a0 s)) (\<lambda>v.
             Inr (s\<lparr>s_v3 := s_v3 s @ v, s_nextcellpar := False, s_i := s_i s + 1\<rparr>))
         else Inr (s\<lparr>s_i := s_i s + 1\<rparr>))
      else if marker_forces l then
        Inr (s\<lparr>s_nextforces := True, s_fx := [], s_fy := [], s_fz := [], s_j := 0\<rparr>)
      else if s_nextforces s then
        (if length l > 0 then
           bind_err (force_at F l 6) (\<lambda>a.
           bind_err (force_at F l 7) (\<lambda>b.
           bind_err (force_at F l 8) (\<lambda>c.
             (let s1 = s\<lparr>s_fx := s_fx s @ [a], s_fy := s_fy s @ [b], s_fz := s_fz s @ [c],
                          s_j := s_j s + 1\<rparr>
              in if Some (s_j s1) = s_natoms s1
                 then Inr (s1\<lparr>s_j := 0, s_nextforces := False\<rparr>) else Inr s1))))
         else Inr s)
      else if marker_positions l then
        Inr (s\<lparr>s_nextcoords := True, s_t := [], s_x := [], s_y := [], s_z := [], s_j := 0\<rparr>)
      else if s_nextcoords s then
        bind_err (py_nth l 0) (\<lambda>t.
        bind_err (float_at F l 1) (\<lambda>a.
        bind_err (float_at F l 2) (\<lambda>b.
        bind_err (float_at F l 3) (\<lambda>c.
          (let s1 = s\<lparr>s_t := s_t s @ [t], s_x := s_x s @ [a], s_y := s_y s @ [b],
                       s_z := s_z s @ [c], s_j := s_j s + 1\<rparr>
           in if Some (s_j s1) = s_natoms s1
              then Inr (s1\<lparr>s_j := 0, s_nextcoords := False\<rparr>) else Inr s1)))))
      else if marker_terminated l then
        Inr (s\<lparr>s_jobdone := True\<rparr>)
      else Inr s)"

fun scan_lines :: "'f float_ops \<Rightarrow> 'f scan \<Rightarrow> string list \<Rightarrow> py_error + 'f scan" where
  "scan_lines F s [] = Inr s"
| "scan_lines F s (line # rest) =
     (case scan_line F s line of Inl e \<Rightarrow> Inl e | Inr s' \<Rightarrow> scan_lines F s' rest)"

text \<open>The \<^verbatim>\<open>out\<close> object assembled after the loop.\<close>

definition out_of_scan :: "'f scan \<Rightarrow> 'f out" where
  "out_of_scan s =
     \<lparr>out_atom_type = s_t s, out_x = s_x s, out_y = s_y s, out_z = s_z s,
      fx = s_fx s, fy = s_fy s, fz = s_fz s,
      out_v1 = s_v1 s, out_v2 = s_v2 s, out_v3 = s_v3 s,
      energy = s_energy s, efermi = s_efermi s, magnetization = s_magnetization s,
      absmagnetization = s_absmagnetization s, jobdone = s_jobdone s\<rparr>"

text \<open>
  \<^verbatim>\<open>__get_output_info__\<close> on the lines \<^verbatim>\<open>output.readlines()\<close>, with \<^verbatim>\<open>saveout=False\<close>. With
  \<^verbatim>\<open>savecoords=True\<close> it calls \<^verbatim>\<open>__write_coords__\<close>, whose exception it passes on.
\<close>

definition get_output_info :: "'f float_ops \<Rightarrow> string list \<Rightarrow> bool \<Rightarrow> py_error + 'f out" where
  "get_output_info F lines savecoords =
     bind_err (scan_lines F scan_init lines) (\<lambda>s.
       (let pw_out_obj = out_of_scan s in
        if savecoords then
          (case snd (write_coords F pw_out_obj) of
             Inl e \<Rightarrow> Inl e
           | Inr text \<Rightarrow> Inr pw_out_obj)
        else Inr pw_out_obj))"

section \<open>An instance of the float operations: exact decimal arithmetic\<close>

text \<open>
  For evaluating the functions above on concrete inputs, the floats are taken to be
  rational numbers with exact arithmetic. \<open>dec_py_float\<close> reads a plain decimal literal
  (an optional sign, digits, an optional fraction), \<open>dec_str_float\<close> prints a number with
  the digits of its fraction (at least one, at most 17), and \<open>dec_fmt_6f\<close> prints six
  digits after the point, rounded to the nearest. On the literals used below they agree with Python, up
  to the rounding of binary floating point.
\<close>

definition digits_fold :: "string \<Rightarrow> nat \<Rightarrow> nat" where
  "digits_fold ds acc = fold (\<lambda>c a. 10 * a + digit_val c) ds acc"

definition digits_int :: "string \<Rightarrow> int" where
  "digits_int ds = fold (\<lambda>c a. 10 * a + int (digit_val c)) ds 0"

definition dec_unsigned :: "string \<Rightarrow> rat option" where
  "dec_unsigned t =
     (let ip = takeWhile is_digit t; rest = dropWhile is_digit t in
      case rest of
        [] \<Rightarrow> if ip = [] then None else Some (of_int (digits_int ip))
      | d # fs \<Rightarrow>
          if d = CHR ''.'' \<and> list_all is_digit fs \<and> (ip \<noteq> [] \<or> fs \<noteq> [])
          then Some (of_int (digits_int ip) + of_int (digits_int fs) / 10 ^ length fs)
          else None)"

definition dec_py_float :: "string \<Rightarrow> rat option" where
  "dec_py_float s =
     (case num_strip s of
        [] \<Rightarrow> None
      | c # cs \<Rightarrow>
          if c = CHR ''-'' then map_option uminus (dec_unsigned cs)
          else if c = CHR ''+'' then dec_unsigned cs
          else dec_unsigned (c # cs))"

fun frac_digits :: "nat \<Rightarrow> rat \<Rightarrow> string" where
  "frac_digits 0 r = []"
| "frac_digits (Suc n) r =
     (if r = 0 then []
      else (let d = nat \<lfloor>r * 10\<rfloor> in digit_char d # frac_digits n (r * 10 - of_nat d)))"

definition dec_str_float :: "rat \<Rightarrow> string" where
  "dec_str_float a =
     (let b = \<bar>a\<bar>; ip = nat \<lfloor>b\<rfloor>; fs = frac_digits 17 (b - of_nat ip) in
      (if a < 0 then ''-'' else []) @ str_nat ip @ ''.'' @ (if fs = [] then ''0'' else fs))"

text \<open>Exactly \<open>n\<close> digits of the fraction \<open>r\<close>, cut off.\<close>

fun fixed_digits :: "nat \<Rightarrow> rat \<Rightarrow> string" where
  "fixed_digits 0 r = []"
| "fixed_digits (Suc n) r =
     (let d = nat \<lfloor>r * 10\<rfloor> in digit_char d # fixed_digits n (r * 10 - of_nat d))"

definition dec_fmt_6f :: "rat \<Rightarrow> string" where
  "dec_fmt_6f a =
     (let b = \<bar>a\<bar> + 1 / 2000000; ip = nat \<lfloor>b\<rfloor> in
      (if a < 0 then ''-'' else []) @ str_nat ip @ ''.'' @ fixed_digits 6 (b - of_nat ip))"

definition dec_ops :: "rat float_ops" where
  "dec_ops =
     \<lparr>py_float = dec_py_float, str_float = dec_str_float, fmt_6f = dec_fmt_6f,
      fmul = (\<lambda>a b. a * b), fdiv = (\<lambda>a b. a / b),
      float_lit = (\<lambda>m k. of_int m / 10 ^ k)\<rparr>"



section \<open>Properties of the integer conversions\<close>

lemma digit_char_props:
  assumes "d < 10"
  shows "is_digit (digit_char d) \<and> digit_val (digit_char d) = d \<and> \<not> is_space (digit_char d)
     \<and> digit_char d \<noteq> CHR ''-'' \<and> digit_char d \<noteq> CHR ''+''"
proof -
  from assms have "d \<in> {0, 1, 2, 3, 4, 5, 6, 7, 8, 9}" by auto
  then show ?thesis
    by (auto simp: digit_char_def is_digit_def digit_val_def is_space_def)
qed

lemma digits_val_digits:
  "\<forall>c \<in> set ds. is_digit c \<Longrightarrow> digits_val acc (ds @ es) = digits_val (digits_fold ds acc) es"
  by (induction ds arbitrary: acc) (auto simp: digits_fold_def)

lemma str_nat_digits:
  "\<forall>c \<in> set (str_nat n). is_digit c \<and> \<not> is_space c \<and> c \<noteq> CHR ''-'' \<and> c \<noteq> CHR ''+''"
proof (induction n rule: str_nat.induct)
  case (1 n)
  show ?case
  proof (cases "n < 10")
    case True
    then show ?thesis by (subst str_nat.simps) (simp add: digit_char_props)
  next
    case False
    have "n mod 10 < 10" by simp
    with False 1 show ?thesis by (subst str_nat.simps) (auto simp: digit_char_props)
  qed
qed

lemma str_nat_nonempty: "str_nat n \<noteq> []"
  by (subst str_nat.simps) simp

lemma str_nat_fold: "digits_fold (str_nat n) acc = acc * 10 ^ length (str_nat n) + n"
proof (induction n arbitrary: acc rule: str_nat.induct)
  case (1 n)
  show ?case
  proof (cases "n < 10")
    case True
    then show ?thesis
      by (subst (1 2) str_nat.simps) (simp add: digits_fold_def digit_char_props)
  next
    case False
    have m: "n mod 10 < 10" by simp
    from False 1 have ih:
      "digits_fold (str_nat (n div 10)) acc = acc * 10 ^ length (str_nat (n div 10)) + n div 10"
      by simp
    have "digits_fold (str_nat n) acc = 10 * digits_fold (str_nat (n div 10)) acc + n mod 10"
      using False m by (subst str_nat.simps) (simp add: digits_fold_def digit_char_props)
    also have "\<dots> = acc * 10 ^ length (str_nat n) + n"
      using False by (subst (2) str_nat.simps) (simp add: ih algebra_simps)
    finally show ?thesis .
  qed
qed

lemma parse_nat_str_nat: "parse_nat (str_nat n) = Some n"
proof -
  obtain c cs where s: "str_nat n = c # cs"
    using str_nat_nonempty [of n] by (cases "str_nat n") auto
  have dig: "\<forall>c \<in> set (str_nat n). is_digit c" using str_nat_digits by blast
  then have c: "is_digit c" using s by simp
  have "digits_val 0 (str_nat n @ []) = digits_val (digits_fold (str_nat n) 0) []"
    using dig by (rule digits_val_digits)
  then have "digits_val 0 (str_nat n) = Some n" by (simp add: str_nat_fold)
  then have "digits_val 0 (c # cs) = Some n" using s by simp
  then show ?thesis using s c by (simp add: parse_nat_def)
qed

lemma dropWhile_none: "\<forall>c \<in> set s. \<not> P c \<Longrightarrow> dropWhile P s = s"
  by (cases s) auto

lemma is_num_space_is_space: "is_num_space c \<Longrightarrow> is_space c"
  by (auto simp: is_num_space_def is_space_def)

lemma num_strip_no_space: "\<forall>c \<in> set s. \<not> is_space c \<Longrightarrow> num_strip s = s"
proof -
  assume "\<forall>c \<in> set s. \<not> is_space c"
  then have n: "\<forall>c \<in> set s. \<not> is_num_space c" using is_num_space_is_space by blast
  then have "dropWhile is_num_space s = s" by (rule dropWhile_none)
  moreover from n have "dropWhile is_num_space (rev s) = rev s"
    by (intro dropWhile_none) simp
  ultimately show ?thesis by (simp add: num_strip_def)
qed

lemma str_int_no_space: "\<forall>c \<in> set (str_int i). \<not> is_space c"
  using str_nat_digits by (auto simp: str_int_def is_space_def)

lemma py_int_str_int: "py_int (str_int i) = Some i"
proof (cases "i < 0")
  case True
  have "num_strip (str_int i) = str_int i" by (rule num_strip_no_space [OF str_int_no_space])
  then show ?thesis using True by (simp add: py_int_def str_int_def parse_nat_str_nat)
next
  case False
  obtain c cs where s: "str_nat (nat i) = c # cs"
    using str_nat_nonempty [of "nat i"] by (cases "str_nat (nat i)") auto
  then have c: "c \<noteq> CHR ''-'' \<and> c \<noteq> CHR ''+''" using str_nat_digits [of "nat i"] by auto
  have "num_strip (str_int i) = str_int i" by (rule num_strip_no_space [OF str_int_no_space])
  moreover have "parse_nat (c # cs) = Some (nat i)"
    using parse_nat_str_nat [of "nat i"] s by simp
  ultimately show ?thesis using False s c by (simp add: py_int_def str_int_def)
qed

text \<open>
  The conversions at the edges: a separator after the digits is no white space for
  \<^verbatim>\<open>int\<close>, a no-break space is, for \<^verbatim>\<open>int\<close> and for \<^verbatim>\<open>split\<close>; one underscore may stand
  between two digits.
\<close>

lemma py_int_examples:
  "py_int (''1'' @ [CHR 0x1F]) = None" "py_int (''1'' @ [CHR 0xA0]) = Some 1"
  "py_int [CHR 0x85, CHR ''+'', CHR ''7'', CHR 0x0C] = Some 7" "py_int '' -1_0 '' = Some (- 10)"
  "py_int ''1__0'' = None" "py_int ''- 1'' = None" "py_int ''0x1'' = None" "py_int [] = None"
  by code_simp+

lemma py_split_examples:
  "py_split (''a'' @ [CHR 0xA0] @ ''b'') = [''a'', ''b'']"
  "py_split (''a'' @ [CHR 0x1F] @ ''b'' @ [CHR 0x85]) = [''a'', ''b'']"
  "py_lower [CHR ''A'', CHR 0xC0, CHR 0xD7, CHR 0xDE, CHR 0xDF] = [CHR ''a'', CHR 0xE0, CHR 0xD7, CHR 0xFE, CHR 0xDF]"
  by code_simp+

section \<open>Properties of dictionaries\<close>

lemma map_of_dict_set: "map_of (dict_set k v d) k' = (if k' = k then Some v else map_of d k')"
  by (induction d) auto

lemma dict_set_same: "map_of d k = Some v \<Longrightarrow> dict_set k v d = d"
  by (induction d) (auto split: if_splits)

lemma keys_dict_set:
  "map fst (dict_set k v d) = (if k \<in> fst ` set d then map fst d else map fst d @ [k])"
  by (induction d) auto

section \<open>What \<^verbatim>\<open>build_input\<close> does to the object, and when it returns\<close>

lemma set_counts_fields:
  "control (set_counts self) = control self"
  "atomic_species (set_counts self) = atomic_species self"
  "atomic_mass (set_counts self) = atomic_mass self"
  "pseudopotential (set_counts self) = pseudopotential self"
  "atom_type (set_counts self) = atom_type self"
  "pos_x (set_counts self) = pos_x self"
  "pos_y (set_counts self) = pos_y self"
  "pos_z (set_counts self) = pos_z self"
  "if_pos1 (set_counts self) = if_pos1 self"
  "if_pos2 (set_counts self) = if_pos2 self"
  "if_pos3 (set_counts self) = if_pos3 self"
  "v1 (set_counts self) = v1 self"
  "v2 (set_counts self) = v2 self"
  "v3 (set_counts self) = v3 self"
  "kx (set_counts self) = kx self"
  "ky (set_counts self) = ky self"
  "kz (set_counts self) = kz self"
  "wk (set_counts self) = wk self"
  "k_points_type (set_counts self) = k_points_type self"
  "nk1 (set_counts self) = nk1 self"
  "nk2 (set_counts self) = nk2 self"
  "nk3 (set_counts self) = nk3 self"
  "sk1 (set_counts self) = sk1 self"
  "sk2 (set_counts self) = sk2 self"
  "sk3 (set_counts self) = sk3 self"
  "electrons (set_counts self) = electrons self"
  "ions (set_counts self) = ions self"
  "cell (set_counts self) = cell self"
  "atomic_positions_units (set_counts self) = atomic_positions_units self"
  "cell_parameters_units (set_counts self) = cell_parameters_units self"
  by (simp_all add: set_counts_def)

lemma set_counts_other_keys:
  "k \<noteq> ''nat'' \<Longrightarrow> k \<noteq> ''ntyp'' \<Longrightarrow> map_of (system (set_counts self)) k = map_of (system self) k"
  by (simp add: set_counts_def map_of_dict_set)

lemma set_counts_nat:
  "map_of (system (set_counts self)) ''nat'' = Some (str_int (int (length (atom_type self))))"
  by (simp add: set_counts_def map_of_dict_set)

lemma set_counts_ntyp:
  "map_of (system (set_counts self)) ''ntyp'' = Some (str_int (int (length (atomic_species self))))"
  by (simp add: set_counts_def map_of_dict_set)

lemma set_counts_consistent:
  assumes "map_of (system self) ''nat'' = Some (str_int (int (length (atom_type self))))"
    and "map_of (system self) ''ntyp'' = Some (str_int (int (length (atomic_species self))))"
  shows "set_counts self = self"
proof -
  let ?d = "dict_set ''nat'' (str_int (int (length (atom_type self)))) (system self)"
  have d: "?d = system self" using assms(1) by (rule dict_set_same)
  have "dict_set ''ntyp'' (str_int (int (length (atomic_species self)))) ?d = system self"
    unfolding d using assms(2) by (rule dict_set_same)
  then show ?thesis by (simp add: set_counts_def)
qed

text \<open>
  The conditions under which no statement of \<^verbatim>\<open>build_input\<close> raises: the key
  \<^verbatim>\<open>calculation\<close> is in \<^verbatim>\<open>control\<close>, \<^verbatim>\<open>ibrav\<close> is in \<^verbatim>\<open>system\<close> with a value that \<^verbatim>\<open>int\<close>
  accepts, and every list that a loop indexes is as long as the list the loop runs over.
\<close>

definition build_ok :: "'f calc \<Rightarrow> bool" where
  "build_ok self \<longleftrightarrow>
     map_of (control self) ''calculation'' \<noteq> None
     \<and> length (atomic_species self) \<le> length (atomic_mass self)
     \<and> length (atomic_species self) \<le> length (pseudopotential self)
     \<and> (case Option.bind (map_of (system self) ''ibrav'') py_int of
          None \<Rightarrow> False
        | Some n \<Rightarrow>
            n = 0 \<longrightarrow> 3 \<le> length (v1 self) \<and> 3 \<le> length (v2 self) \<and> 3 \<le> length (v3 self))
     \<and> length (atom_type self) \<le> length (pos_x self)
     \<and> length (atom_type self) \<le> length (pos_y self)
     \<and> length (atom_type self) \<le> length (pos_z self)
     \<and> (if_pos1 self \<noteq> [] \<longrightarrow>
          length (atom_type self) \<le> length (if_pos1 self)
          \<and> length (atom_type self) \<le> length (if_pos2 self)
          \<and> length (atom_type self) \<le> length (if_pos3 self))
     \<and> (k_points_type self \<noteq> ''gamma'' \<and> k_points_type self \<noteq> ''automatic'' \<longrightarrow>
          length (wk self) \<le> length (kx self)
          \<and> length (wk self) \<le> length (ky self)
          \<and> length (wk self) \<le> length (kz self))"

lemma for_range_Inr_iff:
  "(\<exists>s. for_range f js = Inr s) \<longleftrightarrow> (\<forall>i \<in> set js. \<exists>s. f i = Inr s)"
  by (induction js) (auto split: sum.splits)

lemma for_range_Inl: "for_range f js = Inl e \<Longrightarrow> \<exists>i \<in> set js. f i = Inl e"
  by (induction js) (auto split: sum.splits)

lemma bind_err_Inr_iff:
  "(\<exists>s. bind_err r f = Inr s) \<longleftrightarrow> (\<exists>a. r = Inr a \<and> (\<exists>s. f a = Inr s))"
  by (cases r) (auto simp: bind_err_def)

lemma bind_err_Inl_cases:
  "bind_err r f = Inl e \<Longrightarrow> r = Inl e \<or> (\<exists>a. r = Inr a \<and> f a = Inl e)"
  by (cases r) (auto simp: bind_err_def)

lemma py_nth_Inr_iff: "(\<exists>a. py_nth xs i = Inr a \<and> P a) \<longleftrightarrow> i < length xs \<and> P (xs ! i)"
  by (auto simp: py_nth_def)

lemma py_nth_ok: "(\<exists>a. py_nth xs i = Inr a) \<longleftrightarrow> i < length xs"
  by (auto simp: py_nth_def)

lemma py_nth_Inl: "py_nth xs i = Inl e \<Longrightarrow> e = IndexError"
  by (auto simp: py_nth_def split: if_splits)

lemma species_line_ok:
  "(\<exists>s. species_line self i = Inr s) \<longleftrightarrow>
     i < length (atomic_species self) \<and> i < length (atomic_mass self)
     \<and> i < length (pseudopotential self)"
  by (simp add: species_line_def bind_err_Inr_iff py_nth_Inr_iff py_nth_ok)

lemma vector_line_ok: "(\<exists>s. vector_line F v = Inr s) \<longleftrightarrow> 3 \<le> length v"
  by (auto simp add: vector_line_def bind_err_Inr_iff py_nth_Inr_iff py_nth_ok)

lemma cell_parameters_card_ok:
  "(\<exists>s. cell_parameters_card F self = Inr s) \<longleftrightarrow>
     3 \<le> length (v1 self) \<and> 3 \<le> length (v2 self) \<and> 3 \<le> length (v3 self)"
proof -
  have "(\<exists>s. cell_parameters_card F self = Inr s) \<longleftrightarrow>
     (\<exists>s. vector_line F (v1 self) = Inr s) \<and> (\<exists>s. vector_line F (v2 self) = Inr s)
      \<and> (\<exists>s. vector_line F (v3 self) = Inr s)"
    by (auto simp: cell_parameters_card_def bind_err_def split: sum.splits)
  then show ?thesis by (simp add: vector_line_ok)
qed

lemma position_line_ok:
  "(\<exists>s. position_line F self i = Inr s) \<longleftrightarrow>
     i < length (atom_type self) \<and> i < length (pos_x self) \<and> i < length (pos_y self)
     \<and> i < length (pos_z self)
     \<and> (if_pos1 self \<noteq> [] \<longrightarrow>
          i < length (if_pos1 self) \<and> i < length (if_pos2 self) \<and> i < length (if_pos3 self))"
  by (simp add: position_line_def bind_err_Inr_iff py_nth_Inr_iff py_nth_ok)

lemma kpoint_line_ok:
  "(\<exists>s. kpoint_line F self i = Inr s) \<longleftrightarrow>
     i < length (kx self) \<and> i < length (ky self) \<and> i < length (kz self) \<and> i < length (wk self)"
  by (simp add: kpoint_line_def bind_err_Inr_iff py_nth_Inr_iff py_nth_ok)

lemma all_less_iff: "(\<forall>i \<in> set [0..<n]. i < m) \<longleftrightarrow> n \<le> m"
  by (cases n) auto

lemma species_ok:
  "(\<exists>s. for_range (species_line self) [0..<length (atomic_species self)] = Inr s) \<longleftrightarrow>
     length (atomic_species self) \<le> length (atomic_mass self)
     \<and> length (atomic_species self) \<le> length (pseudopotential self)"
  unfolding for_range_Inr_iff species_line_ok
  using all_less_iff [of "length (atomic_species self)"] by auto

lemma positions_ok:
  "(\<exists>s. for_range (position_line F self) [0..<length (atom_type self)] = Inr s) \<longleftrightarrow>
     length (atom_type self) \<le> length (pos_x self)
     \<and> length (atom_type self) \<le> length (pos_y self)
     \<and> length (atom_type self) \<le> length (pos_z self)
     \<and> (if_pos1 self \<noteq> [] \<longrightarrow>
          length (atom_type self) \<le> length (if_pos1 self)
          \<and> length (atom_type self) \<le> length (if_pos2 self)
          \<and> length (atom_type self) \<le> length (if_pos3 self))"
  unfolding for_range_Inr_iff position_line_ok
  using all_less_iff [of "length (atom_type self)"] by auto

lemma k_points_card_ok:
  "(\<exists>s. k_points_card F self = Inr s) \<longleftrightarrow>
     (k_points_type self \<noteq> ''gamma'' \<and> k_points_type self \<noteq> ''automatic'' \<longrightarrow>
          length (wk self) \<le> length (kx self)
          \<and> length (wk self) \<le> length (ky self)
          \<and> length (wk self) \<le> length (kz self))"
proof -
  have "(\<exists>s. for_range (kpoint_line F self) [0..<length (wk self)] = Inr s) \<longleftrightarrow>
      length (wk self) \<le> length (kx self) \<and> length (wk self) \<le> length (ky self)
          \<and> length (wk self) \<le> length (kz self)"
    unfolding for_range_Inr_iff kpoint_line_ok using all_less_iff [of "length (wk self)"]
    by auto
  then show ?thesis
    by (auto simp: k_points_card_def bind_err_Inr_iff)
qed

lemma deck_text_ok: "(\<exists>s. deck_text F self = Inr s) \<longleftrightarrow> build_ok self"
proof -
  have "(\<exists>s. deck_text F self = Inr s) \<longleftrightarrow>
    (\<exists>c. dict_get (control self) ''calculation'' = Inr c)
    \<and> (\<exists>s. for_range (species_line self) [0..<length (atomic_species self)] = Inr s)
    \<and> (\<exists>ib. dict_get (system self) ''ibrav'' = Inr ib \<and> (\<exists>n. py_int ib = Some n
         \<and> (\<exists>s. (if n = 0 then cell_parameters_card F self else Inr []) = Inr s)))
    \<and> (\<exists>s. for_range (position_line F self) [0..<length (atom_type self)] = Inr s)
    \<and> (\<exists>s. k_points_card F self = Inr s)"
    unfolding deck_text_def bind_err_def by (auto split: sum.splits option.splits)
  also have "\<dots> \<longleftrightarrow> build_ok self"
    unfolding species_ok positions_ok k_points_card_ok build_ok_def
    by (auto simp: dict_get_def cell_parameters_card_ok split: option.splits Option.bind_splits)
  finally show ?thesis .
qed

lemma build_ok_set_counts: "build_ok (set_counts self) = build_ok self"
  by (simp add: build_ok_def set_counts_fields set_counts_other_keys cong: option.case_cong)

text \<open>The exceptions of \<^verbatim>\<open>build_input\<close> are of three kinds.\<close>

definition build_error :: "py_error \<Rightarrow> bool" where
  "build_error e \<longleftrightarrow> e = KeyError \<or> e = ValueError \<or> e = IndexError"

lemma for_range_IndexError:
  assumes "\<And>i e. f i = Inl e \<Longrightarrow> e = IndexError" and "for_range f js = Inl e"
  shows "e = IndexError"
  using for_range_Inl [OF assms(2)] assms(1) by blast

lemma species_line_Inl: "species_line self i = Inl e \<Longrightarrow> e = IndexError"
  by (auto simp: species_line_def dest!: bind_err_Inl_cases py_nth_Inl)

lemma vector_line_Inl: "vector_line F v = Inl e \<Longrightarrow> e = IndexError"
  by (auto simp: vector_line_def dest!: bind_err_Inl_cases py_nth_Inl)

lemma cell_parameters_card_Inl: "cell_parameters_card F self = Inl e \<Longrightarrow> e = IndexError"
  by (auto simp: cell_parameters_card_def dest!: bind_err_Inl_cases vector_line_Inl)

lemma position_line_Inl: "position_line F self i = Inl e \<Longrightarrow> e = IndexError"
  by (auto simp: position_line_def split: if_splits dest!: bind_err_Inl_cases py_nth_Inl)

lemma kpoint_line_Inl: "kpoint_line F self i = Inl e \<Longrightarrow> e = IndexError"
  by (auto simp: kpoint_line_def dest!: bind_err_Inl_cases py_nth_Inl)

lemma k_points_card_Inl: "k_points_card F self = Inl e \<Longrightarrow> e = IndexError"
proof -
  assume a: "k_points_card F self = Inl e"
  then have "for_range (kpoint_line F self) [0..<length (wk self)] = Inl e"
    by (auto simp: k_points_card_def split: if_splits dest!: bind_err_Inl_cases)
  then show ?thesis using kpoint_line_Inl for_range_IndexError by metis
qed

lemma species_lines_Inl: "for_range (species_line self) js = Inl e \<Longrightarrow> e = IndexError"
  using species_line_Inl for_range_IndexError by metis

lemma position_lines_Inl: "for_range (position_line F self) js = Inl e \<Longrightarrow> e = IndexError"
  using position_line_Inl for_range_IndexError by metis

lemma deck_text_Inl: "deck_text F self = Inl e \<Longrightarrow> build_error e"
  unfolding deck_text_def build_error_def
  by (auto simp: dict_get_def split: option.splits if_splits
      dest!: bind_err_Inl_cases
      dest: species_lines_Inl position_lines_Inl cell_parameters_card_Inl k_points_card_Inl)


subsection \<open>Example decks\<close>

text \<open>
  A hydrogen molecule in a cubic cell, as a deck for a relaxation: two atoms of one
  species, the cell given by its vectors (\<^verbatim>\<open>ibrav = 0\<close>), the k-point \<^verbatim>\<open>gamma\<close>.
\<close>

definition h2_model :: "rat calc" where
  "h2_model = calc_init
     \<lparr>control := [(''calculation'', [quote] @ ''relax'' @ [quote])],
      system := [(''ibrav'', ''0''), (''nat'', ''2''), (''ntyp'', ''1''), (''ecutwfc'', ''30.0'')],
      atomic_species := [''H''], atomic_mass := [''1.008''],
      pseudopotential := [''H.pbe.UPF''],
      atom_type := [''H'', ''H''],
      pos_x := [0, 7 / 10], pos_y := [0, 0], pos_z := [0, 0],
      v1 := [10, 0, 0], v2 := [0, 10, 0], v3 := [0, 0, 10],
      atomic_positions_units := ''angstrom'', cell_parameters_units := ''angstrom'',
      k_points_type := ''gamma''\<rparr>"

text \<open>The same deck with stale counts in \<^verbatim>\<open>system\<close>.\<close>

definition h2_stale :: "rat calc" where
  "h2_stale = h2_model\<lparr>system := [(''nat'', ''7''), (''ibrav'', ''0'')]\<rparr>"

text \<open>
  Two atoms, the second read from a line without movement flags: \<^verbatim>\<open>if_pos1\<close> has one
  entry. No namelist has been filled.
\<close>

definition mixed_flags :: "rat calc" where
  "mixed_flags = calc_init
     \<lparr>atom_type := [''H'', ''H''], pos_x := [0, 7 / 10], pos_y := [0, 0], pos_z := [0, 0],
      if_pos1 := [1], if_pos2 := [1], if_pos3 := [1], k_points_type := ''gamma''\<rparr>"

text \<open>The same atoms in a deck whose namelists hold \<^verbatim>\<open>calculation\<close> and \<^verbatim>\<open>ibrav\<close>.\<close>

definition mixed_flags_deck :: "rat calc" where
  "mixed_flags_deck = mixed_flags
     \<lparr>control := [(''calculation'', [quote] @ ''scf'' @ [quote])],
      system := [(''ibrav'', ''1'')]\<rparr>"

text \<open>A text as the concatenation of its lines, each ended by \<^verbatim>\<open>\n\<close>.\<close>

definition unlines :: "string list \<Rightarrow> string" where
  "unlines ls = concat (map (\<lambda>l. l @ [nl]) ls)"

text \<open>
  The line of atom \<open>i\<close> in the card \<^verbatim>\<open>ATOMIC_POSITIONS\<close>, as the claim about the movement
  flags describes it: the label and the three coordinates, and the three flags exactly
  when \<^verbatim>\<open>if_pos1\<close> is not empty.
\<close>

definition position_columns :: "'f float_ops \<Rightarrow> 'f calc \<Rightarrow> nat \<Rightarrow> string" where
  "position_columns F self i =
     atom_type self ! i @ sep3 @ str_float F (pos_x self ! i) @ sep3
     @ str_float F (pos_y self ! i) @ sep3 @ str_float F (pos_z self ! i)
     @ (if if_pos1 self = [] then []
        else sep3 @ str_int (if_pos1 self ! i) @ sep3 @ str_int (if_pos2 self ! i)
             @ sep3 @ str_int (if_pos3 self ! i))
     @ [nl]"

subsection \<open>Theorems about \<^verbatim>\<open>build_input\<close>\<close>

lemma str_int_small:
  "str_int 0 = ''0''" "str_int 1 = ''1''" "str_int 2 = ''2''" "str_int 3 = ''3''"
  by code_simp+

text \<open>
  Claim C8. After \<^verbatim>\<open>build_input\<close>, whether it returned or raised, \<^verbatim>\<open>system["nat"]\<close> is the
  decimal string of the length of \<^verbatim>\<open>atom_type\<close> and \<^verbatim>\<open>system["ntyp"]\<close> that of the length
  of \<^verbatim>\<open>atomic_species\<close>, whatever the two keys held before; read back with \<^verbatim>\<open>int\<close> they
  are these lengths.
\<close>

theorem build_input_counts:
  "map_of (system (fst (build_input F self))) ''nat''
     = Some (str_int (int (length (atom_type self))))
   \<and> map_of (system (fst (build_input F self))) ''ntyp''
     = Some (str_int (int (length (atomic_species self))))
   \<and> Option.bind (map_of (system (fst (build_input F self))) ''nat'') py_int
     = Some (int (length (atom_type self)))
   \<and> Option.bind (map_of (system (fst (build_input F self))) ''ntyp'') py_int
     = Some (int (length (atomic_species self)))"
  by (simp add: build_input_def set_counts_nat set_counts_ntyp py_int_str_int)

theorem build_input_counts_witness:
  "map_of (system h2_stale) ''nat'' = Some ''7''
   \<and> map_of (system h2_stale) ''ntyp'' = None
   \<and> map_of (system (fst (build_input dec_ops h2_stale))) ''nat'' = Some ''2''
   \<and> map_of (system (fst (build_input dec_ops h2_stale))) ''ntyp'' = Some ''1''"
  using build_input_counts [of dec_ops h2_stale]
  by (simp add: h2_stale_def h2_model_def calc_init_def str_int_small)

text \<open>
  Claim C6, as amended. \<^verbatim>\<open>build_input\<close> writes to the object it serializes: it assigns
  \<^verbatim>\<open>system["nat"]\<close> and \<^verbatim>\<open>system["ntyp"]\<close>. Every other attribute and every other key of
  \<^verbatim>\<open>system\<close> is unchanged, and the whole object is unchanged when the two keys already
  hold the lengths of the lists. \<^verbatim>\<open>__write_coords__\<close> leaves its object unchanged.
\<close>

theorem build_input_frame:
  "fst (build_input F self) = self\<lparr>system := system (fst (build_input F self))\<rparr>
   \<and> (\<forall>k. k \<noteq> ''nat'' \<and> k \<noteq> ''ntyp'' \<longrightarrow>
         map_of (system (fst (build_input F self))) k = map_of (system self) k)
   \<and> (map_of (system self) ''nat'' = Some (str_int (int (length (atom_type self))))
       \<and> map_of (system self) ''ntyp'' = Some (str_int (int (length (atomic_species self))))
       \<longrightarrow> fst (build_input F self) = self)
   \<and> fst (write_coords F pw_out_obj) = pw_out_obj"
proof -
  have "fst (build_input F self) = self\<lparr>system := system (fst (build_input F self))\<rparr>"
    by (simp add: build_input_def set_counts_def)
  moreover have "\<forall>k. k \<noteq> ''nat'' \<and> k \<noteq> ''ntyp'' \<longrightarrow>
         map_of (system (fst (build_input F self))) k = map_of (system self) k"
    by (simp add: build_input_def set_counts_other_keys)
  moreover have "map_of (system self) ''nat'' = Some (str_int (int (length (atom_type self))))
       \<and> map_of (system self) ''ntyp'' = Some (str_int (int (length (atomic_species self))))
       \<longrightarrow> fst (build_input F self) = self"
    by (simp add: build_input_def set_counts_consistent)
  moreover have "fst (write_coords F pw_out_obj) = pw_out_obj"
    by (simp add: write_coords_def)
  ultimately show ?thesis by blast
qed

theorem build_input_frame_witness:
  "fst (build_input dec_ops h2_model) = h2_model
   \<and> map_of (system (fst (build_input dec_ops h2_stale))) ''ibrav'' = Some ''0''
   \<and> atom_type (fst (build_input dec_ops h2_stale)) = [''H'', ''H'']"
proof -
  have "map_of (system h2_model) ''nat'' = Some (str_int (int (length (atom_type h2_model))))"
    by (simp add: h2_model_def calc_init_def str_int_small)
  moreover have
    "map_of (system h2_model) ''ntyp'' = Some (str_int (int (length (atomic_species h2_model))))"
    by (simp add: h2_model_def calc_init_def str_int_small)
  ultimately have "fst (build_input dec_ops h2_model) = h2_model"
    using build_input_frame [of dec_ops h2_model] by blast
  moreover have "map_of (system (fst (build_input dec_ops h2_stale))) ''ibrav'' = Some ''0''"
    using build_input_frame [of dec_ops h2_stale]
    by (simp add: h2_stale_def h2_model_def calc_init_def)
  moreover have "atom_type (fst (build_input dec_ops h2_stale)) = [''H'', ''H'']"
    by (simp add: build_input_def set_counts_def h2_stale_def h2_model_def calc_init_def)
  ultimately show ?thesis by blast
qed

text \<open>
  Counterexample to claim C6 as stated: on a new \<^verbatim>\<open>calc\<close> object, \<^verbatim>\<open>build_input\<close> leaves
  two keys in the \<^verbatim>\<open>system\<close> dictionary, which was empty.
\<close>

theorem build_input_changes_system:
  "system (calc_init :: rat calc) = []
   \<and> system (fst (build_input dec_ops calc_init)) = [(''nat'', ''0''), (''ntyp'', ''0'')]
   \<and> fst (build_input dec_ops calc_init) \<noteq> calc_init"
proof -
  have s: "system (fst (build_input dec_ops calc_init)) = [(''nat'', ''0''), (''ntyp'', ''0'')]"
    by (simp add: build_input_def set_counts_def calc_init_def str_int_small)
  have i: "system (calc_init :: rat calc) = []" by (simp add: calc_init_def)
  from s i have "system (fst (build_input dec_ops calc_init)) \<noteq> system (calc_init :: rat calc)"
    by simp
  then have "fst (build_input dec_ops calc_init) \<noteq> calc_init" by metis
  with s i show ?thesis by blast
qed

text \<open>
  Claim C3, as amended. \<^verbatim>\<open>build_input\<close> is not total. It returns the text of the deck
  exactly when \<^verbatim>\<open>control\<close> has the key \<^verbatim>\<open>calculation\<close>, \<^verbatim>\<open>system\<close> has the key \<^verbatim>\<open>ibrav\<close>
  with a value \<^verbatim>\<open>int\<close> accepts, and the lists indexed by its loops are long enough
  (\<open>build_ok\<close>); otherwise it raises \<^verbatim>\<open>KeyError\<close>, \<^verbatim>\<open>ValueError\<close> or \<^verbatim>\<open>IndexError\<close>.
\<close>

theorem build_input_returns_iff:
  "((\<exists>s. snd (build_input F self) = Inr s) \<longleftrightarrow> build_ok self)
   \<and> (\<forall>e. snd (build_input F self) = Inl e \<longrightarrow> build_error e)"
  by (simp add: build_input_def deck_text_ok build_ok_set_counts deck_text_Inl)

theorem build_input_returns_iff_witness:
  "build_ok h2_model
   \<and> snd (build_input dec_ops h2_model) = Inr (unlines
       [''&CONTROL'',
        ''calculation = '' @ [quote] @ ''relax'' @ [quote] @ '','',
        ''/'',
        ''&SYSTEM'',
        ''ibrav = 0,'',
        ''nat = 2,'',
        ''ntyp = 1,'',
        ''ecutwfc = 30.0,'',
        ''/'',
        ''&ELECTRONS'',
        ''/'',
        ''&IONS'',
        ''/'',
        ''ATOMIC_SPECIES'',
        ''H   1.008   H.pbe.UPF'',
        ''CELL_PARAMETERS angstrom'',
        ''10.0   0.0   0.0'',
        ''0.0   10.0   0.0'',
        ''0.0   0.0   10.0'',
        ''ATOMIC_POSITIONS angstrom'',
        ''H   0.0   0.0   0.0'',
        ''H   0.7   0.0   0.0'',
        ''K_POINTS gamma''])"
proof -
  have t: "snd (build_input dec_ops h2_model) = Inr (unlines
       [''&CONTROL'',
        ''calculation = '' @ [quote] @ ''relax'' @ [quote] @ '','',
        ''/'',
        ''&SYSTEM'',
        ''ibrav = 0,'',
        ''nat = 2,'',
        ''ntyp = 1,'',
        ''ecutwfc = 30.0,'',
        ''/'',
        ''&ELECTRONS'',
        ''/'',
        ''&IONS'',
        ''/'',
        ''ATOMIC_SPECIES'',
        ''H   1.008   H.pbe.UPF'',
        ''CELL_PARAMETERS angstrom'',
        ''10.0   0.0   0.0'',
        ''0.0   10.0   0.0'',
        ''0.0   0.0   10.0'',
        ''ATOMIC_POSITIONS angstrom'',
        ''H   0.0   0.0   0.0'',
        ''H   0.7   0.0   0.0'',
        ''K_POINTS gamma''])"
    by code_simp
  then have "build_ok h2_model"
    using build_input_returns_iff [of dec_ops h2_model] by blast
  with t show ?thesis by blast
qed

text \<open>
  Counterexample to claim C3 as stated: on a new \<^verbatim>\<open>calc\<close> object, whose \<^verbatim>\<open>control\<close> has
  no key \<^verbatim>\<open>calculation\<close>, \<^verbatim>\<open>build_input\<close> raises \<^verbatim>\<open>KeyError\<close>.
\<close>

theorem build_input_raises_KeyError:
  "snd (build_input dec_ops calc_init) = Inl KeyError"
  by (simp add: build_input_def deck_text_def set_counts_def calc_init_def dict_get_def
      bind_err_def)


lemma for_range_concat:
  "\<forall>i \<in> set js. f i = Inr (g i) \<Longrightarrow> for_range f js = Inr (concat (map g js))"
  by (induction js) auto

lemma position_line_columns:
  assumes "i < length (atom_type self)" and "build_ok self"
  shows "position_line F self i = Inr (position_columns F self i)"
proof -
  from assms have "i < length (pos_x self)" "i < length (pos_y self)" "i < length (pos_z self)"
    by (auto simp: build_ok_def)
  moreover from assms have "if_pos1 self \<noteq> [] \<longrightarrow>
      i < length (if_pos1 self) \<and> i < length (if_pos2 self) \<and> i < length (if_pos3 self)"
    by (auto simp: build_ok_def)
  ultimately show ?thesis using assms(1)
    by (simp add: position_line_def position_columns_def py_nth_def bind_err_def)
qed

lemma position_columns_set_counts:
  "position_columns F (set_counts self) = position_columns F self"
  by (rule ext) (simp add: position_columns_def set_counts_fields)

lemma kpoint_line_set_counts: "kpoint_line F (set_counts self) = kpoint_line F self"
  by (rule ext) (simp add: kpoint_line_def set_counts_fields)

lemma k_points_card_set_counts: "k_points_card F (set_counts self) = k_points_card F self"
  by (simp add: k_points_card_def kpoint_line_set_counts set_counts_fields)

lemma deck_text_positions:
  assumes "build_ok self"
  shows "\<exists>pre kp. k_points_card F self = Inr kp
    \<and> deck_text F self = Inr (pre
         @ concat (map (position_columns F self) [0..<length (atom_type self)]) @ kp)"
proof -
  from assms obtain dk where t: "deck_text F self = Inr dk"
    using deck_text_ok by blast
  have p: "for_range (position_line F self) [0..<length (atom_type self)]
      = Inr (concat (map (position_columns F self) [0..<length (atom_type self)]))"
    by (rule for_range_concat) (simp add: position_line_columns assms)
  from assms obtain kp where kp: "k_points_card F self = Inr kp"
    using k_points_card_ok [of F self] by (auto simp: build_ok_def)
  from t p kp show ?thesis
    unfolding deck_text_def bind_err_def
    by (auto split: sum.splits option.splits if_splits)
qed

lemma deck_text_IndexError:
  assumes "deck_text F self = Inl e"
    and "map_of (control self) ''calculation'' \<noteq> None"
    and "Option.bind (map_of (system self) ''ibrav'') py_int \<noteq> None"
  shows "e = IndexError"
  using assms unfolding deck_text_def
  by (auto simp: dict_get_def split: option.splits if_splits Option.bind_splits
      dest!: bind_err_Inl_cases
      dest: species_lines_Inl position_lines_Inl cell_parameters_card_Inl k_points_card_Inl)

text \<open>
  Claim C9, as amended. When \<^verbatim>\<open>build_input\<close> returns, the lines of the card
  \<^verbatim>\<open>ATOMIC_POSITIONS\<close> carry the three movement flags for every atom if \<^verbatim>\<open>if_pos1\<close> is not
  empty and for no atom if it is empty. When \<^verbatim>\<open>if_pos1\<close> is not empty and shorter than
  \<^verbatim>\<open>atom_type\<close>, \<^verbatim>\<open>build_input\<close> returns no text: it raises, and the exception is
  \<^verbatim>\<open>IndexError\<close> whenever \<^verbatim>\<open>control\<close> has the key \<^verbatim>\<open>calculation\<close> and \<^verbatim>\<open>system\<close> has a key
  \<^verbatim>\<open>ibrav\<close> that \<^verbatim>\<open>int\<close> accepts.
\<close>

theorem build_input_movement_flags:
  "(build_ok self \<longrightarrow>
      (\<exists>pre kp. k_points_card F self = Inr kp
        \<and> snd (build_input F self) = Inr (pre
             @ concat (map (position_columns F self) [0..<length (atom_type self)]) @ kp)))
   \<and> (if_pos1 self \<noteq> [] \<and> length (if_pos1 self) < length (atom_type self) \<longrightarrow>
        (\<exists>e. snd (build_input F self) = Inl e)
        \<and> (map_of (control self) ''calculation'' \<noteq> None
            \<and> Option.bind (map_of (system self) ''ibrav'') py_int \<noteq> None
            \<longrightarrow> snd (build_input F self) = Inl IndexError))"
proof (intro conjI impI)
  assume ok: "build_ok self"
  then have "build_ok (set_counts self)" by (simp add: build_ok_set_counts)
  from deck_text_positions [OF this, of F] show
    "\<exists>pre kp. k_points_card F self = Inr kp
        \<and> snd (build_input F self) = Inr (pre
             @ concat (map (position_columns F self) [0..<length (atom_type self)]) @ kp)"
    by (simp add: build_input_def position_columns_set_counts set_counts_fields
        k_points_card_set_counts)
next
  assume a: "if_pos1 self \<noteq> [] \<and> length (if_pos1 self) < length (atom_type self)"
  then have "\<not> build_ok self" by (auto simp: build_ok_def)
  then have "\<not> (\<exists>s. deck_text F (set_counts self) = Inr s)"
    by (simp add: deck_text_ok build_ok_set_counts)
  then show "\<exists>e. snd (build_input F self) = Inl e"
    by (cases "deck_text F (set_counts self)") (auto simp: build_input_def)
next
  assume a: "if_pos1 self \<noteq> [] \<and> length (if_pos1 self) < length (atom_type self)"
    and b: "map_of (control self) ''calculation'' \<noteq> None
            \<and> Option.bind (map_of (system self) ''ibrav'') py_int \<noteq> None"
  from a have "\<not> build_ok self" by (auto simp: build_ok_def)
  then have "\<not> (\<exists>s. deck_text F (set_counts self) = Inr s)"
    by (simp add: deck_text_ok build_ok_set_counts)
  then obtain e where e: "deck_text F (set_counts self) = Inl e"
    by (cases "deck_text F (set_counts self)") auto
  from b have "map_of (control (set_counts self)) ''calculation'' \<noteq> None"
    and "Option.bind (map_of (system (set_counts self)) ''ibrav'') py_int \<noteq> None"
    by (simp_all add: set_counts_fields set_counts_other_keys)
  with e have "e = IndexError" by (rule deck_text_IndexError)
  with e show "snd (build_input F self) = Inl IndexError" by (simp add: build_input_def)
qed

theorem build_input_movement_flags_witness:
  "build_ok h2_model
   \<and> map (position_columns dec_ops h2_model) [0..<length (atom_type h2_model)]
       = [''H   0.0   0.0   0.0'' @ [nl], ''H   0.7   0.0   0.0'' @ [nl]]
   \<and> if_pos1 mixed_flags_deck \<noteq> []
   \<and> length (if_pos1 mixed_flags_deck) < length (atom_type mixed_flags_deck)
   \<and> snd (build_input dec_ops mixed_flags_deck) = Inl IndexError"
proof -
  have 1: "build_ok h2_model" by code_simp
  have 2: "map (position_columns dec_ops h2_model) [0..<length (atom_type h2_model)]
       = [''H   0.0   0.0   0.0'' @ [nl], ''H   0.7   0.0   0.0'' @ [nl]]"
    by code_simp
  have 3: "if_pos1 mixed_flags_deck \<noteq> []
     \<and> length (if_pos1 mixed_flags_deck) < length (atom_type mixed_flags_deck)"
    by (simp add: mixed_flags_deck_def mixed_flags_def calc_init_def)
  have 4: "map_of (control mixed_flags_deck) ''calculation'' \<noteq> None"
    by (simp add: mixed_flags_deck_def mixed_flags_def calc_init_def)
  have 5: "Option.bind (map_of (system mixed_flags_deck) ''ibrav'') py_int \<noteq> None"
    by code_simp
  from 3 4 5 have "snd (build_input dec_ops mixed_flags_deck) = Inl IndexError"
    using build_input_movement_flags [of mixed_flags_deck dec_ops] by blast
  with 1 2 3 show ?thesis by blast
qed

text \<open>
  Counterexample to claim C9 as stated: \<^verbatim>\<open>if_pos1\<close> has one entry for two atoms, and the
  exception is the \<^verbatim>\<open>KeyError\<close> of \<^verbatim>\<open>self.control["calculation"]\<close>, raised before the
  positions are reached.
\<close>

theorem build_input_short_flags_KeyError:
  "if_pos1 mixed_flags \<noteq> []
   \<and> length (if_pos1 mixed_flags) < length (atom_type mixed_flags)
   \<and> snd (build_input dec_ops mixed_flags) = Inl KeyError
   \<and> snd (build_input dec_ops mixed_flags) \<noteq> Inl IndexError"
  by (simp add: build_input_def deck_text_def set_counts_def mixed_flags_def calc_init_def
      dict_get_def bind_err_def)

text \<open>
  A value of \<^verbatim>\<open>ibrav\<close> that ends in the separator \<^verbatim>\<open>chr(31)\<close>: \<^verbatim>\<open>int\<close> does not drop it, and
  \<^verbatim>\<open>build_input\<close> raises \<^verbatim>\<open>ValueError\<close>, with all lists of the right length and with short
  movement flags alike. With a no-break space in its place \<^verbatim>\<open>int\<close> accepts the value.
\<close>

definition h2_separator :: "rat calc" where
  "h2_separator = h2_model\<lparr>system := [(''ibrav'', ''0'' @ [CHR 0x1F])]\<rparr>"

definition mixed_flags_separator :: "rat calc" where
  "mixed_flags_separator = mixed_flags_deck\<lparr>system := [(''ibrav'', ''1'' @ [CHR 0x1F])]\<rparr>"

definition h2_no_break :: "rat calc" where
  "h2_no_break = h2_model\<lparr>system := [(''ibrav'', ''0'' @ [CHR 0xA0])]\<rparr>"

lemma build_input_ibrav_separator:
  "\<not> build_ok h2_separator" "snd (build_input dec_ops h2_separator) = Inl ValueError"
  "snd (build_input dec_ops mixed_flags_separator) = Inl ValueError"
  "build_ok h2_no_break" "\<exists>deck. snd (build_input dec_ops h2_no_break) = Inr deck"
proof -
  show "\<not> build_ok h2_separator" by code_simp
  show "snd (build_input dec_ops h2_separator) = Inl ValueError" by code_simp
  show "snd (build_input dec_ops mixed_flags_separator) = Inl ValueError" by code_simp
  show ok: "build_ok h2_no_break" by code_simp
  then have "build_ok (set_counts h2_no_break)" by (simp add: build_ok_set_counts)
  then show "\<exists>deck. snd (build_input dec_ops h2_no_break) = Inr deck"
    by (simp add: build_input_def deck_text_ok)
qed

section \<open>What \<^verbatim>\<open>__write_coords__\<close> writes, and when it raises\<close>

text \<open>
  No subscript of \<^verbatim>\<open>__write_coords__\<close> raises when each cell vector has three components
  and \<^verbatim>\<open>x\<close>, \<^verbatim>\<open>y\<close>, \<^verbatim>\<open>z\<close> are as long as \<^verbatim>\<open>atom_type\<close>.
\<close>

definition write_ok :: "'f out \<Rightarrow> bool" where
  "write_ok pw_out_obj \<longleftrightarrow>
     3 \<le> length (out_v1 pw_out_obj) \<and> 3 \<le> length (out_v2 pw_out_obj)
     \<and> 3 \<le> length (out_v3 pw_out_obj)
     \<and> length (out_atom_type pw_out_obj) \<le> length (out_x pw_out_obj)
     \<and> length (out_atom_type pw_out_obj) \<le> length (out_y pw_out_obj)
     \<and> length (out_atom_type pw_out_obj) \<le> length (out_z pw_out_obj)"

text \<open>
  The file as the specification describes it: the count line, the metadata line with
  the nine lattice scalars, and one line per atom, every number with six decimals.
\<close>

definition lattice_text :: "'f float_ops \<Rightarrow> 'f out \<Rightarrow> string" where
  "lattice_text F pw_out_obj =
     ''Lattice='' @ [dquote]
     @ fmt_6f F (out_v1 pw_out_obj ! 0) @ '' '' @ fmt_6f F (out_v1 pw_out_obj ! 1) @ '' ''
     @ fmt_6f F (out_v1 pw_out_obj ! 2) @ '' '' @ fmt_6f F (out_v2 pw_out_obj ! 0) @ '' ''
     @ fmt_6f F (out_v2 pw_out_obj ! 1) @ '' '' @ fmt_6f F (out_v2 pw_out_obj ! 2) @ '' ''
     @ fmt_6f F (out_v3 pw_out_obj ! 0) @ '' '' @ fmt_6f F (out_v3 pw_out_obj ! 1) @ '' ''
     @ fmt_6f F (out_v3 pw_out_obj ! 2)
     @ [dquote] @ '' Properties=species:S:1:pos:R:3'' @ [nl]"

definition atom_text :: "'f float_ops \<Rightarrow> 'f out \<Rightarrow> nat \<Rightarrow> string" where
  "atom_text F pw_out_obj i =
     out_atom_type pw_out_obj ! i @ '' '' @ fmt_6f F (out_x pw_out_obj ! i) @ '' ''
     @ fmt_6f F (out_y pw_out_obj ! i) @ '' '' @ fmt_6f F (out_z pw_out_obj ! i) @ [nl]"

definition coords_text :: "'f float_ops \<Rightarrow> 'f out \<Rightarrow> string" where
  "coords_text F pw_out_obj =
     str_int (int (length (out_atom_type pw_out_obj))) @ [nl]
     @ lattice_text F pw_out_obj
     @ concat (map (atom_text F pw_out_obj) [0..<length (out_atom_type pw_out_obj)])"

text \<open>Cell vectors but no atoms; atoms but no cell vectors.\<close>

definition out_no_atoms :: "rat out" where
  "out_no_atoms =
     \<lparr>out_atom_type = [], out_x = [], out_y = [], out_z = [], fx = [], fy = [], fz = [],
      out_v1 = [10, 0, 0], out_v2 = [0, 10, 0], out_v3 = [0, 0, 21 / 2],
      energy = [], efermi = None, magnetization = [], absmagnetization = [],
      jobdone = True\<rparr>"

definition out_no_cell :: "rat out" where
  "out_no_cell =
     \<lparr>out_atom_type = [''H''], out_x = [0], out_y = [0], out_z = [0],
      fx = [], fy = [], fz = [], out_v1 = [], out_v2 = [], out_v3 = [],
      energy = [], efermi = None, magnetization = [], absmagnetization = [],
      jobdone = True\<rparr>"

definition out_h2 :: "rat out" where
  "out_h2 =
     \<lparr>out_atom_type = [''H'', ''H''], out_x = [0, 3 / 4], out_y = [0, 0],
      out_z = [0, - 1 / 8],
      fx = [], fy = [], fz = [],
      out_v1 = [10, 0, 0], out_v2 = [0, 10, 0], out_v3 = [0, 0, 21 / 2],
      energy = [], efermi = None, magnetization = [], absmagnetization = [],
      jobdone = True\<rparr>"

lemma lattice_line_ok:
  assumes "3 \<le> length (out_v1 r) \<and> 3 \<le> length (out_v2 r) \<and> 3 \<le> length (out_v3 r)"
  shows "lattice_line F r = Inr (lattice_text F r)"
proof -
  from assms have "0 < length (out_v1 r)" "1 < length (out_v1 r)" "2 < length (out_v1 r)"
    "0 < length (out_v2 r)" "1 < length (out_v2 r)" "2 < length (out_v2 r)"
    "0 < length (out_v3 r)" "1 < length (out_v3 r)" "2 < length (out_v3 r)"
    by auto
  then show ?thesis
    by (simp add: lattice_line_def lattice_text_def py_nth_def bind_err_def del: One_nat_def)
qed

lemma lattice_line_fails:
  "\<not> (3 \<le> length (out_v1 r) \<and> 3 \<le> length (out_v2 r) \<and> 3 \<le> length (out_v3 r))
    \<Longrightarrow> lattice_line F r = Inl IndexError"
  by (auto simp: lattice_line_def py_nth_def bind_err_def)

lemma coord_line_ok:
  "i < length (out_atom_type r) \<Longrightarrow> i < length (out_x r) \<Longrightarrow> i < length (out_y r)
    \<Longrightarrow> i < length (out_z r) \<Longrightarrow> coord_line F r i = Inr (atom_text F r i)"
  by (simp add: coord_line_def atom_text_def py_nth_def bind_err_def)

lemma coord_line_Inl: "coord_line F r i = Inl e \<Longrightarrow> e = IndexError"
  by (auto simp: coord_line_def dest!: bind_err_Inl_cases py_nth_Inl)

lemma coord_line_Inr_iff:
  "(\<exists>s. coord_line F r i = Inr s) \<longleftrightarrow>
     i < length (out_atom_type r) \<and> i < length (out_x r) \<and> i < length (out_y r)
     \<and> i < length (out_z r)"
  by (simp add: coord_line_def bind_err_Inr_iff py_nth_Inr_iff py_nth_ok)

lemma coord_lines_Inr_iff:
  "(\<exists>s. for_range (coord_line F r) [0..<length (out_atom_type r)] = Inr s) \<longleftrightarrow>
     length (out_atom_type r) \<le> length (out_x r) \<and> length (out_atom_type r) \<le> length (out_y r)
     \<and> length (out_atom_type r) \<le> length (out_z r)"
  unfolding for_range_Inr_iff coord_line_Inr_iff
  using all_less_iff [of "length (out_atom_type r)"] by auto

lemma coord_lines_Inl:
  "for_range (coord_line F r) js = Inl e \<Longrightarrow> e = IndexError"
  using coord_line_Inl for_range_IndexError by metis

text \<open>
  Claim C7, as amended. \<^verbatim>\<open>__write_coords__\<close> has no error of its own. It raises
  \<^verbatim>\<open>IndexError\<close> exactly when a cell vector has fewer than three components or one of
  \<^verbatim>\<open>x\<close>, \<^verbatim>\<open>y\<close>, \<^verbatim>\<open>z\<close> is shorter than \<^verbatim>\<open>atom_type\<close>; an empty \<^verbatim>\<open>atom_type\<close> is no error.
  Otherwise it writes the count line, the metadata line with the nine lattice scalars and
  one line per atom with its label and three coordinates, each number formatted with
  \<^verbatim>\<open>%.6f\<close>.
\<close>

theorem write_coords_result:
  "(write_ok pw_out_obj \<longrightarrow>
      snd (write_coords F pw_out_obj) = Inr (coords_text F pw_out_obj))
   \<and> (\<not> write_ok pw_out_obj \<longrightarrow> snd (write_coords F pw_out_obj) = Inl IndexError)"
proof (intro conjI impI)
  assume ok: "write_ok pw_out_obj"
  then have l: "lattice_line F pw_out_obj = Inr (lattice_text F pw_out_obj)"
    by (simp add: write_ok_def lattice_line_ok)
  have "for_range (coord_line F pw_out_obj) [0..<length (out_atom_type pw_out_obj)]
      = Inr (concat (map (atom_text F pw_out_obj) [0..<length (out_atom_type pw_out_obj)]))"
    using ok by (intro for_range_concat) (simp add: write_ok_def coord_line_ok)
  with l show "snd (write_coords F pw_out_obj) = Inr (coords_text F pw_out_obj)"
    by (simp add: write_coords_def coords_text_def bind_err_def)
next
  assume bad: "\<not> write_ok pw_out_obj"
  show "snd (write_coords F pw_out_obj) = Inl IndexError"
  proof (cases "3 \<le> length (out_v1 pw_out_obj) \<and> 3 \<le> length (out_v2 pw_out_obj)
      \<and> 3 \<le> length (out_v3 pw_out_obj)")
    case False
    then show ?thesis by (simp add: write_coords_def lattice_line_fails bind_err_def)
  next
    case True
    with bad have "\<not> (\<exists>s. for_range (coord_line F pw_out_obj)
        [0..<length (out_atom_type pw_out_obj)] = Inr s)"
      unfolding coord_lines_Inr_iff by (auto simp: write_ok_def)
    then obtain e where "for_range (coord_line F pw_out_obj)
        [0..<length (out_atom_type pw_out_obj)] = Inl e"
      by (cases "for_range (coord_line F pw_out_obj) [0..<length (out_atom_type pw_out_obj)]")
        auto
    moreover from this have "e = IndexError" by (rule coord_lines_Inl)
    ultimately show ?thesis using True
      by (simp add: write_coords_def lattice_line_ok bind_err_def)
  qed
qed

theorem write_coords_result_witness:
  "write_ok out_h2
   \<and> snd (write_coords dec_ops out_h2) = Inr (unlines
       [''2'',
        ''Lattice='' @ [dquote]
          @ ''10.000000 0.000000 0.000000 0.000000 10.000000 0.000000 0.000000 0.000000 10.500000''
          @ [dquote] @ '' Properties=species:S:1:pos:R:3'',
        ''H 0.000000 0.000000 0.000000'',
        ''H 0.750000 0.000000 -0.125000''])
   \<and> \<not> write_ok out_no_cell
   \<and> snd (write_coords dec_ops out_no_cell) = Inl IndexError"
proof -
  have 1: "write_ok out_h2" by code_simp
  have 2: "coords_text dec_ops out_h2 = unlines
       [''2'',
        ''Lattice='' @ [dquote]
          @ ''10.000000 0.000000 0.000000 0.000000 10.000000 0.000000 0.000000 0.000000 10.500000''
          @ [dquote] @ '' Properties=species:S:1:pos:R:3'',
        ''H 0.000000 0.000000 0.000000'',
        ''H 0.750000 0.000000 -0.125000'']"
    by code_simp
  have 3: "\<not> write_ok out_no_cell" by code_simp
  from 1 2 have "snd (write_coords dec_ops out_h2) = Inr (unlines
       [''2'',
        ''Lattice='' @ [dquote]
          @ ''10.000000 0.000000 0.000000 0.000000 10.000000 0.000000 0.000000 0.000000 10.500000''
          @ [dquote] @ '' Properties=species:S:1:pos:R:3'',
        ''H 0.000000 0.000000 0.000000'',
        ''H 0.750000 0.000000 -0.125000''])"
    using write_coords_result [of out_h2 dec_ops] by simp
  moreover from 3 have "snd (write_coords dec_ops out_no_cell) = Inl IndexError"
    using write_coords_result [of out_no_cell dec_ops] by blast
  ultimately show ?thesis using 1 3 by blast
qed

text \<open>
  Counterexample to claim C7 as stated: with an empty \<^verbatim>\<open>atom_type\<close> and the cell vectors
  present, \<^verbatim>\<open>__write_coords__\<close> does not fail; it writes the count \<^verbatim>\<open>0\<close> and the metadata
  line. And without cell vectors the failure is the \<^verbatim>\<open>IndexError\<close> of \<^verbatim>\<open>v1[0]\<close>.
\<close>

theorem write_coords_no_atoms:
  "out_atom_type out_no_atoms = []
   \<and> snd (write_coords dec_ops out_no_atoms) = Inr (unlines
       [''0'',
        ''Lattice='' @ [dquote]
          @ ''10.000000 0.000000 0.000000 0.000000 10.000000 0.000000 0.000000 0.000000 10.500000''
          @ [dquote] @ '' Properties=species:S:1:pos:R:3''])
   \<and> out_v1 out_no_cell = []
   \<and> snd (write_coords dec_ops out_no_cell) = Inl IndexError"
  by code_simp


section \<open>The cell vectors that \<^verbatim>\<open>__get_output_info__\<close> returns\<close>

text \<open>
  The head of a PW log: the lattice parameter, the block of the crystal axes, one total
  energy and the closing line.
\<close>

definition log_one_block :: "string list" where
  "log_one_block =
     [''     lattice parameter (alat)  =       2.0000  a.u.'',
      ''     crystal axes: (cart. coord. in units of alat)'',
      ''               a(1) = (   1.000000   0.000000   0.000000 )  '',
      ''               a(2) = (   0.000000   1.500000   0.000000 )  '',
      ''               a(3) = (   0.000000   0.000000   2.000000 )  '',
      ''!    total energy              =      -1.00000000 Ry'',
      ''   This run was terminated on:  12: 0: 0   1Jan2024'']"

text \<open>
  A log in which the block of the crystal axes comes twice, as in the final
  self-consistent step of a variable-cell run: the second block gives other vectors.
\<close>

definition log_two_blocks :: "string list" where
  "log_two_blocks =
     [''     lattice parameter (alat)  =       2.0000  a.u.'',
      ''     crystal axes: (cart. coord. in units of alat)'',
      ''               a(1) = (   1.000000   0.000000   0.000000 )  '',
      ''               a(2) = (   0.000000   1.500000   0.000000 )  '',
      ''               a(3) = (   0.000000   0.000000   2.000000 )  '',
      ''!    total energy              =      -1.00000000 Ry'',
      ''     crystal axes: (cart. coord. in units of alat)'',
      ''               a(1) = (   3.000000   0.000000   0.000000 )  '',
      ''               a(2) = (   0.000000   3.500000   0.000000 )  '',
      ''               a(3) = (   0.000000   0.000000   4.000000 )  '',
      ''!    total energy              =      -2.00000000 Ry'',
      ''   This run was terminated on:  12: 0: 0   1Jan2024'']"

text \<open>
  The lines that reach the test \<^verbatim>\<open>elif nextcellpar\<close>: those that none of the six tests
  before it takes.
\<close>

definition cell_vector_line :: "string list \<Rightarrow> bool" where
  "cell_vector_line l \<longleftrightarrow>
     \<not> marker_energy l \<and> \<not> marker_fermi l \<and> \<not> marker_magnetization l
     \<and> \<not> marker_lattice l \<and> \<not> marker_number_of l \<and> \<not> marker_crystal_axes l"

lemma py_lower_literals:
  "py_lower ''!'' = ''!''" "py_lower ''magnetization'' = ''magnetization''"
  by code_simp+

lemma marker_lattice_first:
  assumes "marker_lattice l"
  shows "\<not> marker_energy l \<and> \<not> marker_fermi l \<and> \<not> marker_magnetization l"
proof -
  from assms have a: "py_lower (l ! 0) = ''lattice''" and b: "py_lower (l ! 1) = ''parameter''"
    by (simp_all add: marker_lattice_def)
  from a have "l ! 0 \<noteq> ''!''" using py_lower_literals(1) by auto
  moreover from b have "l ! 1 \<noteq> ''magnetization''" using py_lower_literals(2) by auto
  ultimately show ?thesis using a
    by (auto simp: marker_energy_def marker_fermi_def marker_magnetization_def)
qed

lemma marker_crystal_axes_first:
  assumes "marker_crystal_axes l"
  shows "\<not> marker_energy l \<and> \<not> marker_fermi l \<and> \<not> marker_magnetization l
    \<and> \<not> marker_lattice l \<and> \<not> marker_number_of l"
proof -
  from assms have a: "py_lower (l ! 0) = ''crystal''" and b: "py_lower (l ! 1) = ''axes:''"
    by (simp_all add: marker_crystal_axes_def)
  from a have "l ! 0 \<noteq> ''!''" using py_lower_literals(1) by auto
  moreover from b have "l ! 1 \<noteq> ''magnetization''" using py_lower_literals(2) by auto
  ultimately show ?thesis using a
    by (auto simp: marker_energy_def marker_fermi_def marker_magnetization_def
        marker_lattice_def marker_number_of_def)
qed

lemma scan_line_lattice:
  assumes "marker_lattice (py_split line)" and "float_at F (py_split line) 4 = Inr p"
  shows "scan_line F s line = Inr (s\<lparr>s_a0 := Some (fmul F p (bohr2angs F))\<rparr>)"
  using assms marker_lattice_first [OF assms(1)]
  by (simp add: scan_line_def bind_err_def)

lemma scan_line_crystal_axes:
  assumes "marker_crystal_axes (py_split line)"
  shows "scan_line F s line
    = Inr (s\<lparr>s_nextcellpar := True, s_v1 := [], s_v2 := [], s_v3 := []\<rparr>)"
  using assms marker_crystal_axes_first [OF assms]
  by (simp add: scan_line_def)

lemma scaled_vector_ok:
  assumes "map (float_at F l) [3, 4, 5] = [Inr a, Inr b, Inr c]"
  shows "scaled_vector F l (Some a0) = Inr [fmul F a a0, fmul F b a0, fmul F c a0]"
  using assms by (simp add: scaled_vector_def scaled_at_def bind_err_def)

lemma scan_line_vector:
  assumes "cell_vector_line (py_split line)" and "s_nextcellpar s" and "s_a0 s = Some a0"
    and "map (float_at F (py_split line)) [3, 4, 5] = [Inr a, Inr b, Inr c]"
  shows "scan_line F s line =
    (if s_i s = 0 then
       Inr (s\<lparr>s_v1 := s_v1 s @ [fmul F a a0, fmul F b a0, fmul F c a0], s_i := s_i s + 1\<rparr>)
     else if s_i s = 1 then
       Inr (s\<lparr>s_v2 := s_v2 s @ [fmul F a a0, fmul F b a0, fmul F c a0], s_i := s_i s + 1\<rparr>)
     else if s_i s = 2 then
       Inr (s\<lparr>s_v3 := s_v3 s @ [fmul F a a0, fmul F b a0, fmul F c a0],
              s_nextcellpar := False, s_i := s_i s + 1\<rparr>)
     else Inr (s\<lparr>s_i := s_i s + 1\<rparr>))"
  using assms(1,2,3) scaled_vector_ok [OF assms(4), of a0]
  by (simp add: scan_line_def cell_vector_line_def bind_err_def)

lemma scan_lines_append:
  "scan_lines F s (xs @ ys) = bind_err (scan_lines F s xs) (\<lambda>s'. scan_lines F s' ys)"
  by (induction xs arbitrary: s) (auto simp: bind_err_def split: sum.splits)

text \<open>
  Claim C5, as amended. For a log in which no cell-vector line has been read yet, a line
  \<^verbatim>\<open>lattice parameter\<close> with the value \<open>p\<close>, the header \<^verbatim>\<open>crystal axes:\<close> and three
  lines with the components \<open>a\<^sub>k\<close>, \<open>b\<^sub>k\<close>, \<open>c\<^sub>k\<close> at the tokens 3, 4 and 5: the scanner sets
  \<^verbatim>\<open>a0\<close> to \<open>p\<close> times \<^verbatim>\<open>0.529177\<close> and each component is multiplied by \<^verbatim>\<open>a0\<close>, once and
  by nothing else, to give \<^verbatim>\<open>v1\<close>, \<^verbatim>\<open>v2\<close>, \<^verbatim>\<open>v3\<close> of the \<^verbatim>\<open>out\<close> object.
\<close>

theorem first_cell_block_scaled_by_a0:
  assumes "scan_lines F scan_init pre = Inr s" and "s_i s = 0"
    and "marker_lattice (py_split lat)" and "float_at F (py_split lat) 4 = Inr p"
    and "marker_crystal_axes (py_split hdr)"
    and "cell_vector_line (py_split l1)"
    and "map (float_at F (py_split l1)) [3, 4, 5] = [Inr a1, Inr b1, Inr c1]"
    and "cell_vector_line (py_split l2)"
    and "map (float_at F (py_split l2)) [3, 4, 5] = [Inr a2, Inr b2, Inr c2]"
    and "cell_vector_line (py_split l3)"
    and "map (float_at F (py_split l3)) [3, 4, 5] = [Inr a3, Inr b3, Inr c3]"
    and "a0 = fmul F p (float_lit F 529177 6)"
  shows "\<exists>s' r. scan_lines F scan_init (pre @ [lat, hdr, l1, l2, l3]) = Inr s'
    \<and> s_a0 s' = Some a0
    \<and> get_output_info F (pre @ [lat, hdr, l1, l2, l3]) False = Inr r
    \<and> out_v1 r = [fmul F a1 a0, fmul F b1 a0, fmul F c1 a0]
    \<and> out_v2 r = [fmul F a2 a0, fmul F b2 a0, fmul F c2 a0]
    \<and> out_v3 r = [fmul F a3 a0, fmul F b3 a0, fmul F c3 a0]"
proof -
  define s1 where "s1 = s\<lparr>s_a0 := Some a0\<rparr>"
  define s2 where "s2 = s1\<lparr>s_nextcellpar := True, s_v1 := [], s_v2 := [], s_v3 := []\<rparr>"
  define s3 where
    "s3 = s2\<lparr>s_v1 := s_v1 s2 @ [fmul F a1 a0, fmul F b1 a0, fmul F c1 a0], s_i := s_i s2 + 1\<rparr>"
  define s4 where
    "s4 = s3\<lparr>s_v2 := s_v2 s3 @ [fmul F a2 a0, fmul F b2 a0, fmul F c2 a0], s_i := s_i s3 + 1\<rparr>"
  define s5 where
    "s5 = s4\<lparr>s_v3 := s_v3 s4 @ [fmul F a3 a0, fmul F b3 a0, fmul F c3 a0],
             s_nextcellpar := False, s_i := s_i s4 + 1\<rparr>"
  have 1: "scan_line F s lat = Inr s1"
    using scan_line_lattice [OF assms(3,4)] assms(12) by (simp add: s1_def bohr2angs_def)
  have 2: "scan_line F s1 hdr = Inr s2"
    using scan_line_crystal_axes [OF assms(5)] by (simp add: s2_def)
  have 3: "scan_line F s2 l1 = Inr s3"
    using scan_line_vector [OF assms(6) _ _ assms(7), of s2 a0] assms(2)
    by (simp add: s3_def s2_def s1_def)
  have 4: "scan_line F s3 l2 = Inr s4"
    using scan_line_vector [OF assms(8) _ _ assms(9), of s3 a0] assms(2)
    by (simp add: s4_def s3_def s2_def s1_def)
  have 5: "scan_line F s4 l3 = Inr s5"
    using scan_line_vector [OF assms(10) _ _ assms(11), of s4 a0] assms(2)
    by (simp add: s5_def s4_def s3_def s2_def s1_def)
  have run: "scan_lines F scan_init (pre @ [lat, hdr, l1, l2, l3]) = Inr s5"
    using assms(1) 1 2 3 4 5 by (simp add: scan_lines_append bind_err_def)
  have a: "s_a0 s5 = Some a0" by (simp add: s5_def s4_def s3_def s2_def s1_def)
  have v: "s_v1 s5 = [fmul F a1 a0, fmul F b1 a0, fmul F c1 a0]"
    "s_v2 s5 = [fmul F a2 a0, fmul F b2 a0, fmul F c2 a0]"
    "s_v3 s5 = [fmul F a3 a0, fmul F b3 a0, fmul F c3 a0]"
    by (simp_all add: s5_def s4_def s3_def s2_def s1_def)
  have "get_output_info F (pre @ [lat, hdr, l1, l2, l3]) False = Inr (out_of_scan s5)"
    using run by (simp add: get_output_info_def bind_err_def)
  with run a v show ?thesis by (simp add: out_of_scan_def)
qed

theorem first_cell_block_scaled_by_a0_witness:
  "map_sum id (\<lambda>r. (out_v1 r, out_v2 r, out_v3 r))
     (get_output_info dec_ops (take 5 log_one_block) False)
   = Inr ([529177 / 500000, 0, 0], [0, 1587531 / 1000000, 0], [0, 0, 529177 / 250000])"
proof -
  have pre: "scan_lines dec_ops scan_init [] = Inr scan_init" by simp
  have i: "s_i (scan_init :: rat scan) = 0" by (simp add: scan_init_def)
  have lat: "marker_lattice (py_split (log_one_block ! 0))" by code_simp
  have p: "float_at dec_ops (py_split (log_one_block ! 0)) 4 = Inr 2" by code_simp
  have hdr: "marker_crystal_axes (py_split (log_one_block ! 1))" by code_simp
  have c1: "cell_vector_line (py_split (log_one_block ! 2))" by code_simp
  have f1: "map (float_at dec_ops (py_split (log_one_block ! 2))) [3, 4, 5]
      = [Inr 1, Inr 0, Inr 0]" by code_simp
  have c2: "cell_vector_line (py_split (log_one_block ! 3))" by code_simp
  have f2: "map (float_at dec_ops (py_split (log_one_block ! 3))) [3, 4, 5]
      = [Inr 0, Inr (3 / 2), Inr 0]" by code_simp
  have c3: "cell_vector_line (py_split (log_one_block ! 4))" by code_simp
  have f3: "map (float_at dec_ops (py_split (log_one_block ! 4))) [3, 4, 5]
      = [Inr 0, Inr 0, Inr 2]" by code_simp
  have a0: "(529177 / 500000 :: rat) = fmul dec_ops 2 (float_lit dec_ops 529177 6)"
    by (simp add: dec_ops_def)
  have t: "take 5 log_one_block = [] @ [log_one_block ! 0, log_one_block ! 1,
      log_one_block ! 2, log_one_block ! 3, log_one_block ! 4]"
    by (simp add: log_one_block_def)
  from first_cell_block_scaled_by_a0 [OF pre i lat p hdr c1 f1 c2 f2 c3 f3 a0]
  show ?thesis unfolding t by (auto simp: dec_ops_def)
qed

text \<open>
  Counterexample to claim C5 as stated: with the lattice parameter \<^verbatim>\<open>2.0\<close> the scale
  \<^verbatim>\<open>a0\<close> is \<^verbatim>\<open>1.058354\<close>, and the component \<^verbatim>\<open>1.0\<close> of the first vector becomes \<^verbatim>\<open>1.058354\<close>,
  not \<^verbatim>\<open>1.058354\<close> times \<^verbatim>\<open>0.529177\<close>.
\<close>

theorem cell_vectors_scaled_once:
  "map_sum id out_v1 (get_output_info dec_ops log_one_block False)
     = Inr [fmul dec_ops 1 (529177 / 500000), 0, 0]
   \<and> fmul dec_ops 1 (529177 / 500000)
     \<noteq> fmul dec_ops (fmul dec_ops 1 (529177 / 500000)) (bohr2angs dec_ops)"
proof -
  have "map_sum id out_v1 (get_output_info dec_ops log_one_block False)
     = Inr [529177 / 500000, 0, 0]"
    by code_simp
  then show ?thesis by (simp add: dec_ops_def bohr2angs_def)
qed

text \<open>
  Claim C4 fails on the code. The header \<^verbatim>\<open>crystal axes:\<close> empties \<^verbatim>\<open>v1\<close>, \<^verbatim>\<open>v2\<close>, \<^verbatim>\<open>v3\<close>, but
  the counter \<^verbatim>\<open>i\<close> stays at 3 after the first block, so no line of a later block is
  stored and \<^verbatim>\<open>nextcellpar\<close> is never cleared again. With one block the vectors, the
  energy and the closing line are read; with two blocks the vectors are empty and the
  closing line is not seen, while both energies are appended.
\<close>

theorem second_cell_block_is_lost:
  "map_sum id (\<lambda>r. (out_v1 r, out_v2 r, out_v3 r, energy r, jobdone r))
     (get_output_info dec_ops log_one_block False)
   = Inr ([529177 / 500000, 0, 0], [0, 1587531 / 1000000, 0], [0, 0, 529177 / 250000],
          [- 2721 / 200], True)
   \<and> map_sum id (\<lambda>r. (out_v1 r, out_v2 r, out_v3 r, energy r, jobdone r))
     (get_output_info dec_ops log_two_blocks False)
   = Inr ([], [], [], [- 2721 / 200, - 2721 / 100], False)"
  by code_simp


section \<open>What \<^verbatim>\<open>read_input\<close> does with malformed input\<close>

text \<open>No section or card is open: all nine flags of the reader are false.\<close>

definition idle :: "'f reader \<Rightarrow> bool" where
  "idle r \<longleftrightarrow>
     \<not> iscontrol r \<and> \<not> issystem r \<and> \<not> iselectrons r \<and> \<not> isions r \<and> \<not> iscell r
     \<and> \<not> iscellparameters r \<and> \<not> isatomicspecies r \<and> \<not> isatomicpositions r
     \<and> \<not> iskpoints r"

text \<open>
  The first tokens, in lower case, that the chain tests before it reaches
  \<^verbatim>\<open>elif isatomicspecies\<close> and before it reaches \<^verbatim>\<open>elif isatomicpositions\<close>.
\<close>

definition headers_before_species :: "string list" where
  "headers_before_species =
     [''&control'', ''&system'', ''&electrons'', ''&ions'', ''&cell'', ''cell_parameters'',
      ''atomic_species'']"

definition headers_before_positions :: "string list" where
  "headers_before_positions = headers_before_species @ [''atomic_positions'']"

text \<open>Decks with a blank line, and with a card before the namelist that counts it.\<close>

definition deck_blank_line :: string where
  "deck_blank_line = unlines [''&CONTROL'', '' '', ''/'']"

definition deck_species_first :: string where
  "deck_species_first =
     unlines [''ATOMIC_SPECIES'', ''H 1.008 H.pbe.UPF'', ''&SYSTEM'', ''ntyp = 1,'', ''/'']"

definition deck_positions_first :: string where
  "deck_positions_first =
     unlines [''ATOMIC_POSITIONS angstrom'', ''H 0.0 0.0 0.0'', ''&SYSTEM'', ''nat = 1,'', ''/'']"

lemma read_lines_append:
  "read_lines F r (xs @ ys) =
     (case read_lines F r xs of (r', None) \<Rightarrow> read_lines F r' ys | (r', Some e) \<Rightarrow> (r', Some e))"
  by (induction xs arbitrary: r) (auto split: prod.splits option.splits)

lemma read_line_blank: "py_split line = [] \<Longrightarrow> read_line F r line = (r, Some IndexError)"
  by (simp add: read_line_def)

lemma read_line_species_header:
  assumes "idle r" and "py_split line \<noteq> []"
    and "py_lower (hd (py_split line)) = ''atomic_species''"
  shows "read_line F r line = (r\<lparr>isatomicspecies := True\<rparr>, None)"
  using assms by (simp add: read_line_def idle_def)

lemma read_line_positions_header:
  assumes "idle r" and "py_split line \<noteq> []"
    and "py_lower (hd (py_split line)) = ''atomic_positions''"
  shows "fst (read_line F r line) =
      (if length (py_split line) = 2
       then on_obj (atomic_positions_units_update (\<lambda>_. py_split line ! 1))
              (r\<lparr>isatomicpositions := True\<rparr>)
       else r\<lparr>isatomicpositions := True\<rparr>)
    \<and> snd (read_line F r line) = None"
  using assms by (simp add: read_line_def idle_def Let_def)

lemma read_line_species:
  assumes "\<not> iscontrol r" "\<not> issystem r" "\<not> iselectrons r" "\<not> isions r" "\<not> iscell r"
    "\<not> iscellparameters r" "isatomicspecies r"
    and "py_split line \<noteq> []"
    and "py_lower (hd (py_split line)) \<notin> set headers_before_species"
  shows "read_line F r line = atomic_species_line (py_split line) r"
  using assms by (simp add: read_line_def headers_before_species_def)

lemma read_line_positions:
  assumes "\<not> iscontrol r" "\<not> issystem r" "\<not> iselectrons r" "\<not> isions r" "\<not> iscell r"
    "\<not> iscellparameters r" "\<not> isatomicspecies r" "isatomicpositions r"
    and "py_split line \<noteq> []"
    and "py_lower (hd (py_split line)) \<notin> set headers_before_positions"
  shows "read_line F r line = atomic_positions_line F (py_split line) r"
  using assms
  by (simp add: read_line_def headers_before_positions_def headers_before_species_def)

lemma count_line_KeyError:
  "map_of (system (obj r)) key = None \<Longrightarrow> snd (count_line key flag r) = Some KeyError"
  by (simp add: count_line_def dict_get_def Let_def)

lemma atomic_species_line_KeyError:
  assumes "3 \<le> length l" and "map_of (system (obj r)) ''ntyp'' = None"
  shows "snd (atomic_species_line l r) = Some KeyError"
proof -
  from assms(1) have "0 < length l" "1 < length l" "2 < length l" by auto
  then show ?thesis using assms(2)
    by (simp add: atomic_species_line_def append_str_def py_nth_def then_do_def on_obj_def
        count_line_KeyError del: One_nat_def)
qed

lemma atomic_positions_line_KeyError:
  assumes "length l = 4"
    and "map (float_at F l) [1, 2, 3] = [Inr a, Inr b, Inr c]"
    and "map_of (system (obj r)) ''nat'' = None"
  shows "snd (atomic_positions_line F l r) = Some KeyError"
proof -
  from assms(1) have "0 < length l" "1 < length l" "2 < length l" "3 < length l" by auto
  moreover from assms(2) this have "py_float F (l ! 1) = Some a" "py_float F (l ! 2) = Some b"
    "py_float F (l ! 3) = Some c"
    by (auto simp: float_at_def py_nth_def bind_err_def split: option.splits
        simp del: One_nat_def)
  ultimately show ?thesis using assms(1,3)
    by (simp add: atomic_positions_line_def append_str_def append_float_def py_nth_def
        then_do_def on_obj_def count_line_KeyError del: One_nat_def)
qed

text \<open>
  Claim C2, as amended. \<^verbatim>\<open>read_input\<close> has no error of its own and no line numbers;
  malformed input raises the exception of the subscript or lookup that fails, after the
  lines before it have been stored. A line without a token raises \<^verbatim>\<open>IndexError\<close>,
  wherever it stands. When the card \<^verbatim>\<open>ATOMIC_SPECIES\<close> comes while \<^verbatim>\<open>system\<close> has no key
  \<^verbatim>\<open>ntyp\<close>, its first line (of three tokens or more) raises \<^verbatim>\<open>KeyError\<close>; when the card
  \<^verbatim>\<open>ATOMIC_POSITIONS\<close> comes while \<^verbatim>\<open>system\<close> has no key \<^verbatim>\<open>nat\<close>, its first line (a label
  and three floats) raises \<^verbatim>\<open>KeyError\<close>.
\<close>

theorem read_input_malformed:
  "(readlines deck = pre @ line # post
      \<and> read_lines F (reader_init self) pre = (r, None)
      \<and> py_split line = []
     \<longrightarrow> read_input F self (Some deck) = (obj r, Some IndexError))
   \<and> (readlines deck = pre @ hdr # line # post
      \<and> read_lines F (reader_init self) pre = (r, None) \<and> idle r
      \<and> py_split hdr \<noteq> [] \<and> py_lower (hd (py_split hdr)) = ''atomic_species''
      \<and> map_of (system (obj r)) ''ntyp'' = None
      \<and> 3 \<le> length (py_split line)
      \<and> py_lower (hd (py_split line)) \<notin> set headers_before_species
     \<longrightarrow> snd (read_input F self (Some deck)) = Some KeyError)
   \<and> (readlines deck = pre @ hdr # line # post
      \<and> read_lines F (reader_init self) pre = (r, None) \<and> idle r
      \<and> py_split hdr \<noteq> [] \<and> py_lower (hd (py_split hdr)) = ''atomic_positions''
      \<and> map_of (system (obj r)) ''nat'' = None
      \<and> length (py_split line) = 4
      \<and> map (float_at F (py_split line)) [1, 2, 3] = [Inr a, Inr b, Inr c]
      \<and> py_lower (hd (py_split line)) \<notin> set headers_before_positions
     \<longrightarrow> snd (read_input F self (Some deck)) = Some KeyError)"
proof (intro conjI impI)
  assume a: "readlines deck = pre @ line # post
      \<and> read_lines F (reader_init self) pre = (r, None) \<and> py_split line = []"
  then show "read_input F self (Some deck) = (obj r, Some IndexError)"
    by (simp add: read_input_def read_lines_append read_line_blank)
next
  assume a: "readlines deck = pre @ hdr # line # post
      \<and> read_lines F (reader_init self) pre = (r, None) \<and> idle r
      \<and> py_split hdr \<noteq> [] \<and> py_lower (hd (py_split hdr)) = ''atomic_species''
      \<and> map_of (system (obj r)) ''ntyp'' = None
      \<and> 3 \<le> length (py_split line)
      \<and> py_lower (hd (py_split line)) \<notin> set headers_before_species"
  define r1 where "r1 = r\<lparr>isatomicspecies := True\<rparr>"
  from a have h: "read_line F r hdr = (r1, None)"
    by (simp add: read_line_species_header r1_def)
  from a have ne: "py_split line \<noteq> []" by auto
  from a have "read_line F r1 line = atomic_species_line (py_split line) r1"
    by (intro read_line_species ne) (simp_all add: r1_def idle_def)
  moreover from a have "snd (atomic_species_line (py_split line) r1) = Some KeyError"
    by (intro atomic_species_line_KeyError) (simp_all add: r1_def)
  ultimately have "snd (read_line F r1 line) = Some KeyError" by simp
  with a h show "snd (read_input F self (Some deck)) = Some KeyError"
    by (auto simp: read_input_def read_lines_append split: prod.splits option.splits)
next
  assume a: "readlines deck = pre @ hdr # line # post
      \<and> read_lines F (reader_init self) pre = (r, None) \<and> idle r
      \<and> py_split hdr \<noteq> [] \<and> py_lower (hd (py_split hdr)) = ''atomic_positions''
      \<and> map_of (system (obj r)) ''nat'' = None
      \<and> length (py_split line) = 4
      \<and> map (float_at F (py_split line)) [1, 2, 3] = [Inr a, Inr b, Inr c]
      \<and> py_lower (hd (py_split line)) \<notin> set headers_before_positions"
  obtain r1 where h: "read_line F r hdr = (r1, None)"
    and r1: "r1 = (if length (py_split hdr) = 2
       then on_obj (atomic_positions_units_update (\<lambda>_. py_split hdr ! 1))
              (r\<lparr>isatomicpositions := True\<rparr>)
       else r\<lparr>isatomicpositions := True\<rparr>)"
    using read_line_positions_header [of r hdr F] a by (cases "read_line F r hdr") auto
  from a have ne: "py_split line \<noteq> []" by auto
  from a have "read_line F r1 line = atomic_positions_line F (py_split line) r1"
    by (intro read_line_positions ne) (simp_all add: r1 idle_def on_obj_def)
  moreover from a have "snd (atomic_positions_line F (py_split line) r1) = Some KeyError"
    by (intro atomic_positions_line_KeyError [where a = a and b = b and c = c])
      (simp_all add: r1 on_obj_def)
  ultimately have "snd (read_line F r1 line) = Some KeyError" by simp
  with a h show "snd (read_input F self (Some deck)) = Some KeyError"
    by (auto simp: read_input_def read_lines_append split: prod.splits option.splits)
qed

theorem read_input_malformed_witness:
  "read_input dec_ops calc_init (Some deck_blank_line)
     = (calc_init, Some IndexError)
   \<and> snd (read_input dec_ops calc_init (Some deck_species_first)) = Some KeyError
   \<and> snd (read_input dec_ops calc_init (Some deck_positions_first)) = Some KeyError"
proof -
  have 1: "readlines deck_blank_line = [''&CONTROL'' @ [nl]] @ ('' '' @ [nl]) # [''/'' @ [nl]]"
    by code_simp
  have 2: "read_lines dec_ops (reader_init calc_init) [''&CONTROL'' @ [nl]]
      = ((reader_init calc_init)\<lparr>iscontrol := True\<rparr>, None)"
    by code_simp
  have 3: "py_split ('' '' @ [nl]) = []" by code_simp
  have b: "read_input dec_ops calc_init (Some deck_blank_line) = (calc_init, Some IndexError)"
    using read_input_malformed [where deck = deck_blank_line and pre = "[''&CONTROL'' @ [nl]]"
        and line = "'' '' @ [nl]" and post = "[''/'' @ [nl]]" and F = dec_ops
        and self = calc_init and r = "(reader_init calc_init)\<lparr>iscontrol := True\<rparr>"]
      1 2 3
    by (simp add: reader_init_def)
  have 4: "readlines deck_species_first
      = [] @ (''ATOMIC_SPECIES'' @ [nl]) # (''H 1.008 H.pbe.UPF'' @ [nl])
          # [''&SYSTEM'' @ [nl], ''ntyp = 1,'' @ [nl], ''/'' @ [nl]]"
    by code_simp
  have 5: "read_lines dec_ops (reader_init calc_init) [] = (reader_init calc_init, None)"
    by simp
  have 6: "idle (reader_init (calc_init :: rat calc))" by (simp add: idle_def reader_init_def)
  have 7: "py_split (''ATOMIC_SPECIES'' @ [nl]) \<noteq> []
      \<and> py_lower (hd (py_split (''ATOMIC_SPECIES'' @ [nl]))) = ''atomic_species''"
    by code_simp
  have 8: "map_of (system (obj (reader_init (calc_init :: rat calc)))) ''ntyp'' = None"
    by (simp add: reader_init_def calc_init_def)
  have 9: "3 \<le> length (py_split (''H 1.008 H.pbe.UPF'' @ [nl]))
      \<and> py_lower (hd (py_split (''H 1.008 H.pbe.UPF'' @ [nl]))) \<notin> set headers_before_species"
    by code_simp
  have s: "snd (read_input dec_ops calc_init (Some deck_species_first)) = Some KeyError"
    using read_input_malformed [where deck = deck_species_first and pre = "[]"
        and hdr = "''ATOMIC_SPECIES'' @ [nl]" and line = "''H 1.008 H.pbe.UPF'' @ [nl]"
        and post = "[''&SYSTEM'' @ [nl], ''ntyp = 1,'' @ [nl], ''/'' @ [nl]]"
        and F = dec_ops and self = calc_init and r = "reader_init calc_init"]
      4 5 6 7 8 9
    by blast
  have 10: "readlines deck_positions_first
      = [] @ (''ATOMIC_POSITIONS angstrom'' @ [nl]) # (''H 0.0 0.0 0.0'' @ [nl])
          # [''&SYSTEM'' @ [nl], ''nat = 1,'' @ [nl], ''/'' @ [nl]]"
    by code_simp
  have 11: "py_split (''ATOMIC_POSITIONS angstrom'' @ [nl]) \<noteq> []
      \<and> py_lower (hd (py_split (''ATOMIC_POSITIONS angstrom'' @ [nl]))) = ''atomic_positions''"
    by code_simp
  have 12: "map_of (system (obj (reader_init (calc_init :: rat calc)))) ''nat'' = None"
    by (simp add: reader_init_def calc_init_def)
  have 13: "length (py_split (''H 0.0 0.0 0.0'' @ [nl])) = 4
      \<and> map (float_at dec_ops (py_split (''H 0.0 0.0 0.0'' @ [nl]))) [1, 2, 3]
          = [Inr 0, Inr 0, Inr 0]
      \<and> py_lower (hd (py_split (''H 0.0 0.0 0.0'' @ [nl]))) \<notin> set headers_before_positions"
    by code_simp
  have p: "snd (read_input dec_ops calc_init (Some deck_positions_first)) = Some KeyError"
    using read_input_malformed [where deck = deck_positions_first and pre = "[]"
        and hdr = "''ATOMIC_POSITIONS angstrom'' @ [nl]" and line = "''H 0.0 0.0 0.0'' @ [nl]"
        and post = "[''&SYSTEM'' @ [nl], ''nat = 1,'' @ [nl], ''/'' @ [nl]]"
        and F = dec_ops and self = calc_init and r = "reader_init calc_init"
        and a = 0 and b = 0 and c = 0]
      5 6 10 11 12 13
    by blast
  from b s p show ?thesis by blast
qed

text \<open>
  Counterexample to claim C2 as stated: a deck with a blank line ends in the
  \<^verbatim>\<open>IndexError\<close> of \<^verbatim>\<open>l[0]\<close>, and a deck whose \<^verbatim>\<open>ATOMIC_SPECIES\<close> card comes before
  \<^verbatim>\<open>&SYSTEM\<close> ends in the \<^verbatim>\<open>KeyError\<close> of \<^verbatim>\<open>self.system["ntyp"]\<close>, after the species has
  been appended to the object.
\<close>

theorem read_input_raises_builtin_errors:
  "snd (read_input dec_ops calc_init (Some deck_blank_line)) = Some IndexError
   \<and> snd (read_input dec_ops calc_init (Some deck_species_first)) = Some KeyError
   \<and> atomic_species (fst (read_input dec_ops calc_init (Some deck_species_first))) = [''H'']
   \<and> snd (read_input dec_ops calc_init (Some deck_positions_first)) = Some KeyError"
  by code_simp


section \<open>Calling \<^verbatim>\<open>read_input\<close> a second time\<close>

text \<open>The assignments \<^verbatim>\<open>d[k] = v\<close> of a list \<open>h\<close> of pairs, in order.\<close>

definition dict_apply :: "(string \<times> string) list \<Rightarrow> py_dict \<Rightarrow> py_dict" where
  "dict_apply h d = fold (\<lambda>p. dict_set (fst p) (snd p)) h d"

lemma map_of_dict_apply:
  "map_of (dict_apply h d) k = (case map_of (rev h) k of None \<Rightarrow> map_of d k | Some v \<Rightarrow> Some v)"
proof (induction h arbitrary: d)
  case Nil
  then show ?case by (simp add: dict_apply_def)
next
  case (Cons p h)
  have "map_of (dict_apply (p # h) d) k = map_of (dict_apply h (dict_set (fst p) (snd p) d)) k"
    by (simp add: dict_apply_def)
  also have "\<dots> = (case map_of (rev h) k of
      None \<Rightarrow> map_of (dict_set (fst p) (snd p) d) k | Some v \<Rightarrow> Some v)"
    by (rule Cons.IH)
  also have "\<dots> = (case map_of (rev (p # h)) k of None \<Rightarrow> map_of d k | Some v \<Rightarrow> Some v)"
    by (cases p) (auto simp: map_of_dict_set map_add_def split: option.splits)
  finally show ?case .
qed

lemma keys_set_dict_set: "fst ` set (dict_set k v d) = insert k (fst ` set d)"
  by (induction d) auto

lemma keys_set_dict_apply: "fst ` set (dict_apply h d) = fst ` set h \<union> fst ` set d"
  by (induction h arbitrary: d) (auto simp: dict_apply_def keys_set_dict_set)

lemma keys_dict_apply_present:
  "fst ` set h \<subseteq> fst ` set d \<Longrightarrow> map fst (dict_apply h d) = map fst d"
proof (induction h arbitrary: d)
  case Nil
  then show ?case by (simp add: dict_apply_def)
next
  case (Cons p h)
  from Cons.prems have k: "fst p \<in> fst ` set d" by simp
  then have m: "map fst (dict_set (fst p) (snd p) d) = map fst d" by (simp add: keys_dict_set)
  from Cons.prems have "fst ` set h \<subseteq> fst ` set (dict_set (fst p) (snd p) d)"
    by (auto simp: keys_set_dict_set)
  then have "map fst (dict_apply h (dict_set (fst p) (snd p) d))
      = map fst (dict_set (fst p) (snd p) d)"
    by (rule Cons.IH)
  with m show ?case by (simp add: dict_apply_def)
qed

lemma distinct_dict_set: "distinct (map fst d) \<Longrightarrow> distinct (map fst (dict_set k v d))"
  by (induction d) (auto simp: keys_set_dict_set)

lemma distinct_dict_apply: "distinct (map fst d) \<Longrightarrow> distinct (map fst (dict_apply h d))"
  by (induction h arbitrary: d) (auto simp: dict_apply_def distinct_dict_set)

lemma alist_eqI:
  "distinct (map fst a) \<Longrightarrow> map fst a = map fst b \<Longrightarrow> map_of a = map_of b \<Longrightarrow> a = b"
proof (induction a arbitrary: b)
  case Nil
  then show ?case by simp
next
  case (Cons p a)
  from Cons.prems(2) obtain q b' where b: "b = q # b'" and k: "fst p = fst q"
    and t: "map fst a = map fst b'"
    by (cases b) auto
  have "map_of (p # a) (fst p) = map_of b (fst p)"
    using fun_cong [OF Cons.prems(3), of "fst p"] .
  with b k have v: "snd p = snd q" by simp
  have "map_of a = map_of b'"
  proof
    fix x
    show "map_of a x = map_of b' x"
    proof (cases "x = fst p")
      case True
      from Cons.prems(1) have na: "fst p \<notin> fst ` set a" by simp
      from na t have nb: "fst p \<notin> fst ` set b'" by (metis set_map)
      from na have "map_of a (fst p) = None" by (simp add: map_of_eq_None_iff)
      moreover from nb have "map_of b' (fst p) = None" by (simp add: map_of_eq_None_iff)
      ultimately show ?thesis using True by simp
    next
      case False
      have "map_of (p # a) x = map_of b x"
        using fun_cong [OF Cons.prems(3), of x] .
      with False b k show ?thesis by simp
    qed
  qed
  with Cons.IH [of b'] Cons.prems(1) t have "a = b'" by simp
  with b k v show ?case by (simp add: prod_eq_iff)
qed

lemma dict_apply_twice: "dict_apply h (dict_apply h []) = dict_apply h []"
proof (rule alist_eqI [symmetric])
  show "distinct (map fst (dict_apply h []))" by (simp add: distinct_dict_apply)
  show "map fst (dict_apply h []) = map fst (dict_apply h (dict_apply h []))"
    by (rule keys_dict_apply_present [symmetric]) (simp add: keys_set_dict_apply)
  show "map_of (dict_apply h []) = map_of (dict_apply h (dict_apply h []))"
    by (rule ext) (simp add: map_of_dict_apply split: option.splits)
qed

text \<open>
  The relation between a first call of \<^verbatim>\<open>read_input\<close> on a new object (\<open>a\<close>) and a call on
  the object \<open>c1\<close> that the first call returned (\<open>b\<close>), after the same lines: the same
  local variables, every list of \<open>b\<close> is the list of \<open>c1\<close> followed by that of \<open>a\<close>, and
  every dictionary of \<open>b\<close> is that of \<open>c1\<close> after the assignments that made that of \<open>a\<close>.
\<close>

definition flags_eq :: "'f reader \<Rightarrow> 'f reader \<Rightarrow> bool" where
  "flags_eq a b \<longleftrightarrow>
     iscontrol a = iscontrol b \<and> issystem a = issystem b \<and> iselectrons a = iselectrons b
     \<and> isions a = isions b \<and> iscell a = iscell b
     \<and> iscellparameters a = iscellparameters b \<and> isatomicspecies a = isatomicspecies b
     \<and> isatomicpositions a = isatomicpositions b \<and> iskpoints a = iskpoints b
     \<and> r_j a = r_j b \<and> r_nk a = r_nk b
     \<and> (iskpoints a \<longrightarrow> k_points_type (obj a) = k_points_type (obj b))"

definition lists_doubled :: "'f calc \<Rightarrow> 'f calc \<Rightarrow> 'f calc \<Rightarrow> bool" where
  "lists_doubled c1 a b \<longleftrightarrow>
     atomic_species b = atomic_species c1 @ atomic_species a
     \<and> atomic_mass b = atomic_mass c1 @ atomic_mass a
     \<and> pseudopotential b = pseudopotential c1 @ pseudopotential a
     \<and> atom_type b = atom_type c1 @ atom_type a
     \<and> pos_x b = pos_x c1 @ pos_x a \<and> pos_y b = pos_y c1 @ pos_y a
     \<and> pos_z b = pos_z c1 @ pos_z a
     \<and> kx b = kx c1 @ kx a \<and> ky b = ky c1 @ ky a \<and> kz b = kz c1 @ kz a
     \<and> wk b = wk c1 @ wk a
     \<and> if_pos1 b = if_pos1 c1 @ if_pos1 a \<and> if_pos2 b = if_pos2 c1 @ if_pos2 a
     \<and> if_pos3 b = if_pos3 c1 @ if_pos3 a
     \<and> v1 b = v1 c1 @ v1 a \<and> v2 b = v2 c1 @ v2 a \<and> v3 b = v3 c1 @ v3 a"

definition dict_rel :: "py_dict \<Rightarrow> py_dict \<Rightarrow> py_dict \<Rightarrow> bool" where
  "dict_rel d1 da db \<longleftrightarrow> (\<exists>h. da = dict_apply h [] \<and> db = dict_apply h d1)"

definition dicts_rel :: "'f calc \<Rightarrow> 'f calc \<Rightarrow> 'f calc \<Rightarrow> bool" where
  "dicts_rel c1 a b \<longleftrightarrow>
     dict_rel (control c1) (control a) (control b)
     \<and> dict_rel (system c1) (system a) (system b)
     \<and> dict_rel (electrons c1) (electrons a) (electrons b)
     \<and> dict_rel (ions c1) (ions a) (ions b)
     \<and> dict_rel (cell c1) (cell a) (cell b)"

definition sim :: "'f calc \<Rightarrow> 'f reader \<Rightarrow> 'f reader \<Rightarrow> bool" where
  "sim c1 a b \<longleftrightarrow>
     flags_eq a b \<and> lists_doubled c1 (obj a) (obj b) \<and> dicts_rel c1 (obj a) (obj b)"

lemma dict_rel_set: "dict_rel d1 da db \<Longrightarrow> dict_rel d1 (dict_set k v da) (dict_set k v db)"
proof -
  assume "dict_rel d1 da db"
  then obtain h where h: "da = dict_apply h []" "db = dict_apply h d1"
    by (auto simp: dict_rel_def)
  then have "dict_set k v da = dict_apply (h @ [(k, v)]) []"
    and "dict_set k v db = dict_apply (h @ [(k, v)]) d1"
    by (simp_all add: dict_apply_def)
  then show ?thesis unfolding dict_rel_def by blast
qed

lemma dict_rel_lookup: "dict_rel d1 da db \<Longrightarrow> map_of da k = Some w \<Longrightarrow> map_of db k = Some w"
  by (auto simp: dict_rel_def map_of_dict_apply split: option.splits)

lemma dict_rel_start: "dict_rel d1 [] d1"
  unfolding dict_rel_def by (rule exI [of _ "[]"]) (simp add: dict_apply_def)

lemma dict_rel_end: "dict_rel d1 d1 db \<Longrightarrow> db = d1"
  by (auto simp: dict_rel_def dict_apply_twice)

text \<open>
  A statement keeps the relation when, from related states in which \<open>Q\<close> holds, its
  normal return in the first call means a normal return in the second, to related states.
\<close>

definition preserves_on ::
  "'f calc \<Rightarrow> ('f reader \<Rightarrow> bool) \<Rightarrow> ('f reader \<Rightarrow> 'f reader \<times> py_error option) \<Rightarrow> bool" where
  "preserves_on c1 Q f \<longleftrightarrow>
     (\<forall>a b a'. sim c1 a b \<and> Q a \<and> f a = (a', None)
        \<longrightarrow> (\<exists>b'. f b = (b', None) \<and> sim c1 a' b'))"

lemma preserves_on_weaken:
  "preserves_on c1 (\<lambda>_. True) f \<Longrightarrow> preserves_on c1 Q f"
  by (auto simp: preserves_on_def)

lemma preserves_on_then_do:
  assumes "preserves_on c1 Q f" and "preserves_on c1 (\<lambda>_. True) g"
  shows "preserves_on c1 Q (\<lambda>r. then_do (f r) g)"
  unfolding preserves_on_def
proof (intro allI impI)
  fix a b a'
  assume h: "sim c1 a b \<and> Q a \<and> then_do (f a) g = (a', None)"
  then obtain a1 where fa: "f a = (a1, None)" and ga: "g a1 = (a', None)"
    by (cases "f a") (auto simp: then_do_def split: option.splits)
  with h assms(1) obtain b1 where fb: "f b = (b1, None)" and s1: "sim c1 a1 b1"
    unfolding preserves_on_def by blast
  with ga assms(2) obtain b' where "g b1 = (b', None)" and "sim c1 a' b'"
    unfolding preserves_on_def by blast
  with fb show "\<exists>b'. then_do (f b) g = (b', None) \<and> sim c1 a' b'"
    by (auto simp: then_do_def)
qed

lemma preserves_on_if:
  assumes "\<And>a b. sim c1 a b \<Longrightarrow> Q a \<Longrightarrow> P a = P b"
    and "preserves_on c1 (\<lambda>r. Q r \<and> P r) f"
    and "preserves_on c1 (\<lambda>r. Q r \<and> \<not> P r) g"
  shows "preserves_on c1 Q (\<lambda>r. if P r then f r else g r)"
  unfolding preserves_on_def
proof (intro allI impI)
  fix a b a'
  assume h: "sim c1 a b \<and> Q a \<and> (if P a then f a else g a) = (a', None)"
  with assms(1) have pb: "P a = P b" by blast
  show "\<exists>b'. (if P b then f b else g b) = (b', None) \<and> sim c1 a' b'"
  proof (cases "P a")
    case True
    with h assms(2) pb show ?thesis unfolding preserves_on_def by auto
  next
    case False
    with h assms(3) pb show ?thesis unfolding preserves_on_def by auto
  qed
qed

lemma preserves_on_pure:
  assumes "\<And>a b. sim c1 a b \<Longrightarrow> Q a \<Longrightarrow> sim c1 (u a) (u b)"
  shows "preserves_on c1 Q (\<lambda>r. (u r, None))"
  using assms by (auto simp: preserves_on_def)


text \<open>The updates of the object and of the flags keep the relation.\<close>

definition list_field ::
  "'f calc \<Rightarrow> (('a list \<Rightarrow> 'a list) \<Rightarrow> 'f calc \<Rightarrow> 'f calc) \<Rightarrow> bool" where
  "list_field c1 upd \<longleftrightarrow>
     (\<forall>w a b. sim c1 a b
        \<longrightarrow> sim c1 (on_obj (upd (\<lambda>xs. xs @ [w])) a) (on_obj (upd (\<lambda>xs. xs @ [w])) b))"

definition scalar_field ::
  "'f calc \<Rightarrow> ((int option \<Rightarrow> int option) \<Rightarrow> 'f calc \<Rightarrow> 'f calc) \<Rightarrow> bool" where
  "scalar_field c1 upd \<longleftrightarrow>
     (\<forall>g a b. sim c1 a b \<longrightarrow> sim c1 (on_obj (upd g) a) (on_obj (upd g) b))"

definition dict_field ::
  "'f calc \<Rightarrow> ((py_dict \<Rightarrow> py_dict) \<Rightarrow> 'f calc \<Rightarrow> 'f calc) \<Rightarrow> bool" where
  "dict_field c1 upd \<longleftrightarrow>
     (\<forall>k v a b. sim c1 a b
        \<longrightarrow> sim c1 (on_obj (upd (dict_set k v)) a) (on_obj (upd (dict_set k v)) b))"

definition flag_field ::
  "'f calc \<Rightarrow> ((bool \<Rightarrow> bool) \<Rightarrow> 'f reader \<Rightarrow> 'f reader) \<Rightarrow> bool" where
  "flag_field c1 flag \<longleftrightarrow>
     (\<forall>v a b. sim c1 a b \<longrightarrow> sim c1 (flag (\<lambda>_. v) a) (flag (\<lambda>_. v) b))"

lemma list_fields:
  "list_field c1 atomic_species_update" "list_field c1 atomic_mass_update"
  "list_field c1 pseudopotential_update" "list_field c1 atom_type_update"
  "list_field c1 pos_x_update" "list_field c1 pos_y_update" "list_field c1 pos_z_update"
  "list_field c1 kx_update" "list_field c1 ky_update" "list_field c1 kz_update"
  "list_field c1 wk_update"
  "list_field c1 if_pos1_update" "list_field c1 if_pos2_update" "list_field c1 if_pos3_update"
  "list_field c1 v1_update" "list_field c1 v2_update" "list_field c1 v3_update"
  by (simp_all add: list_field_def sim_def flags_eq_def lists_doubled_def dicts_rel_def
      on_obj_def)

lemma scalar_fields:
  "scalar_field c1 nk1_update" "scalar_field c1 nk2_update" "scalar_field c1 nk3_update"
  "scalar_field c1 sk1_update" "scalar_field c1 sk2_update" "scalar_field c1 sk3_update"
  by (simp_all add: scalar_field_def sim_def flags_eq_def lists_doubled_def dicts_rel_def
      on_obj_def)

lemma dict_fields:
  "dict_field c1 control_update" "dict_field c1 system_update"
  "dict_field c1 electrons_update" "dict_field c1 ions_update" "dict_field c1 cell_update"
  by (simp_all add: dict_field_def sim_def flags_eq_def lists_doubled_def dicts_rel_def
      on_obj_def dict_rel_set)

lemma flag_fields:
  "flag_field c1 iscontrol_update" "flag_field c1 issystem_update"
  "flag_field c1 iselectrons_update" "flag_field c1 isions_update"
  "flag_field c1 iscell_update" "flag_field c1 iscellparameters_update"
  "flag_field c1 isatomicspecies_update" "flag_field c1 isatomicpositions_update"
  by (simp_all add: flag_field_def sim_def flags_eq_def)

lemma preserves_on_raise: "preserves_on c1 Q (\<lambda>r. (u r, Some e))"
  by (simp add: preserves_on_def)

lemma preserves_on_append_str:
  "list_field c1 upd \<Longrightarrow> preserves_on c1 Q (append_str l k upd)"
  by (cases "py_nth l k") (auto simp: preserves_on_def append_str_def list_field_def)

lemma preserves_on_append_float:
  "list_field c1 upd \<Longrightarrow> preserves_on c1 Q (append_float F l k upd)"
  by (cases "py_nth l k")
    (auto simp: preserves_on_def append_float_def list_field_def split: option.splits)

lemma preserves_on_append_int:
  "list_field c1 upd \<Longrightarrow> preserves_on c1 Q (append_int l k upd)"
  by (cases "py_nth l k")
    (auto simp: preserves_on_def append_int_def list_field_def split: option.splits)

lemma preserves_on_assign_int:
  "scalar_field c1 upd \<Longrightarrow> preserves_on c1 Q (assign_int l k upd)"
  by (cases "py_nth l k")
    (auto simp: preserves_on_def assign_int_def scalar_field_def split: option.splits)

lemma preserves_on_namelist_line:
  "flag_field c1 flag \<Longrightarrow> dict_field c1 dict \<Longrightarrow> preserves_on c1 Q (namelist_line l flag dict)"
  by (cases "py_nth l 2")
    (auto simp: preserves_on_def namelist_line_def flag_field_def dict_field_def)

lemma sim_system_lookup:
  "sim c1 a b \<Longrightarrow> dict_get (system (obj a)) key = Inr w \<Longrightarrow> dict_get (system (obj b)) key = Inr w"
  by (auto simp: sim_def dicts_rel_def dict_get_def split: option.splits
      dest: dict_rel_lookup)

lemma sim_r_j: "sim c1 a b \<Longrightarrow> r_j a = r_j b"
  by (simp add: sim_def flags_eq_def)

lemma sim_r_j_update: "sim c1 a b \<Longrightarrow> sim c1 (a\<lparr>r_j := n\<rparr>) (b\<lparr>r_j := n\<rparr>)"
  by (simp add: sim_def flags_eq_def)

lemma preserves_on_count_line:
  assumes "flag_field c1 flag"
  shows "preserves_on c1 Q (count_line key flag)"
  unfolding preserves_on_def
proof (intro allI impI)
  fix a b a'
  assume h: "sim c1 a b \<and> Q a \<and> count_line key flag a = (a', None)"
  define a1 where "a1 = a\<lparr>r_j := r_j a + 1\<rparr>"
  define b1 where "b1 = b\<lparr>r_j := r_j b + 1\<rparr>"
  from h have s1: "sim c1 a1 b1"
    using sim_r_j [of c1 a b] sim_r_j_update [of c1 a b "r_j a + 1"] by (simp add: a1_def b1_def)
  from h obtain w n where w: "dict_get (system (obj a1)) key = Inr w" and n: "py_int w = Some n"
    and a': "a' = (if r_j a1 = n then flag (\<lambda>_. False) (a1\<lparr>r_j := 0\<rparr>) else a1)"
    by (auto simp: count_line_def Let_def a1_def split: sum.splits option.splits if_splits)
  from s1 w have wb: "dict_get (system (obj b1)) key = Inr w" by (rule sim_system_lookup)
  have jb: "r_j a1 = r_j b1" using s1 by (rule sim_r_j)
  have "sim c1 (flag (\<lambda>_. False) (a1\<lparr>r_j := 0\<rparr>)) (flag (\<lambda>_. False) (b1\<lparr>r_j := 0\<rparr>))"
    using assms sim_r_j_update [OF s1, of 0] by (simp add: flag_field_def)
  with s1 a' wb n jb
  show "\<exists>b'. count_line key flag b = (b', None) \<and> sim c1 a' b'"
    by (auto simp: count_line_def Let_def b1_def)
qed

lemmas preserves_leaf =
  preserves_on_append_str [OF list_fields(1)] preserves_on_append_str [OF list_fields(2)]
  preserves_on_append_str [OF list_fields(3)] preserves_on_append_str [OF list_fields(4)]
  preserves_on_append_float [OF list_fields(5)] preserves_on_append_float [OF list_fields(6)]
  preserves_on_append_float [OF list_fields(7)] preserves_on_append_float [OF list_fields(8)]
  preserves_on_append_float [OF list_fields(9)] preserves_on_append_float [OF list_fields(10)]
  preserves_on_append_float [OF list_fields(11)] preserves_on_append_int [OF list_fields(12)]
  preserves_on_append_int [OF list_fields(13)] preserves_on_append_int [OF list_fields(14)]
  preserves_on_append_float [OF list_fields(15)] preserves_on_append_float [OF list_fields(16)]
  preserves_on_append_float [OF list_fields(17)]
  preserves_on_assign_int [OF scalar_fields(1)] preserves_on_assign_int [OF scalar_fields(2)]
  preserves_on_assign_int [OF scalar_fields(3)] preserves_on_assign_int [OF scalar_fields(4)]
  preserves_on_assign_int [OF scalar_fields(5)] preserves_on_assign_int [OF scalar_fields(6)]
  preserves_on_namelist_line [OF flag_fields(1) dict_fields(1)]
  preserves_on_namelist_line [OF flag_fields(2) dict_fields(2)]
  preserves_on_namelist_line [OF flag_fields(3) dict_fields(3)]
  preserves_on_namelist_line [OF flag_fields(4) dict_fields(4)]
  preserves_on_namelist_line [OF flag_fields(5) dict_fields(5)]
  preserves_on_count_line [OF flag_fields(7)] preserves_on_count_line [OF flag_fields(8)]
  preserves_on_raise

lemma preserves_on_atomic_species_line: "preserves_on c1 Q (atomic_species_line l)"
  unfolding atomic_species_line_def [abs_def]
  by (intro preserves_on_then_do preserves_leaf)

lemma preserves_on_atomic_positions_line: "preserves_on c1 Q (atomic_positions_line F l)"
  unfolding atomic_positions_line_def [abs_def]
  by (intro preserves_on_then_do preserves_on_if preserves_leaf preserves_on_pure) simp_all

lemma preserves_on_cell_parameters_line: "preserves_on c1 Q (cell_parameters_line F l)"
  unfolding cell_parameters_line_def [abs_def]
  by (intro preserves_on_then_do preserves_on_if preserves_leaf preserves_on_pure)
    (simp_all add: sim_def flags_eq_def)

lemma preserves_on_k_points_header: "preserves_on c1 Q (k_points_header l)"
  by (cases "py_nth l 1")
    (auto simp: preserves_on_def k_points_header_def Let_def sim_def flags_eq_def
      lists_doubled_def dicts_rel_def on_obj_def)

lemma preserves_on_grid:
  "preserves_on c1 Q (\<lambda>r.
        then_do (assign_int l 0 nk1_update r) (\<lambda>r.
        then_do (assign_int l 1 nk2_update r) (\<lambda>r.
        then_do (assign_int l 2 nk3_update r) (\<lambda>r.
        then_do (assign_int l 3 sk1_update r) (\<lambda>r.
        then_do (assign_int l 4 sk2_update r) (\<lambda>r.
          assign_int l 5 sk3_update r))))))"
  by (intro preserves_on_then_do preserves_leaf)

lemma preserves_on_count:
  "preserves_on c1 Q (\<lambda>r.
        case py_nth l 0 of
           Inl e \<Rightarrow> (r, Some e)
         | Inr w \<Rightarrow>
             (case py_int w of
                None \<Rightarrow> (r, Some ValueError)
              | Some n \<Rightarrow> (r\<lparr>r_nk := Some n, r_j := 1\<rparr>, None)))"
  by (cases "py_nth l 0")
    (auto simp: preserves_on_def sim_def flags_eq_def split: option.splits)

lemma preserves_on_point_end:
  "preserves_on c1 Q (\<lambda>r0.
        case r_nk (r0\<lparr>r_j := r_j r0 + 1\<rparr>) of
             None \<Rightarrow> (r0\<lparr>r_j := r_j r0 + 1\<rparr>, Some UnboundLocalError)
           | Some n \<Rightarrow>
               if r_j (r0\<lparr>r_j := r_j r0 + 1\<rparr>) > n
               then (r0\<lparr>r_j := r_j r0 + 1, iskpoints := False, r_j := 0\<rparr>, None)
               else (r0\<lparr>r_j := r_j r0 + 1\<rparr>, None))"
  unfolding preserves_on_def
proof (intro allI impI)
  fix a b a'
  assume h: "sim c1 a b \<and> Q a \<and>
    (case r_nk (a\<lparr>r_j := r_j a + 1\<rparr>) of
             None \<Rightarrow> (a\<lparr>r_j := r_j a + 1\<rparr>, Some UnboundLocalError)
           | Some n \<Rightarrow>
               if r_j (a\<lparr>r_j := r_j a + 1\<rparr>) > n
               then (a\<lparr>r_j := r_j a + 1, iskpoints := False, r_j := 0\<rparr>, None)
               else (a\<lparr>r_j := r_j a + 1\<rparr>, None)) = (a', None)"
  then have eq: "r_nk a = r_nk b" "r_j a = r_j b" by (simp_all add: sim_def flags_eq_def)
  from h have s1: "sim c1 (a\<lparr>r_j := r_j a + 1\<rparr>) (b\<lparr>r_j := r_j a + 1\<rparr>)"
    by (simp add: sim_def flags_eq_def)
  from h have s2: "sim c1 (a\<lparr>r_j := r_j a + 1, iskpoints := False, r_j := 0\<rparr>)
      (b\<lparr>r_j := r_j a + 1, iskpoints := False, r_j := 0\<rparr>)"
    by (simp add: sim_def flags_eq_def)
  from h eq s1 s2 show "\<exists>b'.
    (case r_nk (b\<lparr>r_j := r_j b + 1\<rparr>) of
             None \<Rightarrow> (b\<lparr>r_j := r_j b + 1\<rparr>, Some UnboundLocalError)
           | Some n \<Rightarrow>
               if r_j (b\<lparr>r_j := r_j b + 1\<rparr>) > n
               then (b\<lparr>r_j := r_j b + 1, iskpoints := False, r_j := 0\<rparr>, None)
               else (b\<lparr>r_j := r_j b + 1\<rparr>, None)) = (b', None) \<and> sim c1 a' b'"
    by (auto split: option.splits if_splits)
qed

lemma preserves_on_k_points_line:
  assumes "\<And>r. Q r \<Longrightarrow> iskpoints r"
  shows "preserves_on c1 Q (k_points_line F l)"
  unfolding k_points_line_def [abs_def] Let_def
  by (intro preserves_on_if preserves_on_grid preserves_on_count preserves_on_then_do
      preserves_leaf preserves_on_point_end)
    (use assms in \<open>auto simp: sim_def flags_eq_def\<close>)

text \<open>The body of the loop keeps the relation, and so does the loop.\<close>

lemma preserves_on_read_line: "preserves_on c1 (\<lambda>_. True) (\<lambda>r. read_line F r line)"
  unfolding read_line_def Let_def
  by (intro preserves_on_if preserves_leaf preserves_on_pure
      preserves_on_atomic_species_line preserves_on_atomic_positions_line
      preserves_on_cell_parameters_line preserves_on_k_points_header
      preserves_on_k_points_line)
    (auto simp: sim_def flags_eq_def lists_doubled_def dicts_rel_def on_obj_def)

lemma read_lines_sim:
  "sim c1 a b \<Longrightarrow> read_lines F a ls = (a', None)
    \<Longrightarrow> \<exists>b'. read_lines F b ls = (b', None) \<and> sim c1 a' b'"
proof (induction ls arbitrary: a b)
  case Nil
  then show ?case by simp
next
  case (Cons line ls)
  from Cons.prems(2) obtain a1 where a1: "read_line F a line = (a1, None)"
    and rest: "read_lines F a1 ls = (a', None)"
    by (cases "read_line F a line") (auto split: option.splits)
  from preserves_on_read_line [of c1 F line] Cons.prems(1) a1
  obtain b1 where b1: "read_line F b line = (b1, None)" and s1: "sim c1 a1 b1"
    unfolding preserves_on_def by blast
  from Cons.IH [OF s1 rest] obtain b' where "read_lines F b1 ls = (b', None)" and "sim c1 a' b'"
    by blast
  with b1 show ?case by auto
qed

lemma sim_start: "sim c1 (reader_init calc_init) (reader_init c1)"
  by (simp add: sim_def flags_eq_def lists_doubled_def dicts_rel_def reader_init_def
      calc_init_def dict_rel_start)


text \<open>The text of the deck of the hydrogen molecule.\<close>

definition h2_deck :: string where
  "h2_deck = unlines
       [''&CONTROL'',
        ''calculation = '' @ [quote] @ ''relax'' @ [quote] @ '','',
        ''/'',
        ''&SYSTEM'',
        ''ibrav = 0,'',
        ''nat = 2,'',
        ''ntyp = 1,'',
        ''ecutwfc = 30.0,'',
        ''/'',
        ''&ELECTRONS'',
        ''/'',
        ''&IONS'',
        ''/'',
        ''ATOMIC_SPECIES'',
        ''H   1.008   H.pbe.UPF'',
        ''CELL_PARAMETERS angstrom'',
        ''10.0   0.0   0.0'',
        ''0.0   10.0   0.0'',
        ''0.0   0.0   10.0'',
        ''ATOMIC_POSITIONS angstrom'',
        ''H   0.0   0.0   0.0'',
        ''H   0.7   0.0   0.0'',
        ''K_POINTS gamma'']"

lemma read_input_h2_deck: "read_input dec_ops calc_init (Some h2_deck) = (h2_model, None)"
  by code_simp

text \<open>
  Claim C10. \<^verbatim>\<open>read_input\<close> appends to the lists of the object and never empties them.
  For every deck that a new \<^verbatim>\<open>calc\<close> object reads without an exception, a second call on
  the same object with the same deck also returns, every list it fills is then the list
  of the first call twice over, of twice the length, and the five namelist dictionaries
  are as the first call left them.
\<close>

theorem read_input_twice:
  assumes "read_input F calc_init (Some deck) = (c1, None)"
  shows "\<exists>c2. read_input F c1 (Some deck) = (c2, None)
    \<and> atomic_species c2 = atomic_species c1 @ atomic_species c1
    \<and> atom_type c2 = atom_type c1 @ atom_type c1
    \<and> pos_x c2 = pos_x c1 @ pos_x c1 \<and> pos_y c2 = pos_y c1 @ pos_y c1
    \<and> pos_z c2 = pos_z c1 @ pos_z c1
    \<and> v1 c2 = v1 c1 @ v1 c1 \<and> v2 c2 = v2 c1 @ v2 c1 \<and> v3 c2 = v3 c1 @ v3 c1
    \<and> length (atomic_species c2) = 2 * length (atomic_species c1)
    \<and> length (atom_type c2) = 2 * length (atom_type c1)
    \<and> length (pos_x c2) = 2 * length (pos_x c1) \<and> length (pos_y c2) = 2 * length (pos_y c1)
    \<and> length (pos_z c2) = 2 * length (pos_z c1)
    \<and> length (v1 c2) = 2 * length (v1 c1) \<and> length (v2 c2) = 2 * length (v2 c1)
    \<and> length (v3 c2) = 2 * length (v3 c1)
    \<and> control c2 = control c1 \<and> system c2 = system c1 \<and> electrons c2 = electrons c1
    \<and> ions c2 = ions c1 \<and> cell c2 = cell c1"
proof -
  from assms obtain a' where a': "read_lines F (reader_init calc_init) (readlines deck) = (a', None)"
    and c1: "obj a' = c1"
    by (auto simp: read_input_def split: prod.splits)
  from read_lines_sim [OF sim_start a', of c1] obtain b'
    where b': "read_lines F (reader_init c1) (readlines deck) = (b', None)" and s: "sim c1 a' b'"
    by blast
  from b' have r: "read_input F c1 (Some deck) = (obj b', None)"
    by (simp add: read_input_def)
  from s c1 have l: "lists_doubled c1 c1 (obj b')" and d: "dicts_rel c1 c1 (obj b')"
    by (simp_all add: sim_def)
  from d have "control (obj b') = control c1" "system (obj b') = system c1"
    "electrons (obj b') = electrons c1" "ions (obj b') = ions c1" "cell (obj b') = cell c1"
    by (simp_all add: dicts_rel_def dict_rel_end)
  with r l show ?thesis by (simp add: lists_doubled_def)
qed

theorem read_input_twice_witness:
  "read_input dec_ops calc_init (Some h2_deck) = (h2_model, None)
   \<and> snd (read_input dec_ops h2_model (Some h2_deck)) = None
   \<and> atom_type (fst (read_input dec_ops h2_model (Some h2_deck))) = [''H'', ''H'', ''H'', ''H'']
   \<and> v1 (fst (read_input dec_ops h2_model (Some h2_deck))) = [10, 0, 0, 10, 0, 0]
   \<and> system (fst (read_input dec_ops h2_model (Some h2_deck))) = system h2_model"
proof -
  from read_input_twice [OF read_input_h2_deck] obtain c2
    where "read_input dec_ops h2_model (Some h2_deck) = (c2, None)"
      and "atom_type c2 = atom_type h2_model @ atom_type h2_model"
      and "v1 c2 = v1 h2_model @ v1 h2_model"
      and "system c2 = system h2_model"
    by blast
  then show ?thesis
    using read_input_h2_deck by (simp add: h2_model_def calc_init_def)
qed


section \<open>Reading back the text of \<^verbatim>\<open>build_input\<close>\<close>

subsection \<open>Tokens and lines\<close>

text \<open>A token is a non-empty string without white space.\<close>

definition token :: "string \<Rightarrow> bool" where
  "token t \<longleftrightarrow> t \<noteq> [] \<and> (\<forall>c \<in> set t. \<not> is_space c)"

definition spaces :: "string \<Rightarrow> bool" where
  "spaces w \<longleftrightarrow> w \<noteq> [] \<and> (\<forall>c \<in> set w. is_space c)"

text \<open>A string that holds no end of line.\<close>

definition no_eol :: "string \<Rightarrow> bool" where
  "no_eol s \<longleftrightarrow> (\<forall>c \<in> set s. c \<noteq> nl \<and> c \<noteq> CHR 0x0D)"

lemma split_acc_token: "\<forall>c \<in> set t. \<not> is_space c \<Longrightarrow> split_acc cur (t @ s) = split_acc (cur @ t) s"
  by (induction t arbitrary: cur) auto

lemma split_acc_spaces_empty: "\<forall>c \<in> set w. is_space c \<Longrightarrow> split_acc [] (w @ s) = split_acc [] s"
  by (induction w) auto

lemma split_acc_spaces:
  "spaces w \<Longrightarrow> cur \<noteq> [] \<Longrightarrow> split_acc cur (w @ s) = cur # split_acc [] s"
  by (cases w) (auto simp: spaces_def split_acc_spaces_empty)

lemma split_acc_token_spaces:
  "token t \<Longrightarrow> spaces w \<Longrightarrow> split_acc [] (t @ w @ s) = t # split_acc [] s"
  by (simp add: split_acc_token split_acc_spaces token_def)

text \<open>Tokens, each followed by white space, are split into these tokens.\<close>

lemma py_split_tokens:
  "\<forall>t \<in> set ts. token t \<Longrightarrow> \<forall>w \<in> set ws. spaces w \<Longrightarrow> length ws = length ts
    \<Longrightarrow> py_split (concat (map2 (@) ts ws)) = ts"
  unfolding py_split_def
proof (induction ts arbitrary: ws)
  case Nil
  then show ?case by simp
next
  case (Cons t ts)
  then obtain w ws' where ws: "ws = w # ws'" by (cases ws) auto
  with Cons.prems have "token t" "spaces w" "\<forall>t \<in> set ts. token t" "\<forall>w \<in> set ws'. spaces w"
    "length ws' = length ts"
    by auto
  with Cons.IH [of ws'] show ?case unfolding ws by (simp add: split_acc_token_spaces)
qed

lemma spaces_literals: "spaces sep3" "spaces [nl]" "spaces '' ''" "spaces (sep3 @ [nl])"
  by (simp_all add: spaces_def sep3_def is_space_def nl_def)

lemma py_split_1: "token a \<Longrightarrow> py_split (a @ [nl]) = [a]"
  using py_split_tokens [of "[a]" "[[nl]]"] by (simp add: spaces_literals)

lemma py_split_2: "token a \<Longrightarrow> token b \<Longrightarrow> py_split (a @ '' '' @ b @ [nl]) = [a, b]"
  using py_split_tokens [of "[a, b]" "['' '', [nl]]"] by (simp add: spaces_literals)

lemma py_split_3:
  "token a \<Longrightarrow> token b \<Longrightarrow> token c \<Longrightarrow> py_split (a @ sep3 @ b @ sep3 @ c @ [nl]) = [a, b, c]"
  using py_split_tokens [of "[a, b, c]" "[sep3, sep3, [nl]]"] by (simp add: spaces_literals)

lemma py_split_4:
  "token a \<Longrightarrow> token b \<Longrightarrow> token c \<Longrightarrow> token d
    \<Longrightarrow> py_split (a @ sep3 @ b @ sep3 @ c @ sep3 @ d @ [nl]) = [a, b, c, d]"
  using py_split_tokens [of "[a, b, c, d]" "[sep3, sep3, sep3, [nl]]"]
  by (simp add: spaces_literals)

lemma py_split_6:
  "token a \<Longrightarrow> token b \<Longrightarrow> token c \<Longrightarrow> token d \<Longrightarrow> token e \<Longrightarrow> token f
    \<Longrightarrow> py_split (a @ sep3 @ b @ sep3 @ c @ sep3 @ d @ sep3 @ e @ sep3 @ f @ [nl])
        = [a, b, c, d, e, f]"
  using py_split_tokens [of "[a, b, c, d, e, f]" "[sep3, sep3, sep3, sep3, sep3, [nl]]"]
  by (simp add: spaces_literals)

lemma py_split_7:
  "token a \<Longrightarrow> token b \<Longrightarrow> token c \<Longrightarrow> token d \<Longrightarrow> token e \<Longrightarrow> token f \<Longrightarrow> token g
    \<Longrightarrow> py_split (a @ sep3 @ b @ sep3 @ c @ sep3 @ d @ sep3 @ e @ sep3 @ f @ sep3 @ g @ [nl])
        = [a, b, c, d, e, f, g]"
  using py_split_tokens [of "[a, b, c, d, e, f, g]"
      "[sep3, sep3, sep3, sep3, sep3, sep3, [nl]]"]
  by (simp add: spaces_literals)

text \<open>A header with a unit tag that may be empty: \<^verbatim>\<open>CELL_PARAMETERS \<close> and the tag.\<close>

lemma py_split_header:
  assumes "token a" and "u = [] \<or> token u"
  shows "py_split (a @ '' '' @ u @ [nl]) = (if u = [] then [a] else [a, u])"
proof (cases "u = []")
  case True
  have "spaces ('' '' @ [nl])" by (simp add: spaces_def is_space_def nl_def)
  with assms(1) have "py_split (a @ '' '' @ [nl]) = [a]"
    using py_split_tokens [of "[a]" "['' '' @ [nl]]"] by simp
  with True show ?thesis by simp
next
  case False
  with assms show ?thesis using py_split_2 [of a u] by simp
qed

lemma token_str_int: "token (str_int i)"
  using str_int_no_space [of i] str_nat_nonempty by (auto simp: token_def str_int_def)

text \<open>\<^verbatim>\<open>readlines\<close> gives back the lines of a text that was built from lines.\<close>

lemma readlines_acc_line:
  "no_eol l \<Longrightarrow> readlines_acc cur (l @ nl # rest) = (cur @ l @ [nl]) # readlines_acc [] rest"
  by (induction l arbitrary: cur) (auto simp: no_eol_def)

lemma readlines_unlines:
  "\<forall>l \<in> set ls. no_eol l \<Longrightarrow> readlines (unlines ls) = map (\<lambda>l. l @ [nl]) ls"
  unfolding readlines_def unlines_def
  by (induction ls) (auto simp: readlines_acc_line)

lemma no_eol_append: "no_eol (a @ b) \<longleftrightarrow> no_eol a \<and> no_eol b"
  by (auto simp: no_eol_def)

lemma no_eol_token: "token t \<Longrightarrow> no_eol t"
  by (auto simp: no_eol_def token_def is_space_def nl_def)

lemma no_eol_sep3: "no_eol sep3" "no_eol '' ''"
  by (simp_all add: no_eol_def sep3_def nl_def)

text \<open>
  Lower case of the text of an integer: its first character is a digit or the sign, so
  it is no header.
\<close>

lemma lower_char_digit: "is_digit c \<or> c = CHR ''-'' \<Longrightarrow> lower_char c = c"
  by (auto simp: is_digit_def lower_char_def)

lemma hd_str_int: "is_digit (hd (str_int i)) \<or> hd (str_int i) = CHR ''-''"
proof (cases "i < 0")
  case True
  then show ?thesis by (simp add: str_int_def)
next
  case False
  obtain c cs where s: "str_nat (nat i) = c # cs"
    using str_nat_nonempty [of "nat i"] by (cases "str_nat (nat i)") auto
  then have "is_digit c" using str_nat_digits [of "nat i"] by auto
  with False s show ?thesis by (simp add: str_int_def)
qed

lemma hd_py_lower_str_int:
  "is_digit (hd (py_lower (str_int i))) \<or> hd (py_lower (str_int i)) = CHR ''-''"
proof -
  have ne: "str_int i \<noteq> []" using token_str_int [of i] by (simp add: token_def)
  then have "hd (py_lower (str_int i)) = lower_char (hd (str_int i))"
    by (simp add: py_lower_def hd_map)
  with hd_str_int [of i] lower_char_digit show ?thesis by metis
qed


subsection \<open>The decks that are read back\<close>

definition namelist_headers :: "string list" where
  "namelist_headers = [''&control'', ''&system'', ''&electrons'', ''&ions'', ''&cell'']"

definition headers_before_cell :: "string list" where
  "headers_before_cell = namelist_headers @ [''cell_parameters'']"

definition all_headers :: "string list" where
  "all_headers = headers_before_positions @ [''k_points'']"

text \<open>
  A key that a namelist line gives back: one token, not the closing \<^verbatim>\<open>/\<close> and not the
  header of a namelist. A value that it gives back: no white space and no comma.
\<close>

definition safe_key :: "string \<Rightarrow> bool" where
  "safe_key k \<longleftrightarrow> token k \<and> k \<noteq> ''/'' \<and> py_lower k \<notin> set namelist_headers"

definition safe_value :: "string \<Rightarrow> bool" where
  "safe_value v \<longleftrightarrow> (\<forall>c \<in> set v. \<not> is_space c \<and> c \<noteq> CHR '','')"

definition safe_dict :: "py_dict \<Rightarrow> bool" where
  "safe_dict d \<longleftrightarrow> distinct (map fst d) \<and> (\<forall>p \<in> set d. safe_key (fst p) \<and> safe_value (snd p))"

text \<open>
  A float that its text gives back: \<^verbatim>\<open>float(str(x))\<close> is \<open>x\<close>, and \<^verbatim>\<open>str(x)\<close> is one token
  that is no header.
\<close>

definition float_ok :: "'f float_ops \<Rightarrow> 'f \<Rightarrow> bool" where
  "float_ok F a \<longleftrightarrow>
     py_float F (str_float F a) = Some a \<and> token (str_float F a)
     \<and> py_lower (str_float F a) \<notin> set headers_before_cell"

definition unit_tag :: "string \<Rightarrow> bool" where
  "unit_tag u \<longleftrightarrow> u = [] \<or> token u"

text \<open>The two tests of \<^verbatim>\<open>build_input\<close> that decide which parts of the deck are written.\<close>

definition variable_cell :: "'f calc \<Rightarrow> bool" where
  "variable_cell m \<longleftrightarrow>
     (case map_of (control m) ''calculation'' of
        None \<Rightarrow> False
      | Some c \<Rightarrow> c = [quote] @ ''vc-relax'' @ [quote] \<or> c = [quote] @ ''vc-md'' @ [quote])"

definition ibrav_zero :: "'f calc \<Rightarrow> bool" where
  "ibrav_zero m \<longleftrightarrow> Option.bind (map_of (system m) ''ibrav'') py_int = Some 0"

text \<open>
  The decks for which the round trip is proved. The namelists hold \<^verbatim>\<open>calculation\<close>, an
  integer \<^verbatim>\<open>ibrav\<close> and the counts \<^verbatim>\<open>nat\<close> and \<^verbatim>\<open>ntyp\<close> of the lists; \<^verbatim>\<open>cell\<close> is empty
  unless the calculation is a variable-cell one; there is at least one species and one
  atom; the lists of one card have one length, and the movement flags are given for all
  atoms or for none; the cell vectors have three components each when \<^verbatim>\<open>ibrav\<close> is 0 and
  are absent, with no unit tag, otherwise; the k-points are \<^verbatim>\<open>gamma\<close>, or \<^verbatim>\<open>automatic\<close>
  with its six integers; every label and tag is one token that is no header, and every
  float is given back by its text.
\<close>

definition roundtrip_ok :: "'f float_ops \<Rightarrow> 'f calc \<Rightarrow> bool" where
  "roundtrip_ok F m \<longleftrightarrow>
     safe_dict (control m) \<and> safe_dict (system m) \<and> safe_dict (electrons m)
     \<and> safe_dict (ions m) \<and> safe_dict (cell m)
     \<and> map_of (control m) ''calculation'' \<noteq> None
     \<and> (\<not> variable_cell m \<longrightarrow> cell m = [])
     \<and> map_of (system m) ''nat'' = Some (str_int (int (length (atom_type m))))
     \<and> map_of (system m) ''ntyp'' = Some (str_int (int (length (atomic_species m))))
     \<and> atomic_species m \<noteq> [] \<and> atom_type m \<noteq> []
     \<and> length (atomic_mass m) = length (atomic_species m)
     \<and> length (pseudopotential m) = length (atomic_species m)
     \<and> (\<forall>t \<in> set (atomic_species m). token t \<and> py_lower t \<notin> set headers_before_species)
     \<and> (\<forall>t \<in> set (atomic_mass m). token t)
     \<and> (\<forall>t \<in> set (pseudopotential m). token t)
     \<and> (\<forall>t \<in> set (atom_type m). token t \<and> py_lower t \<notin> set headers_before_positions)
     \<and> length (pos_x m) = length (atom_type m)
     \<and> length (pos_y m) = length (atom_type m)
     \<and> length (pos_z m) = length (atom_type m)
     \<and> (if if_pos1 m = [] then if_pos2 m = [] \<and> if_pos3 m = []
        else length (if_pos1 m) = length (atom_type m)
             \<and> length (if_pos2 m) = length (atom_type m)
             \<and> length (if_pos3 m) = length (atom_type m))
     \<and> (\<forall>a \<in> set (pos_x m @ pos_y m @ pos_z m @ v1 m @ v2 m @ v3 m). float_ok F a)
     \<and> Option.bind (map_of (system m) ''ibrav'') py_int \<noteq> None
     \<and> (if ibrav_zero m
        then length (v1 m) = 3 \<and> length (v2 m) = 3 \<and> length (v3 m) = 3
        else v1 m = [] \<and> v2 m = [] \<and> v3 m = [] \<and> cell_parameters_units m = [])
     \<and> unit_tag (atomic_positions_units m) \<and> unit_tag (cell_parameters_units m)
     \<and> kx m = [] \<and> ky m = [] \<and> kz m = [] \<and> wk m = []
     \<and> (if k_points_type m = ''gamma''
        then nk1 m = None \<and> nk2 m = None \<and> nk3 m = None
             \<and> sk1 m = None \<and> sk2 m = None \<and> sk3 m = None
        else k_points_type m = ''automatic''
             \<and> nk1 m \<noteq> None \<and> nk2 m \<noteq> None \<and> nk3 m \<noteq> None
             \<and> sk1 m \<noteq> None \<and> sk2 m \<noteq> None \<and> sk3 m \<noteq> None)"

text \<open>The lines of the deck, without their ends of line.\<close>

definition namelist_row :: "string \<times> string \<Rightarrow> string" where
  "namelist_row p = fst p @ '' = '' @ snd p @ '',''"

definition species_row :: "'f calc \<Rightarrow> nat \<Rightarrow> string" where
  "species_row m i =
     atomic_species m ! i @ sep3 @ atomic_mass m ! i @ sep3 @ pseudopotential m ! i"

definition vector_row :: "'f float_ops \<Rightarrow> 'f list \<Rightarrow> string" where
  "vector_row F v =
     str_float F (v ! 0) @ sep3 @ str_float F (v ! 1) @ sep3 @ str_float F (v ! 2)"

definition position_row :: "'f float_ops \<Rightarrow> 'f calc \<Rightarrow> nat \<Rightarrow> string" where
  "position_row F m i =
     atom_type m ! i @ sep3 @ str_float F (pos_x m ! i) @ sep3
     @ str_float F (pos_y m ! i) @ sep3 @ str_float F (pos_z m ! i)
     @ (if if_pos1 m = [] then []
        else sep3 @ str_int (if_pos1 m ! i) @ sep3 @ str_int (if_pos2 m ! i)
             @ sep3 @ str_int (if_pos3 m ! i))"

definition grid_row :: "'f calc \<Rightarrow> string" where
  "grid_row m =
     str_opt_int (nk1 m) @ sep3 @ str_opt_int (nk2 m) @ sep3 @ str_opt_int (nk3 m) @ sep3
     @ str_opt_int (sk1 m) @ sep3 @ str_opt_int (sk2 m) @ sep3 @ str_opt_int (sk3 m)"

definition namelist_block :: "string \<Rightarrow> py_dict \<Rightarrow> string list" where
  "namelist_block name d = [name] @ map namelist_row d @ [''/'']"

definition deck_lines :: "'f float_ops \<Rightarrow> 'f calc \<Rightarrow> string list" where
  "deck_lines F m =
     namelist_block ''&CONTROL'' (control m)
     @ namelist_block ''&SYSTEM'' (system m)
     @ namelist_block ''&ELECTRONS'' (electrons m)
     @ namelist_block ''&IONS'' (ions m)
     @ (if variable_cell m then namelist_block ''&CELL'' (cell m) else [])
     @ [''ATOMIC_SPECIES''] @ map (species_row m) [0..<length (atomic_species m)]
     @ (if ibrav_zero m
        then [''CELL_PARAMETERS '' @ cell_parameters_units m,
              vector_row F (v1 m), vector_row F (v2 m), vector_row F (v3 m)]
        else [])
     @ [''ATOMIC_POSITIONS '' @ atomic_positions_units m]
     @ map (position_row F m) [0..<length (atom_type m)]
     @ [''K_POINTS '' @ k_points_type m]
     @ (if k_points_type m = ''automatic'' then [grid_row m] else [])"

subsection \<open>\<^verbatim>\<open>build_input\<close> writes these lines\<close>

lemma unlines_append: "unlines (a @ b) = unlines a @ unlines b"
  by (simp add: unlines_def)

lemma unlines_Cons: "unlines (l # ls) = l @ [nl] @ unlines ls"
  by (simp add: unlines_def)

lemma unlines_Nil: "unlines [] = []"
  by (simp add: unlines_def)

lemma unlines_map: "unlines (map f js) = concat (map (\<lambda>i. f i @ [nl]) js)"
  by (simp add: unlines_def comp_def)

lemma namelist_lines_unlines: "namelist_lines d = unlines (map namelist_row d)"
  by (simp add: namelist_lines_def unlines_def namelist_row_def comp_def split_def)

lemma roundtrip_ok_build_ok: "roundtrip_ok F m \<Longrightarrow> build_ok m"
  by (auto simp: roundtrip_ok_def build_ok_def ibrav_zero_def split: option.splits if_splits)

lemma species_lines_text:
  assumes "roundtrip_ok F m"
  shows "for_range (species_line m) [0..<length (atomic_species m)]
    = Inr (unlines (map (species_row m) [0..<length (atomic_species m)]))"
  unfolding unlines_map
  by (rule for_range_concat)
    (use assms in \<open>simp add: roundtrip_ok_def species_line_def species_row_def py_nth_def
      bind_err_def\<close>)

lemma position_lines_text:
  assumes "roundtrip_ok F m"
  shows "for_range (position_line F m) [0..<length (atom_type m)]
    = Inr (unlines (map (position_row F m) [0..<length (atom_type m)]))"
proof -
  have "position_columns F m = (\<lambda>i. position_row F m i @ [nl])"
    by (rule ext) (simp add: position_columns_def position_row_def)
  moreover have "for_range (position_line F m) [0..<length (atom_type m)]
      = Inr (concat (map (position_columns F m) [0..<length (atom_type m)]))"
    by (rule for_range_concat)
      (simp add: position_line_columns roundtrip_ok_build_ok [OF assms])
  ultimately show ?thesis by (simp add: unlines_map)
qed

lemma cell_parameters_card_text:
  assumes "length (v1 m) = 3" "length (v2 m) = 3" "length (v3 m) = 3"
  shows "cell_parameters_card F m = Inr (unlines
    [''CELL_PARAMETERS '' @ cell_parameters_units m,
     vector_row F (v1 m), vector_row F (v2 m), vector_row F (v3 m)])"
  using assms
  by (simp add: cell_parameters_card_def vector_line_def vector_row_def py_nth_def bind_err_def
      unlines_def del: One_nat_def)

lemma k_points_card_text:
  assumes "roundtrip_ok F m"
  shows "k_points_card F m = Inr (unlines
    ([''K_POINTS '' @ k_points_type m]
     @ (if k_points_type m = ''automatic'' then [grid_row m] else [])))"
  using assms
  by (auto simp: roundtrip_ok_def k_points_card_def grid_row_def unlines_def split: if_splits)

lemma namelists_text_unlines:
  assumes "map_of (control m) ''calculation'' = Some c"
  shows "namelists_text m c = unlines
    (namelist_block ''&CONTROL'' (control m)
     @ namelist_block ''&SYSTEM'' (system m)
     @ namelist_block ''&ELECTRONS'' (electrons m)
     @ namelist_block ''&IONS'' (ions m)
     @ (if variable_cell m then namelist_block ''&CELL'' (cell m) else []))"
  using assms
  by (simp add: namelists_text_def namelist_block_def namelist_lines_unlines variable_cell_def
      unlines_append unlines_Cons unlines_Nil)

lemma deck_text_lines:
  assumes "roundtrip_ok F m"
  shows "deck_text F m = Inr (unlines (deck_lines F m))"
proof -
  from assms obtain c where c: "map_of (control m) ''calculation'' = Some c"
    by (auto simp: roundtrip_ok_def)
  from assms obtain ib n where ib: "map_of (system m) ''ibrav'' = Some ib"
    and n: "py_int ib = Some n"
    by (auto simp: roundtrip_ok_def split: Option.bind_splits)
  have z: "ibrav_zero m \<longleftrightarrow> n = 0" using ib n by (simp add: ibrav_zero_def)
  have cp: "(if n = 0 then cell_parameters_card F m else Inr []) = Inr (unlines
      (if ibrav_zero m
        then [''CELL_PARAMETERS '' @ cell_parameters_units m,
              vector_row F (v1 m), vector_row F (v2 m), vector_row F (v3 m)]
        else []))"
    using assms z by (auto simp: roundtrip_ok_def cell_parameters_card_text unlines_Nil)
  show ?thesis
    unfolding deck_text_def deck_lines_def unlines_append
    by (simp add: c ib n cp dict_get_def bind_err_def species_lines_text [OF assms]
        position_lines_text [OF assms] k_points_card_text [OF assms]
        namelists_text_unlines [OF c] unlines_append unlines_Cons unlines_Nil)
qed

lemma build_input_lines:
  assumes "roundtrip_ok F m"
  shows "build_input F m = (m, Inr (unlines (deck_lines F m)))"
proof -
  from assms have "set_counts m = m"
    by (intro set_counts_consistent) (simp_all add: roundtrip_ok_def)
  then show ?thesis by (simp add: build_input_def deck_text_lines [OF assms])
qed


subsection \<open>\<^verbatim>\<open>read_input\<close> reads these lines back\<close>

lemma dict_set_new: "k \<notin> fst ` set d \<Longrightarrow> dict_set k v d = d @ [(k, v)]"
  by (induction d) auto

lemma dict_apply_distinct_append:
  "distinct (map fst (d0 @ d)) \<Longrightarrow> dict_apply d d0 = d0 @ d"
proof (induction d arbitrary: d0)
  case Nil
  then show ?case by (simp add: dict_apply_def)
next
  case (Cons p d)
  from Cons.prems have "fst p \<notin> fst ` set d0" by auto
  then have s: "dict_set (fst p) (snd p) d0 = d0 @ [p]" by (simp add: dict_set_new)
  from Cons.prems have "distinct (map fst ((d0 @ [p]) @ d))" by simp
  then have "dict_apply d (d0 @ [p]) = (d0 @ [p]) @ d" by (rule Cons.IH)
  with s show ?case by (simp add: dict_apply_def)
qed

lemma dict_apply_distinct: "distinct (map fst d) \<Longrightarrow> dict_apply d [] = d"
  using dict_apply_distinct_append [of "[]" d] by simp

lemma dict_apply_Cons: "dict_apply (p # d) x = dict_apply d (dict_set (fst p) (snd p) x)"
  by (simp add: dict_apply_def)

lemma dict_apply_Nil: "dict_apply [] x = x"
  by (simp add: dict_apply_def)

text \<open>The tokens of a namelist line.\<close>

lemma token_literals:
  "token ''=''" "token ''/''" "token ''&CONTROL''" "token ''&SYSTEM''" "token ''&ELECTRONS''"
  "token ''&IONS''" "token ''&CELL''" "token ''ATOMIC_SPECIES''" "token ''CELL_PARAMETERS''"
  "token ''ATOMIC_POSITIONS''" "token ''K_POINTS''" "token ''gamma''" "token ''automatic''"
  by (simp_all add: token_def is_space_def)

lemma py_lower_headers:
  "py_lower ''/'' = ''/''" "py_lower ''&CONTROL'' = ''&control''"
  "py_lower ''&SYSTEM'' = ''&system''" "py_lower ''&ELECTRONS'' = ''&electrons''"
  "py_lower ''&IONS'' = ''&ions''" "py_lower ''&CELL'' = ''&cell''"
  "py_lower ''ATOMIC_SPECIES'' = ''atomic_species''"
  "py_lower ''CELL_PARAMETERS'' = ''cell_parameters''"
  "py_lower ''ATOMIC_POSITIONS'' = ''atomic_positions''"
  "py_lower ''K_POINTS'' = ''k_points''"
  by code_simp+

lemma py_split_namelist_row:
  assumes "safe_key k" and "safe_value v"
  shows "py_split (namelist_row (k, v) @ [nl]) = [k, ''='', v @ '','']"
proof -
  from assms(2) have "token (v @ '','')" by (auto simp: token_def safe_value_def is_space_def)
  with assms(1) have "py_split (concat (map2 (@) [k, ''='', v @ '',''] ['' '', '' '', [nl]]))
      = [k, ''='', v @ '','']"
    by (intro py_split_tokens) (simp_all add: safe_key_def token_literals spaces_literals)
  then show ?thesis by (simp add: namelist_row_def)
qed

lemma remove_commas_value: "safe_value v \<Longrightarrow> remove_commas (v @ '','') = v"
  by (induction v) (auto simp: remove_commas_def safe_value_def)

lemma namelist_line_row:
  assumes "safe_key k" and "safe_value v"
  shows "namelist_line [k, ''='', v @ '',''] flag dict r
    = (on_obj (dict (dict_set k v)) r, None)"
  using assms
  by (simp add: namelist_line_def py_nth_def remove_commas_value safe_key_def)

lemma namelist_line_close: "namelist_line [''/''] flag dict r = (flag (\<lambda>_. False) r, None)"
  by (simp add: namelist_line_def)

lemma safe_key_not_header:
  "safe_key k \<Longrightarrow> py_lower k \<noteq> ''&control'' \<and> py_lower k \<noteq> ''&system''
     \<and> py_lower k \<noteq> ''&electrons'' \<and> py_lower k \<noteq> ''&ions'' \<and> py_lower k \<noteq> ''&cell''"
  by (simp add: safe_key_def namelist_headers_def)

text \<open>
  A line of a namelist, read while the flag of that namelist is set and those of the
  namelists before it are not.
\<close>

lemma read_line_control:
  assumes "iscontrol r" and "py_split line = l" and "l \<noteq> []"
    and "py_lower (hd l) \<noteq> ''&control''"
  shows "read_line F r line = namelist_line l iscontrol_update control_update r"
  using assms by (simp add: read_line_def)

lemma read_line_system:
  assumes "\<not> iscontrol r" "issystem r" and "py_split line = l" and "l \<noteq> []"
    and "py_lower (hd l) \<noteq> ''&control''" "py_lower (hd l) \<noteq> ''&system''"
  shows "read_line F r line = namelist_line l issystem_update system_update r"
  using assms by (simp add: read_line_def)

lemma read_line_electrons:
  assumes "\<not> iscontrol r" "\<not> issystem r" "iselectrons r" and "py_split line = l" and "l \<noteq> []"
    and "py_lower (hd l) \<noteq> ''&control''" "py_lower (hd l) \<noteq> ''&system''"
    "py_lower (hd l) \<noteq> ''&electrons''"
  shows "read_line F r line = namelist_line l iselectrons_update electrons_update r"
  using assms by (simp add: read_line_def)

lemma read_line_ions:
  assumes "\<not> iscontrol r" "\<not> issystem r" "\<not> iselectrons r" "isions r"
    and "py_split line = l" and "l \<noteq> []"
    and "py_lower (hd l) \<noteq> ''&control''" "py_lower (hd l) \<noteq> ''&system''"
    "py_lower (hd l) \<noteq> ''&electrons''" "py_lower (hd l) \<noteq> ''&ions''"
  shows "read_line F r line = namelist_line l isions_update ions_update r"
  using assms by (simp add: read_line_def)

lemma read_line_cell:
  assumes "\<not> iscontrol r" "\<not> issystem r" "\<not> iselectrons r" "\<not> isions r" "iscell r"
    and "py_split line = l" and "l \<noteq> []"
    and "py_lower (hd l) \<noteq> ''&control''" "py_lower (hd l) \<noteq> ''&system''"
    "py_lower (hd l) \<noteq> ''&electrons''" "py_lower (hd l) \<noteq> ''&ions''"
    "py_lower (hd l) \<noteq> ''&cell''"
  shows "read_line F r line = namelist_line l iscell_update cell_update r"
  using assms by (simp add: read_line_def)

text \<open>
  The rows of a namelist: any way of reading a row that stores its key and value stores
  the whole dictionary.
\<close>

lemma namelist_rows_read:
  assumes "\<And>r k v. P r \<Longrightarrow> safe_key k \<Longrightarrow> safe_value v
      \<Longrightarrow> read_line F r (namelist_row (k, v) @ [nl]) = (on_obj (upd (dict_set k v)) r, None)"
    and "\<And>r g. P r \<Longrightarrow> P (on_obj (upd g) r)"
    and "\<And>r g h. on_obj (upd g) (on_obj (upd h) r) = on_obj (upd (\<lambda>x. g (h x))) r"
    and "\<And>r. on_obj (upd (\<lambda>x. x)) r = r"
    and "P r" and "\<forall>p \<in> set d. safe_key (fst p) \<and> safe_value (snd p)"
  shows "read_lines F r (map (\<lambda>l. l @ [nl]) (map namelist_row d))
    = (on_obj (upd (dict_apply d)) r, None)"
  using assms(5,6)
proof (induction d arbitrary: r)
  case Nil
  have "dict_apply [] = (\<lambda>x. x)" by (rule ext) (simp add: dict_apply_def)
  then show ?case by (simp add: assms(4))
next
  case (Cons p d)
  obtain k v where p: "p = (k, v)" by (cases p)
  with Cons.prems have kv: "safe_key k" "safe_value v" by auto
  from assms(1) [OF Cons.prems(1) kv]
  have 1: "read_line F r (namelist_row p @ [nl]) = (on_obj (upd (dict_set k v)) r, None)"
    by (simp add: p)
  have 2: "P (on_obj (upd (dict_set k v)) r)" using assms(2) Cons.prems(1) by blast
  from Cons.prems have 3: "\<forall>p \<in> set d. safe_key (fst p) \<and> safe_value (snd p)" by simp
  have "dict_apply (p # d) = (\<lambda>x. dict_apply d (dict_set k v x))"
    by (rule ext) (simp add: dict_apply_def p)
  with Cons.IH [OF 2 3] 1 assms(3) show ?case by simp
qed


lemma on_obj_compose:
  "on_obj (control_update g) (on_obj (control_update h) r)
    = on_obj (control_update (\<lambda>x. g (h x))) r"
  "on_obj (system_update g) (on_obj (system_update h) r)
    = on_obj (system_update (\<lambda>x. g (h x))) r"
  "on_obj (electrons_update g) (on_obj (electrons_update h) r)
    = on_obj (electrons_update (\<lambda>x. g (h x))) r"
  "on_obj (ions_update g) (on_obj (ions_update h) r) = on_obj (ions_update (\<lambda>x. g (h x))) r"
  "on_obj (cell_update g) (on_obj (cell_update h) r) = on_obj (cell_update (\<lambda>x. g (h x))) r"
  by (simp_all add: on_obj_def comp_def)

lemma on_obj_ident:
  "on_obj (control_update (\<lambda>x. x)) r = r" "on_obj (system_update (\<lambda>x. x)) r = r"
  "on_obj (electrons_update (\<lambda>x. x)) r = r" "on_obj (ions_update (\<lambda>x. x)) r = r"
  "on_obj (cell_update (\<lambda>x. x)) r = r"
  by (simp_all add: on_obj_def)

lemma on_obj_flags:
  "iscontrol (on_obj g r) = iscontrol r" "issystem (on_obj g r) = issystem r"
  "iselectrons (on_obj g r) = iselectrons r" "isions (on_obj g r) = isions r"
  "iscell (on_obj g r) = iscell r" "iscellparameters (on_obj g r) = iscellparameters r"
  "isatomicspecies (on_obj g r) = isatomicspecies r"
  "isatomicpositions (on_obj g r) = isatomicpositions r"
  "iskpoints (on_obj g r) = iskpoints r" "r_j (on_obj g r) = r_j r" "r_nk (on_obj g r) = r_nk r"
  "obj (on_obj g r) = g (obj r)" "idle (on_obj g r) = idle r"
  by (simp_all add: on_obj_def idle_def)

text \<open>
  A namelist block, read from a state in which nothing is open: its dictionary receives
  the rows, and nothing is open afterwards.
\<close>

lemma read_header:
  assumes "idle r" and "py_split line = [h]"
  shows "py_lower h = ''&control'' \<Longrightarrow> read_line F r line = (r\<lparr>iscontrol := True\<rparr>, None)"
    and "py_lower h = ''&system'' \<Longrightarrow> read_line F r line = (r\<lparr>issystem := True\<rparr>, None)"
    and "py_lower h = ''&electrons'' \<Longrightarrow> read_line F r line = (r\<lparr>iselectrons := True\<rparr>, None)"
    and "py_lower h = ''&ions'' \<Longrightarrow> read_line F r line = (r\<lparr>isions := True\<rparr>, None)"
    and "py_lower h = ''&cell'' \<Longrightarrow> read_line F r line = (r\<lparr>iscell := True\<rparr>, None)"
    and "py_lower h = ''atomic_species''
      \<Longrightarrow> read_line F r line = (r\<lparr>isatomicspecies := True\<rparr>, None)"
  using assms by (simp_all add: read_line_def idle_def)

lemma py_split_close: "py_split (''/'' @ [nl]) = [''/'']"
  by (rule py_split_1) (rule token_literals)

lemma close_control:
  "idle r \<Longrightarrow> (on_obj g (r\<lparr>iscontrol := True\<rparr>))\<lparr>iscontrol := False\<rparr> = on_obj g r"
  by (cases r) (simp add: on_obj_def idle_def)

lemma control_block_read:
  assumes "idle r" and "\<forall>p \<in> set d. safe_key (fst p) \<and> safe_value (snd p)"
  shows "read_lines F r (map (\<lambda>l. l @ [nl]) (namelist_block ''&CONTROL'' d))
    = (on_obj (control_update (dict_apply d)) r, None)"
proof -
  define r1 where "r1 = r\<lparr>iscontrol := True\<rparr>"
  define r2 where "r2 = on_obj (control_update (dict_apply d)) r1"
  have h: "read_line F r (''&CONTROL'' @ [nl]) = (r1, None)"
    unfolding r1_def
    by (rule read_header(1) [OF assms(1) py_split_1])
      (simp_all add: token_literals py_lower_headers)
  have p1: "(\<lambda>r. iscontrol r) r1"
    using assms(1) by (simp add: r1_def idle_def)
  have rows: "read_lines F r1 (map (\<lambda>l. l @ [nl]) (map namelist_row d)) = (r2, None)"
    unfolding r2_def
  proof (rule namelist_rows_read [where P = "(\<lambda>r. iscontrol r)"])
    fix r :: "'a reader" and k v
    assume "iscontrol r" "safe_key k" "safe_value v"
    then show "read_line F r (namelist_row (k, v) @ [nl])
        = (on_obj (control_update (dict_set k v)) r, None)"
      using read_line_control [of r "namelist_row (k, v) @ [nl]" "[k, ''='', v @ '','']" F]
      by (simp add: py_split_namelist_row namelist_line_row safe_key_not_header)
  qed (use assms p1 in \<open>simp_all add: on_obj_flags on_obj_compose on_obj_ident\<close>)
  have p2: "(\<lambda>r. iscontrol r) r2"
    using p1 by (simp add: r2_def on_obj_flags)
  have "read_line F r2 (''/'' @ [nl])
      = namelist_line [''/''] iscontrol_update control_update r2"
    by (rule read_line_control [OF _ py_split_close])
      (use p2 in \<open>simp_all add: py_lower_headers\<close>)
  then have c: "read_line F r2 (''/'' @ [nl]) = (on_obj (control_update (dict_apply d)) r, None)"
    using assms(1) by (simp add: namelist_line_close r2_def r1_def close_control)
  have "read_lines F r (map (\<lambda>l. l @ [nl]) (namelist_block ''&CONTROL'' d))
      = read_lines F r ([''&CONTROL'' @ [nl]] @ map (\<lambda>l. l @ [nl]) (map namelist_row d)
          @ [''/'' @ [nl]])"
    by (simp add: namelist_block_def)
  also have "\<dots> = (on_obj (control_update (dict_apply d)) r, None)"
    unfolding read_lines_append using h rows c by simp
  finally show ?thesis .
qed

lemma close_system:
  "idle r \<Longrightarrow> (on_obj g (r\<lparr>issystem := True\<rparr>))\<lparr>issystem := False\<rparr> = on_obj g r"
  by (cases r) (simp add: on_obj_def idle_def)

lemma system_block_read:
  assumes "idle r" and "\<forall>p \<in> set d. safe_key (fst p) \<and> safe_value (snd p)"
  shows "read_lines F r (map (\<lambda>l. l @ [nl]) (namelist_block ''&SYSTEM'' d))
    = (on_obj (system_update (dict_apply d)) r, None)"
proof -
  define r1 where "r1 = r\<lparr>issystem := True\<rparr>"
  define r2 where "r2 = on_obj (system_update (dict_apply d)) r1"
  have h: "read_line F r (''&SYSTEM'' @ [nl]) = (r1, None)"
    unfolding r1_def
    by (rule read_header(2) [OF assms(1) py_split_1])
      (simp_all add: token_literals py_lower_headers)
  have p1: "(\<lambda>r. \<not> iscontrol r \<and> issystem r) r1"
    using assms(1) by (simp add: r1_def idle_def)
  have rows: "read_lines F r1 (map (\<lambda>l. l @ [nl]) (map namelist_row d)) = (r2, None)"
    unfolding r2_def
  proof (rule namelist_rows_read [where P = "(\<lambda>r. \<not> iscontrol r \<and> issystem r)"])
    fix r :: "'a reader" and k v
    assume "\<not> iscontrol r \<and> issystem r" "safe_key k" "safe_value v"
    then show "read_line F r (namelist_row (k, v) @ [nl])
        = (on_obj (system_update (dict_set k v)) r, None)"
      using read_line_system [of r "namelist_row (k, v) @ [nl]" "[k, ''='', v @ '','']" F]
      by (simp add: py_split_namelist_row namelist_line_row safe_key_not_header)
  qed (use assms p1 in \<open>simp_all add: on_obj_flags on_obj_compose on_obj_ident\<close>)
  have p2: "(\<lambda>r. \<not> iscontrol r \<and> issystem r) r2"
    using p1 by (simp add: r2_def on_obj_flags)
  have "read_line F r2 (''/'' @ [nl])
      = namelist_line [''/''] issystem_update system_update r2"
    by (rule read_line_system [OF _ _ py_split_close])
      (use p2 in \<open>simp_all add: py_lower_headers\<close>)
  then have c: "read_line F r2 (''/'' @ [nl]) = (on_obj (system_update (dict_apply d)) r, None)"
    using assms(1) by (simp add: namelist_line_close r2_def r1_def close_system)
  have "read_lines F r (map (\<lambda>l. l @ [nl]) (namelist_block ''&SYSTEM'' d))
      = read_lines F r ([''&SYSTEM'' @ [nl]] @ map (\<lambda>l. l @ [nl]) (map namelist_row d)
          @ [''/'' @ [nl]])"
    by (simp add: namelist_block_def)
  also have "\<dots> = (on_obj (system_update (dict_apply d)) r, None)"
    unfolding read_lines_append using h rows c by simp
  finally show ?thesis .
qed

lemma close_electrons:
  "idle r \<Longrightarrow> (on_obj g (r\<lparr>iselectrons := True\<rparr>))\<lparr>iselectrons := False\<rparr> = on_obj g r"
  by (cases r) (simp add: on_obj_def idle_def)

lemma electrons_block_read:
  assumes "idle r" and "\<forall>p \<in> set d. safe_key (fst p) \<and> safe_value (snd p)"
  shows "read_lines F r (map (\<lambda>l. l @ [nl]) (namelist_block ''&ELECTRONS'' d))
    = (on_obj (electrons_update (dict_apply d)) r, None)"
proof -
  define r1 where "r1 = r\<lparr>iselectrons := True\<rparr>"
  define r2 where "r2 = on_obj (electrons_update (dict_apply d)) r1"
  have h: "read_line F r (''&ELECTRONS'' @ [nl]) = (r1, None)"
    unfolding r1_def
    by (rule read_header(3) [OF assms(1) py_split_1])
      (simp_all add: token_literals py_lower_headers)
  have p1: "(\<lambda>r. \<not> iscontrol r \<and> \<not> issystem r \<and> iselectrons r) r1"
    using assms(1) by (simp add: r1_def idle_def)
  have rows: "read_lines F r1 (map (\<lambda>l. l @ [nl]) (map namelist_row d)) = (r2, None)"
    unfolding r2_def
  proof (rule namelist_rows_read [where P = "(\<lambda>r. \<not> iscontrol r \<and> \<not> issystem r \<and> iselectrons r)"])
    fix r :: "'a reader" and k v
    assume "\<not> iscontrol r \<and> \<not> issystem r \<and> iselectrons r" "safe_key k" "safe_value v"
    then show "read_line F r (namelist_row (k, v) @ [nl])
        = (on_obj (electrons_update (dict_set k v)) r, None)"
      using read_line_electrons [of r "namelist_row (k, v) @ [nl]" "[k, ''='', v @ '','']" F]
      by (simp add: py_split_namelist_row namelist_line_row safe_key_not_header)
  qed (use assms p1 in \<open>simp_all add: on_obj_flags on_obj_compose on_obj_ident\<close>)
  have p2: "(\<lambda>r. \<not> iscontrol r \<and> \<not> issystem r \<and> iselectrons r) r2"
    using p1 by (simp add: r2_def on_obj_flags)
  have "read_line F r2 (''/'' @ [nl])
      = namelist_line [''/''] iselectrons_update electrons_update r2"
    by (rule read_line_electrons [OF _ _ _ py_split_close])
      (use p2 in \<open>simp_all add: py_lower_headers\<close>)
  then have c: "read_line F r2 (''/'' @ [nl]) = (on_obj (electrons_update (dict_apply d)) r, None)"
    using assms(1) by (simp add: namelist_line_close r2_def r1_def close_electrons)
  have "read_lines F r (map (\<lambda>l. l @ [nl]) (namelist_block ''&ELECTRONS'' d))
      = read_lines F r ([''&ELECTRONS'' @ [nl]] @ map (\<lambda>l. l @ [nl]) (map namelist_row d)
          @ [''/'' @ [nl]])"
    by (simp add: namelist_block_def)
  also have "\<dots> = (on_obj (electrons_update (dict_apply d)) r, None)"
    unfolding read_lines_append using h rows c by simp
  finally show ?thesis .
qed

lemma close_ions:
  "idle r \<Longrightarrow> (on_obj g (r\<lparr>isions := True\<rparr>))\<lparr>isions := False\<rparr> = on_obj g r"
  by (cases r) (simp add: on_obj_def idle_def)

lemma ions_block_read:
  assumes "idle r" and "\<forall>p \<in> set d. safe_key (fst p) \<and> safe_value (snd p)"
  shows "read_lines F r (map (\<lambda>l. l @ [nl]) (namelist_block ''&IONS'' d))
    = (on_obj (ions_update (dict_apply d)) r, None)"
proof -
  define r1 where "r1 = r\<lparr>isions := True\<rparr>"
  define r2 where "r2 = on_obj (ions_update (dict_apply d)) r1"
  have h: "read_line F r (''&IONS'' @ [nl]) = (r1, None)"
    unfolding r1_def
    by (rule read_header(4) [OF assms(1) py_split_1])
      (simp_all add: token_literals py_lower_headers)
  have p1: "(\<lambda>r. \<not> iscontrol r \<and> \<not> issystem r \<and> \<not> iselectrons r \<and> isions r) r1"
    using assms(1) by (simp add: r1_def idle_def)
  have rows: "read_lines F r1 (map (\<lambda>l. l @ [nl]) (map namelist_row d)) = (r2, None)"
    unfolding r2_def
  proof (rule namelist_rows_read [where P = "(\<lambda>r. \<not> iscontrol r \<and> \<not> issystem r \<and> \<not> iselectrons r \<and> isions r)"])
    fix r :: "'a reader" and k v
    assume "\<not> iscontrol r \<and> \<not> issystem r \<and> \<not> iselectrons r \<and> isions r" "safe_key k" "safe_value v"
    then show "read_line F r (namelist_row (k, v) @ [nl])
        = (on_obj (ions_update (dict_set k v)) r, None)"
      using read_line_ions [of r "namelist_row (k, v) @ [nl]" "[k, ''='', v @ '','']" F]
      by (simp add: py_split_namelist_row namelist_line_row safe_key_not_header)
  qed (use assms p1 in \<open>simp_all add: on_obj_flags on_obj_compose on_obj_ident\<close>)
  have p2: "(\<lambda>r. \<not> iscontrol r \<and> \<not> issystem r \<and> \<not> iselectrons r \<and> isions r) r2"
    using p1 by (simp add: r2_def on_obj_flags)
  have "read_line F r2 (''/'' @ [nl])
      = namelist_line [''/''] isions_update ions_update r2"
    by (rule read_line_ions [OF _ _ _ _ py_split_close])
      (use p2 in \<open>simp_all add: py_lower_headers\<close>)
  then have c: "read_line F r2 (''/'' @ [nl]) = (on_obj (ions_update (dict_apply d)) r, None)"
    using assms(1) by (simp add: namelist_line_close r2_def r1_def close_ions)
  have "read_lines F r (map (\<lambda>l. l @ [nl]) (namelist_block ''&IONS'' d))
      = read_lines F r ([''&IONS'' @ [nl]] @ map (\<lambda>l. l @ [nl]) (map namelist_row d)
          @ [''/'' @ [nl]])"
    by (simp add: namelist_block_def)
  also have "\<dots> = (on_obj (ions_update (dict_apply d)) r, None)"
    unfolding read_lines_append using h rows c by simp
  finally show ?thesis .
qed

lemma close_cell:
  "idle r \<Longrightarrow> (on_obj g (r\<lparr>iscell := True\<rparr>))\<lparr>iscell := False\<rparr> = on_obj g r"
  by (cases r) (simp add: on_obj_def idle_def)

lemma cell_block_read:
  assumes "idle r" and "\<forall>p \<in> set d. safe_key (fst p) \<and> safe_value (snd p)"
  shows "read_lines F r (map (\<lambda>l. l @ [nl]) (namelist_block ''&CELL'' d))
    = (on_obj (cell_update (dict_apply d)) r, None)"
proof -
  define r1 where "r1 = r\<lparr>iscell := True\<rparr>"
  define r2 where "r2 = on_obj (cell_update (dict_apply d)) r1"
  have h: "read_line F r (''&CELL'' @ [nl]) = (r1, None)"
    unfolding r1_def
    by (rule read_header(5) [OF assms(1) py_split_1])
      (simp_all add: token_literals py_lower_headers)
  have p1: "(\<lambda>r. \<not> iscontrol r \<and> \<not> issystem r \<and> \<not> iselectrons r \<and> \<not> isions r \<and> iscell r) r1"
    using assms(1) by (simp add: r1_def idle_def)
  have rows: "read_lines F r1 (map (\<lambda>l. l @ [nl]) (map namelist_row d)) = (r2, None)"
    unfolding r2_def
  proof (rule namelist_rows_read [where P = "(\<lambda>r. \<not> iscontrol r \<and> \<not> issystem r \<and> \<not> iselectrons r \<and> \<not> isions r \<and> iscell r)"])
    fix r :: "'a reader" and k v
    assume "\<not> iscontrol r \<and> \<not> issystem r \<and> \<not> iselectrons r \<and> \<not> isions r \<and> iscell r" "safe_key k" "safe_value v"
    then show "read_line F r (namelist_row (k, v) @ [nl])
        = (on_obj (cell_update (dict_set k v)) r, None)"
      using read_line_cell [of r "namelist_row (k, v) @ [nl]" "[k, ''='', v @ '','']" F]
      by (simp add: py_split_namelist_row namelist_line_row safe_key_not_header)
  qed (use assms p1 in \<open>simp_all add: on_obj_flags on_obj_compose on_obj_ident\<close>)
  have p2: "(\<lambda>r. \<not> iscontrol r \<and> \<not> issystem r \<and> \<not> iselectrons r \<and> \<not> isions r \<and> iscell r) r2"
    using p1 by (simp add: r2_def on_obj_flags)
  have "read_line F r2 (''/'' @ [nl])
      = namelist_line [''/''] iscell_update cell_update r2"
    by (rule read_line_cell [OF _ _ _ _ _ py_split_close])
      (use p2 in \<open>simp_all add: py_lower_headers\<close>)
  then have c: "read_line F r2 (''/'' @ [nl]) = (on_obj (cell_update (dict_apply d)) r, None)"
    using assms(1) by (simp add: namelist_line_close r2_def r1_def close_cell)
  have "read_lines F r (map (\<lambda>l. l @ [nl]) (namelist_block ''&CELL'' d))
      = read_lines F r ([''&CELL'' @ [nl]] @ map (\<lambda>l. l @ [nl]) (map namelist_row d)
          @ [''/'' @ [nl]])"
    by (simp add: namelist_block_def)
  also have "\<dots> = (on_obj (cell_update (dict_apply d)) r, None)"
    unfolding read_lines_append using h rows c by simp
  finally show ?thesis .
qed


text \<open>
  The card \<^verbatim>\<open>ATOMIC_SPECIES\<close>. A row is a label, a mass and a file name; \<open>species_done\<close>
  is the end of \<^verbatim>\<open>count_line\<close>: the card is closed when \<^verbatim>\<open>j\<close> has reached the count.
\<close>

definition species_text :: "string \<times> string \<times> string \<Rightarrow> string" where
  "species_text row = fst row @ sep3 @ fst (snd row) @ sep3 @ snd (snd row)"

definition species_append :: "(string \<times> string \<times> string) list \<Rightarrow> 'f calc \<Rightarrow> 'f calc" where
  "species_append rows c =
     pseudopotential_update (\<lambda>xs. xs @ map (\<lambda>row. snd (snd row)) rows)
       (atomic_mass_update (\<lambda>xs. xs @ map (\<lambda>row. fst (snd row)) rows)
         (atomic_species_update (\<lambda>xs. xs @ map fst rows) c))"

definition species_done :: "int \<Rightarrow> 'f reader \<Rightarrow> 'f reader" where
  "species_done N r = (if r_j r = N then r\<lparr>r_j := 0, isatomicspecies := False\<rparr> else r)"

definition species_row_ok :: "string \<times> string \<times> string \<Rightarrow> bool" where
  "species_row_ok row \<longleftrightarrow>
     token (fst row) \<and> py_lower (fst row) \<notin> set headers_before_species
     \<and> token (fst (snd row)) \<and> token (snd (snd row))"

definition in_species :: "int \<Rightarrow> 'f reader \<Rightarrow> bool" where
  "in_species N r \<longleftrightarrow>
     \<not> iscontrol r \<and> \<not> issystem r \<and> \<not> iselectrons r \<and> \<not> isions r \<and> \<not> iscell r
     \<and> \<not> iscellparameters r \<and> isatomicspecies r
     \<and> Option.bind (map_of (system (obj r)) ''ntyp'') py_int = Some N"

lemma count_line_found:
  assumes "Option.bind (map_of (system (obj r)) key) py_int = Some N"
  shows "count_line key flag r =
    (if r_j r + 1 = N then flag (\<lambda>_. False) (r\<lparr>r_j := 0\<rparr>) else r\<lparr>r_j := r_j r + 1\<rparr>, None)"
  using assms
  by (auto simp: count_line_def dict_get_def Let_def split: option.splits Option.bind_splits)

lemma species_row_read:
  assumes "in_species N r" and "species_row_ok row"
  shows "read_line F r (species_text row @ [nl])
    = (species_done N ((on_obj (species_append [row]) r)\<lparr>r_j := r_j r + 1\<rparr>), None)"
proof -
  obtain a m p where row: "row = (a, m, p)" by (cases row)
  from assms(2) have tok: "token a" "token m" "token p"
    and hd: "py_lower a \<notin> set headers_before_species"
    by (simp_all add: species_row_ok_def row)
  have sp: "py_split (species_text row @ [nl]) = [a, m, p]"
    using py_split_3 [OF tok] by (simp add: species_text_def row)
  have "read_line F r (species_text row @ [nl])
      = atomic_species_line (py_split (species_text row @ [nl])) r"
    by (rule read_line_species) (use assms(1) hd sp in \<open>simp_all add: in_species_def\<close>)
  also have "\<dots> = count_line ''ntyp'' isatomicspecies_update (on_obj (species_append [row]) r)"
    unfolding sp
    by (simp add: atomic_species_line_def append_str_def py_nth_def then_do_def on_obj_def
        species_append_def row)
  also have "\<dots> = (species_done N ((on_obj (species_append [row]) r)\<lparr>r_j := r_j r + 1\<rparr>), None)"
    using assms(1)
    by (subst count_line_found [where N = N])
      (auto simp: in_species_def species_done_def on_obj_def species_append_def)
  finally show ?thesis .
qed

lemma species_rows_read:
  assumes "in_species N r" and "r_j r < N" and "r_j r + int (length rows) \<le> N"
    and "\<forall>row \<in> set rows. species_row_ok row"
  shows "read_lines F r (map (\<lambda>row. species_text row @ [nl]) rows)
    = (species_done N ((on_obj (species_append rows) r)\<lparr>r_j := r_j r + int (length rows)\<rparr>),
       None)"
  using assms
proof (induction rows arbitrary: r)
  case Nil
  then show ?case
    by (cases r; cases "obj r") (simp add: species_done_def on_obj_def species_append_def)
next
  case (Cons row rows)
  define r1 where "r1 = (on_obj (species_append [row]) r)\<lparr>r_j := r_j r + 1\<rparr>"
  from Cons.prems have step: "read_line F r (species_text row @ [nl]) = (species_done N r1, None)"
    unfolding r1_def by (intro species_row_read) simp_all
  show ?case
  proof (cases "r_j r + 1 = N")
    case True
    with Cons.prems(3) have "length rows = 0" by (simp del: length_0_conv)
    then have e: "rows = []" by simp
    from True show ?thesis using step
      by (simp add: e r1_def species_done_def on_obj_def)
  next
    case False
    then have d: "species_done N r1 = r1" by (simp add: species_done_def r1_def)
    from Cons.prems(1) have 1: "in_species N r1"
      by (simp add: in_species_def r1_def on_obj_def species_append_def)
    from False Cons.prems(2,3) have 2: "r_j r1 < N" "r_j r1 + int (length rows) \<le> N"
      by (simp_all add: r1_def)
    from Cons.prems(4) have 3: "\<forall>row \<in> set rows. species_row_ok row" by simp
    have "(on_obj (species_append rows) r1)\<lparr>r_j := r_j r1 + int (length rows)\<rparr>
        = (on_obj (species_append (row # rows)) r)\<lparr>r_j := r_j r + int (length (row # rows))\<rparr>"
      by (simp add: r1_def on_obj_def species_append_def add.assoc)
    with Cons.IH [OF 1 2 3] step d show ?thesis by simp
  qed
qed


text \<open>
  The card \<^verbatim>\<open>ATOMIC_POSITIONS\<close>. A row is a label, three coordinates and, or not, three
  movement flags.
\<close>

type_synonym 'f atom_row = "string \<times> 'f \<times> 'f \<times> 'f \<times> (int \<times> int \<times> int) option"

definition flags_text :: "(int \<times> int \<times> int) option \<Rightarrow> string" where
  "flags_text fl =
     (case fl of
        None \<Rightarrow> []
      | Some (p, q, s) \<Rightarrow> sep3 @ str_int p @ sep3 @ str_int q @ sep3 @ str_int s)"

definition position_text :: "'f float_ops \<Rightarrow> 'f atom_row \<Rightarrow> string" where
  "position_text F row =
     (case row of (t, a, b, c, fl) \<Rightarrow>
        t @ sep3 @ str_float F a @ sep3 @ str_float F b @ sep3 @ str_float F c @ flags_text fl)"

definition row_flags :: "'f atom_row \<Rightarrow> int list \<times> int list \<times> int list" where
  "row_flags row =
     (case row of (t, a, b, c, fl) \<Rightarrow>
        (case fl of None \<Rightarrow> ([], [], []) | Some (p, q, s) \<Rightarrow> ([p], [q], [s])))"

definition position_append :: "'f atom_row list \<Rightarrow> 'f calc \<Rightarrow> 'f calc" where
  "position_append rows c =
     if_pos3_update (\<lambda>xs. xs @ concat (map (\<lambda>row. snd (snd (row_flags row))) rows))
       (if_pos2_update (\<lambda>xs. xs @ concat (map (\<lambda>row. fst (snd (row_flags row))) rows))
         (if_pos1_update (\<lambda>xs. xs @ concat (map (\<lambda>row. fst (row_flags row)) rows))
           (pos_z_update (\<lambda>xs. xs @ map (\<lambda>row. fst (snd (snd (snd row)))) rows)
             (pos_y_update (\<lambda>xs. xs @ map (\<lambda>row. fst (snd (snd row))) rows)
               (pos_x_update (\<lambda>xs. xs @ map (\<lambda>row. fst (snd row)) rows)
                 (atom_type_update (\<lambda>xs. xs @ map fst rows) c))))))"

definition positions_done :: "int \<Rightarrow> 'f reader \<Rightarrow> 'f reader" where
  "positions_done N r = (if r_j r = N then r\<lparr>r_j := 0, isatomicpositions := False\<rparr> else r)"

definition position_row_ok :: "'f float_ops \<Rightarrow> 'f atom_row \<Rightarrow> bool" where
  "position_row_ok F row \<longleftrightarrow>
     (case row of (t, a, b, c, fl) \<Rightarrow>
        token t \<and> py_lower t \<notin> set headers_before_positions
        \<and> float_ok F a \<and> float_ok F b \<and> float_ok F c)"

definition in_positions :: "int \<Rightarrow> 'f reader \<Rightarrow> bool" where
  "in_positions N r \<longleftrightarrow>
     \<not> iscontrol r \<and> \<not> issystem r \<and> \<not> iselectrons r \<and> \<not> isions r \<and> \<not> iscell r
     \<and> \<not> iscellparameters r \<and> \<not> isatomicspecies r \<and> isatomicpositions r
     \<and> Option.bind (map_of (system (obj r)) ''nat'') py_int = Some N"

lemma flags_update_ident:
  "if_pos1_update (\<lambda>xs. xs) c = c" "if_pos2_update (\<lambda>xs. xs) c = c"
  "if_pos3_update (\<lambda>xs. xs) c = c"
  by (cases c; simp)+

lemma py_split_position:
  assumes "position_row_ok F (t, a, b, c, fl)"
  shows "py_split (position_text F (t, a, b, c, fl) @ [nl]) =
    (case fl of
       None \<Rightarrow> [t, str_float F a, str_float F b, str_float F c]
     | Some (p, q, s) \<Rightarrow>
         [t, str_float F a, str_float F b, str_float F c, str_int p, str_int q, str_int s])"
proof (cases fl)
  case None
  with assms show ?thesis
    using py_split_4 [of t "str_float F a" "str_float F b" "str_float F c"]
    by (simp add: position_text_def flags_text_def position_row_ok_def float_ok_def)
next
  case (Some pqs)
  obtain p q s where pqs: "pqs = (p, q, s)" by (cases pqs)
  with Some assms show ?thesis
    using py_split_7 [of t "str_float F a" "str_float F b" "str_float F c"
        "str_int p" "str_int q" "str_int s"]
    by (simp add: position_text_def flags_text_def position_row_ok_def float_ok_def
        token_str_int)
qed

lemma atomic_positions_line_row:
  assumes "position_row_ok F (t, a, b, c, fl)"
    and "l = py_split (position_text F (t, a, b, c, fl) @ [nl])"
  shows "atomic_positions_line F l r
    = count_line ''nat'' isatomicpositions_update (on_obj (position_append [(t, a, b, c, fl)]) r)"
proof (cases fl)
  case None
  with assms have l: "l = [t, str_float F a, str_float F b, str_float F c]"
    by (simp add: py_split_position)
  from assms(1) have "py_float F (str_float F a) = Some a" "py_float F (str_float F b) = Some b"
    "py_float F (str_float F c) = Some c"
    by (simp_all add: position_row_ok_def float_ok_def)
  then show ?thesis
    unfolding l
    by (simp add: atomic_positions_line_def append_str_def append_float_def py_nth_def
        then_do_def on_obj_def position_append_def row_flags_def None flags_update_ident)
next
  case (Some pqs)
  obtain p q s where pqs: "pqs = (p, q, s)" by (cases pqs)
  with Some assms have l: "l = [t, str_float F a, str_float F b, str_float F c,
      str_int p, str_int q, str_int s]"
    by (simp add: py_split_position)
  from assms(1) have "py_float F (str_float F a) = Some a" "py_float F (str_float F b) = Some b"
    "py_float F (str_float F c) = Some c"
    by (simp_all add: position_row_ok_def float_ok_def)
  then show ?thesis
    unfolding l
    by (simp add: atomic_positions_line_def append_str_def append_float_def append_int_def
        py_nth_def then_do_def on_obj_def position_append_def row_flags_def Some pqs
        py_int_str_int)
qed

lemma position_row_read:
  assumes "in_positions N r" and "position_row_ok F row"
  shows "read_line F r (position_text F row @ [nl])
    = (positions_done N ((on_obj (position_append [row]) r)\<lparr>r_j := r_j r + 1\<rparr>), None)"
proof -
  obtain t a b c fl where row: "row = (t, a, b, c, fl)" by (cases row)
  from assms(2) have hd: "token t" "py_lower t \<notin> set headers_before_positions"
    by (simp_all add: position_row_ok_def row)
  have h: "hd (py_split (position_text F row @ [nl])) = t"
    and ne: "py_split (position_text F row @ [nl]) \<noteq> []"
    using py_split_position [of F t a b c fl] assms(2)
    by (auto simp: row split: option.splits)
  have "read_line F r (position_text F row @ [nl])
      = atomic_positions_line F (py_split (position_text F row @ [nl])) r"
    by (rule read_line_positions) (use assms(1) hd h ne in \<open>simp_all add: in_positions_def\<close>)
  also have "\<dots> = count_line ''nat'' isatomicpositions_update (on_obj (position_append [row]) r)"
    using atomic_positions_line_row [of F t a b c fl _ r] assms(2) by (simp add: row)
  also have "\<dots> = (positions_done N ((on_obj (position_append [row]) r)\<lparr>r_j := r_j r + 1\<rparr>), None)"
    using assms(1)
    by (subst count_line_found [where N = N])
      (auto simp: in_positions_def positions_done_def on_obj_def position_append_def)
  finally show ?thesis .
qed

lemma position_rows_read:
  assumes "in_positions N r" and "r_j r < N" and "r_j r + int (length rows) \<le> N"
    and "\<forall>row \<in> set rows. position_row_ok F row"
  shows "read_lines F r (map (\<lambda>row. position_text F row @ [nl]) rows)
    = (positions_done N
         ((on_obj (position_append rows) r)\<lparr>r_j := r_j r + int (length rows)\<rparr>), None)"
  using assms
proof (induction rows arbitrary: r)
  case Nil
  then show ?case
    by (cases r; cases "obj r") (simp add: positions_done_def on_obj_def position_append_def)
next
  case (Cons row rows)
  define r1 where "r1 = (on_obj (position_append [row]) r)\<lparr>r_j := r_j r + 1\<rparr>"
  from Cons.prems
  have step: "read_line F r (position_text F row @ [nl]) = (positions_done N r1, None)"
    unfolding r1_def by (intro position_row_read) simp_all
  show ?case
  proof (cases "r_j r + 1 = N")
    case True
    with Cons.prems(3) have "length rows = 0" by (simp del: length_0_conv)
    then have e: "rows = []" by simp
    from True show ?thesis using step
      by (simp add: e r1_def positions_done_def on_obj_def)
  next
    case False
    then have d: "positions_done N r1 = r1" by (simp add: positions_done_def r1_def)
    from Cons.prems(1) have 1: "in_positions N r1"
      by (simp add: in_positions_def r1_def on_obj_def position_append_def)
    from False Cons.prems(2,3) have 2: "r_j r1 < N" "r_j r1 + int (length rows) \<le> N"
      by (simp_all add: r1_def)
    from Cons.prems(4) have 3: "\<forall>row \<in> set rows. position_row_ok F row" by simp
    have "(on_obj (position_append rows) r1)\<lparr>r_j := r_j r1 + int (length rows)\<rparr>
        = (on_obj (position_append (row # rows)) r)\<lparr>r_j := r_j r + int (length (row # rows))\<rparr>"
      by (simp add: r1_def on_obj_def position_append_def add.assoc)
    with Cons.IH [OF 1 2 3] step d show ?thesis by simp
  qed
qed

text \<open>
  The card \<^verbatim>\<open>CELL_PARAMETERS\<close>: the header with its unit tag, and the three vectors.
\<close>

definition cell_append :: "string \<Rightarrow> 'f list \<Rightarrow> 'f list \<Rightarrow> 'f list \<Rightarrow> 'f calc \<Rightarrow> 'f calc" where
  "cell_append u a b c m =
     v3_update (\<lambda>xs. xs @ c)
       (v2_update (\<lambda>xs. xs @ b)
         (v1_update (\<lambda>xs. xs @ a)
           (if u = [] then m else cell_parameters_units_update (\<lambda>_. u) m)))"

definition vector_text :: "'f float_ops \<Rightarrow> 'f \<Rightarrow> 'f \<Rightarrow> 'f \<Rightarrow> string" where
  "vector_text F x y z = str_float F x @ sep3 @ str_float F y @ sep3 @ str_float F z"

lemma cell_header_read:
  assumes "idle r" and "unit_tag u"
  shows "read_line F r (''CELL_PARAMETERS '' @ u @ [nl])
    = ((if u = [] then r else on_obj (cell_parameters_units_update (\<lambda>_. u)) r)
        \<lparr>iscellparameters := True\<rparr>, None)"
proof -
  have s: "py_split (''CELL_PARAMETERS '' @ u @ [nl])
      = (if u = [] then [''CELL_PARAMETERS''] else [''CELL_PARAMETERS'', u])"
    using py_split_header [of "''CELL_PARAMETERS''" u] assms(2)
    by (simp add: token_literals unit_tag_def)
  show ?thesis
    unfolding read_line_def s using assms(1)
    by (simp add: py_lower_headers idle_def on_obj_def)
qed

lemma vector_line_read:
  assumes "\<not> iscontrol r" "\<not> issystem r" "\<not> iselectrons r" "\<not> isions r" "\<not> iscell r"
    "iscellparameters r"
    and "float_ok F x" "float_ok F y" "float_ok F z"
  shows "read_line F r (vector_text F x y z @ [nl])
    = cell_parameters_line F [str_float F x, str_float F y, str_float F z] r"
proof -
  have s: "py_split (vector_text F x y z @ [nl]) = [str_float F x, str_float F y, str_float F z]"
    using py_split_3 [of "str_float F x" "str_float F y" "str_float F z"] assms(7-9)
    by (simp add: vector_text_def float_ok_def)
  from assms(7) have "py_lower (str_float F x) \<notin> set headers_before_cell"
    by (simp add: float_ok_def)
  then show ?thesis
    unfolding read_line_def s using assms(1-6)
    by (simp add: headers_before_cell_def namelist_headers_def)
qed

lemma cell_parameters_line_floats:
  assumes "float_ok F x" "float_ok F y" "float_ok F z"
  shows "r_j r = 0 \<Longrightarrow> cell_parameters_line F [str_float F x, str_float F y, str_float F z] r
      = ((on_obj (v1_update (\<lambda>xs. xs @ [x, y, z])) r)\<lparr>r_j := 1\<rparr>, None)"
    and "r_j r = 1 \<Longrightarrow> cell_parameters_line F [str_float F x, str_float F y, str_float F z] r
      = ((on_obj (v2_update (\<lambda>xs. xs @ [x, y, z])) r)\<lparr>r_j := 2\<rparr>, None)"
    and "r_j r = 2 \<Longrightarrow> cell_parameters_line F [str_float F x, str_float F y, str_float F z] r
      = ((on_obj (v3_update (\<lambda>xs. xs @ [x, y, z])) r)\<lparr>r_j := 0, iscellparameters := False\<rparr>,
         None)"
  using assms
  by (simp_all add: cell_parameters_line_def append_float_def py_nth_def then_do_def
      on_obj_def float_ok_def comp_def)

lemma list3: "length a = 3 \<Longrightarrow> \<exists>x y z. a = [x, y, z]"
  by (cases a; cases "tl a"; cases "tl (tl a)") auto

lemma vector_row_text: "vector_row F [x, y, z] = vector_text F x y z"
  by (simp add: vector_row_def vector_text_def)

lemma cell_card_read:
  assumes "idle r" and "r_j r = 0" and "unit_tag u"
    and "length a = 3" "length b = 3" "length c = 3"
    and "\<forall>x \<in> set (a @ b @ c). float_ok F x"
  shows "read_lines F r (map (\<lambda>l. l @ [nl])
      [''CELL_PARAMETERS '' @ u, vector_row F a, vector_row F b, vector_row F c])
    = (on_obj (cell_append u a b c) r, None)"
proof -
  obtain a0 a1 a2 where ea: "a = [a0, a1, a2]" using list3 [OF assms(4)] by blast
  obtain b0 b1 b2 where eb: "b = [b0, b1, b2]" using list3 [OF assms(5)] by blast
  obtain c0 c1 c2 where ec: "c = [c0, c1, c2]" using list3 [OF assms(6)] by blast
  define r0 where "r0 = (if u = [] then r else on_obj (cell_parameters_units_update (\<lambda>_. u)) r)
      \<lparr>iscellparameters := True\<rparr>"
  define r1 where "r1 = (on_obj (v1_update (\<lambda>xs. xs @ a)) r0)\<lparr>r_j := 1\<rparr>"
  define r2 where "r2 = (on_obj (v2_update (\<lambda>xs. xs @ b)) r1)\<lparr>r_j := 2\<rparr>"
  define r3 where "r3 = (on_obj (v3_update (\<lambda>xs. xs @ c)) r2)\<lparr>r_j := 0, iscellparameters := False\<rparr>"
  have fa: "float_ok F a0" "float_ok F a1" "float_ok F a2"
    and fb: "float_ok F b0" "float_ok F b1" "float_ok F b2"
    and fc: "float_ok F c0" "float_ok F c1" "float_ok F c2"
    using assms(7) by (simp_all add: ea eb ec)
  have flags0: "\<not> iscontrol r0" "\<not> issystem r0" "\<not> iselectrons r0" "\<not> isions r0" "\<not> iscell r0"
    "iscellparameters r0" "r_j r0 = 0"
    using assms(1,2) by (simp_all add: r0_def idle_def on_obj_def)
  have flags1: "\<not> iscontrol r1" "\<not> issystem r1" "\<not> iselectrons r1" "\<not> isions r1" "\<not> iscell r1"
    "iscellparameters r1" "r_j r1 = 1"
    using flags0 by (simp_all add: r1_def on_obj_def)
  have flags2: "\<not> iscontrol r2" "\<not> issystem r2" "\<not> iselectrons r2" "\<not> isions r2" "\<not> iscell r2"
    "iscellparameters r2" "r_j r2 = 2"
    using flags1 by (simp_all add: r2_def on_obj_def)
  have 0: "read_line F r (''CELL_PARAMETERS '' @ u @ [nl]) = (r0, None)"
    unfolding r0_def by (rule cell_header_read [OF assms(1,3)])
  have 1: "read_line F r0 (vector_row F a @ [nl]) = (r1, None)"
    unfolding ea vector_row_text
    by (subst vector_line_read [OF flags0(1-6) fa])
      (simp add: cell_parameters_line_floats(1) [OF fa flags0(7)] ea r1_def)
  have 2: "read_line F r1 (vector_row F b @ [nl]) = (r2, None)"
    unfolding eb vector_row_text
    by (subst vector_line_read [OF flags1(1-6) fb])
      (simp add: cell_parameters_line_floats(2) [OF fb flags1(7)] eb r2_def)
  have 3: "read_line F r2 (vector_row F c @ [nl]) = (r3, None)"
    unfolding ec vector_row_text
    by (subst vector_line_read [OF flags2(1-6) fc])
      (simp add: cell_parameters_line_floats(3) [OF fc flags2(7)] ec r3_def)
  have "r3 = on_obj (cell_append u a b c) r"
    using assms(1,2)
    by (cases r) (simp add: r3_def r2_def r1_def r0_def on_obj_def cell_append_def idle_def)
  with 0 1 2 3 show ?thesis by simp
qed

text \<open>The card \<^verbatim>\<open>K_POINTS\<close>: \<^verbatim>\<open>gamma\<close>, or \<^verbatim>\<open>automatic\<close> and its grid.\<close>

lemma str_int_no_header: "py_lower (str_int i) \<notin> set all_headers"
proof
  assume "py_lower (str_int i) \<in> set all_headers"
  then have "hd (py_lower (str_int i)) \<in> {CHR ''&'', CHR ''c'', CHR ''a'', CHR ''k''}"
    by (auto simp: all_headers_def headers_before_positions_def headers_before_species_def)
  with hd_py_lower_str_int [of i] show False
    by (auto simp: is_digit_def)
qed

definition grid_text :: "int \<Rightarrow> int \<Rightarrow> int \<Rightarrow> int \<Rightarrow> int \<Rightarrow> int \<Rightarrow> string" where
  "grid_text n1 n2 n3 s1 s2 s3 =
     str_int n1 @ sep3 @ str_int n2 @ sep3 @ str_int n3 @ sep3
     @ str_int s1 @ sep3 @ str_int s2 @ sep3 @ str_int s3"

definition grid_assign :: "int \<Rightarrow> int \<Rightarrow> int \<Rightarrow> int \<Rightarrow> int \<Rightarrow> int \<Rightarrow> 'f calc \<Rightarrow> 'f calc" where
  "grid_assign n1 n2 n3 s1 s2 s3 m =
     sk3_update (\<lambda>_. Some s3) (sk2_update (\<lambda>_. Some s2) (sk1_update (\<lambda>_. Some s1)
       (nk3_update (\<lambda>_. Some n3) (nk2_update (\<lambda>_. Some n2) (nk1_update (\<lambda>_. Some n1)
         (k_points_type_update (\<lambda>_. ''automatic'') m))))))"

lemma k_points_gamma_read:
  assumes "idle r"
  shows "read_line F r (''K_POINTS '' @ ''gamma'' @ [nl])
    = (on_obj (k_points_type_update (\<lambda>_. ''gamma'')) r, None)"
proof -
  have s: "py_split (''K_POINTS '' @ ''gamma'' @ [nl]) = [''K_POINTS'', ''gamma'']"
    using py_split_2 [of "''K_POINTS''" "''gamma''"] by (simp add: token_literals)
  show ?thesis
    unfolding read_line_def s using assms
    by (simp add: py_lower_headers idle_def k_points_header_def py_nth_def)
qed

lemma k_points_automatic_read:
  assumes "idle r"
  shows "read_lines F r
      [''K_POINTS '' @ ''automatic'' @ [nl], grid_text n1 n2 n3 s1 s2 s3 @ [nl]]
    = ((on_obj (grid_assign n1 n2 n3 s1 s2 s3) r)\<lparr>iskpoints := True\<rparr>, None)"
proof -
  define r0 where "r0 = (on_obj (k_points_type_update (\<lambda>_. ''automatic'')) r)\<lparr>iskpoints := True\<rparr>"
  have s: "py_split (''K_POINTS '' @ ''automatic'' @ [nl]) = [''K_POINTS'', ''automatic'']"
    using py_split_2 [of "''K_POINTS''" "''automatic''"] by (simp add: token_literals)
  have 0: "read_line F r (''K_POINTS '' @ ''automatic'' @ [nl]) = (r0, None)"
    unfolding read_line_def s using assms
    by (simp add: py_lower_headers idle_def k_points_header_def py_nth_def r0_def)
  have g: "py_split (grid_text n1 n2 n3 s1 s2 s3 @ [nl])
      = [str_int n1, str_int n2, str_int n3, str_int s1, str_int s2, str_int s3]"
    using py_split_6 [of "str_int n1" "str_int n2" "str_int n3" "str_int s1" "str_int s2"
        "str_int s3"]
    by (simp add: grid_text_def token_str_int)
  have h: "py_lower (str_int n1) \<notin> set all_headers" by (rule str_int_no_header)
  have "read_line F r0 (grid_text n1 n2 n3 s1 s2 s3 @ [nl])
      = k_points_line F [str_int n1, str_int n2, str_int n3, str_int s1, str_int s2, str_int s3] r0"
    unfolding read_line_def g using assms h
    by (simp add: r0_def idle_def on_obj_def all_headers_def headers_before_positions_def
        headers_before_species_def)
  also have "\<dots> = ((on_obj (grid_assign n1 n2 n3 s1 s2 s3) r)\<lparr>iskpoints := True\<rparr>, None)"
    by (simp add: k_points_line_def r0_def on_obj_def assign_int_def py_nth_def then_do_def
        py_int_str_int grid_assign_def)
  finally show ?thesis using 0 by simp
qed

text \<open>The two counted cards, from their headers to their last rows.\<close>

lemma close_species:
  assumes "idle r" and "r_j r = 0"
  shows "species_done N ((on_obj g (r\<lparr>isatomicspecies := True\<rparr>))\<lparr>r_j := N\<rparr>) = on_obj g r"
  using assms by (cases r) (simp add: species_done_def on_obj_def idle_def)

lemma close_positions:
  assumes "idle r" and "r_j r = 0"
  shows "positions_done N ((on_obj g (r\<lparr>isatomicpositions := True\<rparr>))\<lparr>r_j := N\<rparr>) = on_obj g r"
  using assms by (cases r) (simp add: positions_done_def on_obj_def idle_def)

lemma species_card_read:
  assumes "idle r" and "r_j r = 0"
    and "Option.bind (map_of (system (obj r)) ''ntyp'') py_int = Some (int (length rows))"
    and "rows \<noteq> []" and "\<forall>row \<in> set rows. species_row_ok row"
  shows "read_lines F r (map (\<lambda>l. l @ [nl]) (''ATOMIC_SPECIES'' # map species_text rows))
    = (on_obj (species_append rows) r, None)"
proof -
  define r1 where "r1 = r\<lparr>isatomicspecies := True\<rparr>"
  have h: "read_line F r (''ATOMIC_SPECIES'' @ [nl]) = (r1, None)"
    unfolding r1_def
    by (rule read_header(6) [OF assms(1) py_split_1])
      (simp_all add: token_literals py_lower_headers)
  have 1: "in_species (int (length rows)) r1"
    using assms(1,3) by (simp add: in_species_def r1_def idle_def)
  have 2: "r_j r1 < int (length rows)" "r_j r1 + int (length rows) \<le> int (length rows)"
    using assms(2,4) by (simp_all add: r1_def)
  have "read_lines F r1 (map (\<lambda>row. species_text row @ [nl]) rows)
      = (species_done (int (length rows))
          ((on_obj (species_append rows) r1)\<lparr>r_j := r_j r1 + int (length rows)\<rparr>), None)"
    by (rule species_rows_read [OF 1 2 assms(5)])
  also have "r_j r1 + int (length rows) = int (length rows)"
    using assms(2) by (simp add: r1_def)
  finally have rows: "read_lines F r1 (map (\<lambda>row. species_text row @ [nl]) rows)
      = (on_obj (species_append rows) r, None)"
    by (simp add: r1_def close_species [OF assms(1,2)])
  show ?thesis using h rows by (simp add: comp_def)
qed

definition positions_card_append :: "string \<Rightarrow> 'f atom_row list \<Rightarrow> 'f calc \<Rightarrow> 'f calc" where
  "positions_card_append u rows c =
     position_append rows (if u = [] then c else atomic_positions_units_update (\<lambda>_. u) c)"

lemma positions_header_read:
  assumes "idle r" and "unit_tag u"
  shows "read_line F r (''ATOMIC_POSITIONS '' @ u @ [nl])
    = ((if u = [] then r else on_obj (atomic_positions_units_update (\<lambda>_. u)) r)
        \<lparr>isatomicpositions := True\<rparr>, None)"
proof -
  have s: "py_split (''ATOMIC_POSITIONS '' @ u @ [nl])
      = (if u = [] then [''ATOMIC_POSITIONS''] else [''ATOMIC_POSITIONS'', u])"
    using py_split_header [of "''ATOMIC_POSITIONS''" u] assms(2)
    by (simp add: token_literals unit_tag_def)
  show ?thesis
    unfolding read_line_def s using assms(1)
    by (simp add: py_lower_headers idle_def on_obj_def)
qed

lemma positions_card_read:
  assumes "idle r" and "r_j r = 0" and "unit_tag u"
    and "Option.bind (map_of (system (obj r)) ''nat'') py_int = Some (int (length rows))"
    and "rows \<noteq> []" and "\<forall>row \<in> set rows. position_row_ok F row"
  shows "read_lines F r
      (map (\<lambda>l. l @ [nl]) ((''ATOMIC_POSITIONS '' @ u) # map (position_text F) rows))
    = (on_obj (positions_card_append u rows) r, None)"
proof -
  define r0 where "r0 = (if u = [] then r else on_obj (atomic_positions_units_update (\<lambda>_. u)) r)"
  define r1 where "r1 = r0\<lparr>isatomicpositions := True\<rparr>"
  have i0: "idle r0" "r_j r0 = 0"
    using assms(1,2) by (simp_all add: r0_def on_obj_flags)
  have s0: "system (obj r0) = system (obj r)" by (simp add: r0_def on_obj_def)
  have h: "read_line F r (''ATOMIC_POSITIONS '' @ u @ [nl]) = (r1, None)"
    unfolding r1_def r0_def by (rule positions_header_read [OF assms(1,3)])
  have 1: "in_positions (int (length rows)) r1"
    using i0(1) assms(4) s0 by (simp add: in_positions_def r1_def idle_def)
  have 2: "r_j r1 < int (length rows)" "r_j r1 + int (length rows) \<le> int (length rows)"
    using i0(2) assms(5) by (simp_all add: r1_def)
  have "read_lines F r1 (map (\<lambda>row. position_text F row @ [nl]) rows)
      = (positions_done (int (length rows))
          ((on_obj (position_append rows) r1)\<lparr>r_j := r_j r1 + int (length rows)\<rparr>), None)"
    by (rule position_rows_read [OF 1 2 assms(6)])
  also have "r_j r1 + int (length rows) = int (length rows)"
    using i0(2) by (simp add: r1_def)
  finally have "read_lines F r1 (map (\<lambda>row. position_text F row @ [nl]) rows)
      = (on_obj (position_append rows) r0, None)"
    by (simp add: r1_def close_positions [OF i0])
  moreover have "on_obj (position_append rows) r0 = on_obj (positions_card_append u rows) r"
    by (simp add: r0_def positions_card_append_def on_obj_def)
  ultimately show ?thesis using h by (simp add: comp_def)
qed

subsection \<open>The rows of the two cards that are counted\<close>

definition species_rows :: "'f calc \<Rightarrow> (string \<times> string \<times> string) list" where
  "species_rows m = zip (atomic_species m) (zip (atomic_mass m) (pseudopotential m))"

definition atom_rows :: "'f calc \<Rightarrow> 'f atom_row list" where
  "atom_rows m =
     map (\<lambda>i. (atom_type m ! i, pos_x m ! i, pos_y m ! i, pos_z m ! i,
                if if_pos1 m = [] then None
                else Some (if_pos1 m ! i, if_pos2 m ! i, if_pos3 m ! i)))
       [0..<length (atom_type m)]"

lemma species_rows_length:
  assumes "length (atomic_mass m) = length (atomic_species m)"
    and "length (pseudopotential m) = length (atomic_species m)"
  shows "length (species_rows m) = length (atomic_species m)"
  using assms by (simp add: species_rows_def)

lemma species_rows_text:
  assumes "length (atomic_mass m) = length (atomic_species m)"
    and "length (pseudopotential m) = length (atomic_species m)"
  shows "map (species_row m) [0..<length (atomic_species m)] = map species_text (species_rows m)"
  using assms
  by (intro nth_equalityI) (simp_all add: species_rows_def species_row_def species_text_def)

lemma species_rows_fields:
  assumes "length (atomic_mass m) = length (atomic_species m)"
    and "length (pseudopotential m) = length (atomic_species m)"
  shows "map fst (species_rows m) = atomic_species m"
    and "map (\<lambda>row. fst (snd row)) (species_rows m) = atomic_mass m"
    and "map (\<lambda>row. snd (snd row)) (species_rows m) = pseudopotential m"
proof -
  have l: "length (atomic_species m) = length (zip (atomic_mass m) (pseudopotential m))"
    "length (atomic_mass m) = length (pseudopotential m)"
    using assms by simp_all
  show "map fst (species_rows m) = atomic_species m"
    unfolding species_rows_def by (rule map_fst_zip [OF l(1)])
  have "map (\<lambda>row. fst (snd row)) (species_rows m) = map fst (map snd (species_rows m))"
    by (simp add: comp_def)
  also have "\<dots> = atomic_mass m"
    unfolding species_rows_def by (simp only: map_snd_zip [OF l(1)] map_fst_zip [OF l(2)])
  finally show "map (\<lambda>row. fst (snd row)) (species_rows m) = atomic_mass m" .
  have "map (\<lambda>row. snd (snd row)) (species_rows m) = map snd (map snd (species_rows m))"
    by (simp add: comp_def)
  also have "\<dots> = pseudopotential m"
    unfolding species_rows_def by (simp only: map_snd_zip [OF l(1)] map_snd_zip [OF l(2)])
  finally show "map (\<lambda>row. snd (snd row)) (species_rows m) = pseudopotential m" .
qed

lemma species_rows_ok:
  assumes "length (atomic_mass m) = length (atomic_species m)"
    and "length (pseudopotential m) = length (atomic_species m)"
    and "\<forall>t \<in> set (atomic_species m). token t \<and> py_lower t \<notin> set headers_before_species"
    and "\<forall>t \<in> set (atomic_mass m). token t"
    and "\<forall>t \<in> set (pseudopotential m). token t"
  shows "\<forall>row \<in> set (species_rows m). species_row_ok row"
proof
  fix row
  assume "row \<in> set (species_rows m)"
  moreover obtain a b c where row: "row = (a, b, c)" by (cases row)
  ultimately have 1: "(a, (b, c)) \<in> set (zip (atomic_species m)
      (zip (atomic_mass m) (pseudopotential m)))"
    by (simp add: species_rows_def)
  have a: "a \<in> set (atomic_species m)" by (rule set_zip_leftD [OF 1])
  have 2: "(b, c) \<in> set (zip (atomic_mass m) (pseudopotential m))"
    by (rule set_zip_rightD [OF 1])
  have b: "b \<in> set (atomic_mass m)" by (rule set_zip_leftD [OF 2])
  have c: "c \<in> set (pseudopotential m)" by (rule set_zip_rightD [OF 2])
  from a b c assms(3-5) show "species_row_ok row" by (simp add: species_row_ok_def row)
qed

lemma atom_rows_length: "length (atom_rows m) = length (atom_type m)"
  by (simp add: atom_rows_def)

lemma atom_rows_text:
  "map (position_row F m) [0..<length (atom_type m)] = map (position_text F) (atom_rows m)"
  by (simp add: atom_rows_def position_row_def position_text_def flags_text_def)

lemma concat_singletons: "concat (map (\<lambda>i. [f i]) js) = map f js"
  by (induction js) simp_all

lemma atom_rows_fields:
  assumes "length (pos_x m) = length (atom_type m)" "length (pos_y m) = length (atom_type m)"
    "length (pos_z m) = length (atom_type m)"
    and "if if_pos1 m = [] then if_pos2 m = [] \<and> if_pos3 m = []
        else length (if_pos1 m) = length (atom_type m)
             \<and> length (if_pos2 m) = length (atom_type m)
             \<and> length (if_pos3 m) = length (atom_type m)"
  shows "map fst (atom_rows m) = atom_type m"
    and "map (\<lambda>row. fst (snd row)) (atom_rows m) = pos_x m"
    and "map (\<lambda>row. fst (snd (snd row))) (atom_rows m) = pos_y m"
    and "map (\<lambda>row. fst (snd (snd (snd row)))) (atom_rows m) = pos_z m"
    and "concat (map (\<lambda>row. fst (row_flags row)) (atom_rows m)) = if_pos1 m"
    and "concat (map (\<lambda>row. fst (snd (row_flags row))) (atom_rows m)) = if_pos2 m"
    and "concat (map (\<lambda>row. snd (snd (row_flags row))) (atom_rows m)) = if_pos3 m"
proof -
  show "map fst (atom_rows m) = atom_type m"
    by (simp add: atom_rows_def comp_def map_nth)
  show "map (\<lambda>row. fst (snd row)) (atom_rows m) = pos_x m"
    using map_nth [of "pos_x m"] assms(1) by (simp add: atom_rows_def comp_def)
  show "map (\<lambda>row. fst (snd (snd row))) (atom_rows m) = pos_y m"
    using map_nth [of "pos_y m"] assms(2) by (simp add: atom_rows_def comp_def)
  show "map (\<lambda>row. fst (snd (snd (snd row)))) (atom_rows m) = pos_z m"
    using map_nth [of "pos_z m"] assms(3) by (simp add: atom_rows_def comp_def)
  show "concat (map (\<lambda>row. fst (row_flags row)) (atom_rows m)) = if_pos1 m"
  proof (cases "if_pos1 m = []")
    case True
    then show ?thesis by (simp add: atom_rows_def comp_def row_flags_def)
  next
    case False
    with assms(4) have "length (if_pos1 m) = length (atom_type m)" by simp
    with False show ?thesis
      using map_nth [of "if_pos1 m"]
      by (simp add: atom_rows_def comp_def row_flags_def concat_singletons)
  qed
  show "concat (map (\<lambda>row. fst (snd (row_flags row))) (atom_rows m)) = if_pos2 m"
  proof (cases "if_pos1 m = []")
    case True
    with assms(4) show ?thesis by (simp add: atom_rows_def comp_def row_flags_def)
  next
    case False
    with assms(4) have "length (if_pos2 m) = length (atom_type m)" by simp
    with False show ?thesis
      using map_nth [of "if_pos2 m"]
      by (simp add: atom_rows_def comp_def row_flags_def concat_singletons)
  qed
  show "concat (map (\<lambda>row. snd (snd (row_flags row))) (atom_rows m)) = if_pos3 m"
  proof (cases "if_pos1 m = []")
    case True
    with assms(4) show ?thesis by (simp add: atom_rows_def comp_def row_flags_def)
  next
    case False
    with assms(4) have "length (if_pos3 m) = length (atom_type m)" by simp
    with False show ?thesis
      using map_nth [of "if_pos3 m"]
      by (simp add: atom_rows_def comp_def row_flags_def concat_singletons)
  qed
qed

lemma atom_rows_ok:
  assumes "length (pos_x m) = length (atom_type m)" "length (pos_y m) = length (atom_type m)"
    "length (pos_z m) = length (atom_type m)"
    and "\<forall>t \<in> set (atom_type m). token t \<and> py_lower t \<notin> set headers_before_positions"
    and "\<forall>a \<in> set (pos_x m @ pos_y m @ pos_z m). float_ok F a"
  shows "\<forall>row \<in> set (atom_rows m). position_row_ok F row"
  using assms by (auto simp: atom_rows_def position_row_ok_def)

subsection \<open>The lines of the deck hold no end of line\<close>

lemma no_eol_literals:
  "no_eol '' = ''" "no_eol '',''" "no_eol ''/''" "no_eol ''&CONTROL''" "no_eol ''&SYSTEM''"
  "no_eol ''&ELECTRONS''" "no_eol ''&IONS''" "no_eol ''&CELL''" "no_eol ''ATOMIC_SPECIES''"
  "no_eol ''CELL_PARAMETERS ''" "no_eol ''ATOMIC_POSITIONS ''" "no_eol ''K_POINTS ''"
  "no_eol []"
  by (simp_all add: no_eol_def nl_def)

lemma safe_value_no_eol: "safe_value v \<Longrightarrow> no_eol v"
  by (auto simp: safe_value_def no_eol_def is_space_def nl_def)

lemma unit_tag_no_eol: "unit_tag u \<Longrightarrow> no_eol u"
  by (auto simp: unit_tag_def no_eol_token no_eol_literals)

lemma namelist_block_no_eol:
  assumes "no_eol name" and "safe_dict d"
  shows "\<forall>l \<in> set (namelist_block name d). no_eol l"
proof -
  have "no_eol (namelist_row p)" if "p \<in> set d" for p
  proof -
    from that assms(2) have "token (fst p)" "safe_value (snd p)"
      by (simp_all add: safe_dict_def safe_key_def)
    then show ?thesis
      unfolding namelist_row_def no_eol_append
      by (simp only: no_eol_token safe_value_no_eol no_eol_literals simp_thms)
  qed
  with assms(1) show ?thesis
    by (auto simp: namelist_block_def no_eol_literals)
qed

lemma species_text_no_eol: "species_row_ok row \<Longrightarrow> no_eol (species_text row)"
  by (simp add: species_row_ok_def species_text_def no_eol_append no_eol_token no_eol_sep3)

lemma flags_text_no_eol: "no_eol (flags_text fl)"
  by (cases fl)
    (auto simp: flags_text_def no_eol_append no_eol_token no_eol_sep3 token_str_int
      no_eol_literals)

lemma position_text_no_eol: "position_row_ok F row \<Longrightarrow> no_eol (position_text F row)"
  by (cases row)
    (simp add: position_row_ok_def position_text_def no_eol_append no_eol_token no_eol_sep3
      float_ok_def flags_text_no_eol)

lemma vector_row_no_eol:
  assumes "length a = 3" and "\<forall>x \<in> set a. float_ok F x"
  shows "no_eol (vector_row F a)"
proof -
  obtain x y z where a: "a = [x, y, z]" using list3 [OF assms(1)] by blast
  with assms(2) show ?thesis
    by (simp add: vector_row_text vector_text_def no_eol_append no_eol_token no_eol_sep3
        float_ok_def)
qed

lemma grid_text_no_eol: "no_eol (grid_text n1 n2 n3 s1 s2 s3)"
  by (simp add: grid_text_def no_eol_append no_eol_token no_eol_sep3 token_str_int)

lemma grid_row_text:
  assumes "nk1 m = Some n1" "nk2 m = Some n2" "nk3 m = Some n3"
    "sk1 m = Some s1" "sk2 m = Some s2" "sk3 m = Some s3"
  shows "grid_row m = grid_text n1 n2 n3 s1 s2 s3"
  using assms by (simp add: grid_row_def grid_text_def str_opt_int_def)

subsection \<open>The whole deck\<close>

text \<open>
  The deck in the rows of the cards, and what the reader has assigned after each of its
  nine parts.
\<close>

definition k_points_lines :: "'f calc \<Rightarrow> string list" where
  "k_points_lines m =
     [''K_POINTS '' @ k_points_type m]
     @ (if k_points_type m = ''automatic'' then [grid_row m] else [])"

definition cell_lines :: "'f float_ops \<Rightarrow> 'f calc \<Rightarrow> string list" where
  "cell_lines F m =
     (if ibrav_zero m
      then [''CELL_PARAMETERS '' @ cell_parameters_units m,
            vector_row F (v1 m), vector_row F (v2 m), vector_row F (v3 m)]
      else [])"

definition cell_namelist_lines :: "'f calc \<Rightarrow> string list" where
  "cell_namelist_lines m = (if variable_cell m then namelist_block ''&CELL'' (cell m) else [])"

lemma deck_lines_parts:
  assumes "length (atomic_mass m) = length (atomic_species m)"
    and "length (pseudopotential m) = length (atomic_species m)"
  shows "deck_lines F m =
     namelist_block ''&CONTROL'' (control m)
     @ namelist_block ''&SYSTEM'' (system m)
     @ namelist_block ''&ELECTRONS'' (electrons m)
     @ namelist_block ''&IONS'' (ions m)
     @ cell_namelist_lines m
     @ (''ATOMIC_SPECIES'' # map species_text (species_rows m))
     @ cell_lines F m
     @ ((''ATOMIC_POSITIONS '' @ atomic_positions_units m)
         # map (position_text F) (atom_rows m))
     @ k_points_lines m"
  unfolding deck_lines_def cell_namelist_lines_def [symmetric] cell_lines_def [symmetric]
    k_points_lines_def [symmetric] species_rows_text [OF assms] atom_rows_text
  by simp

definition after_namelists :: "'f calc \<Rightarrow> 'f calc" where
  "after_namelists m =
     (if variable_cell m then cell_update (dict_apply (cell m)) else (\<lambda>c. c))
       (ions_update (dict_apply (ions m))
         (electrons_update (dict_apply (electrons m))
           (system_update (dict_apply (system m))
             (control_update (dict_apply (control m)) calc_init))))"

definition after_cards :: "'f calc \<Rightarrow> 'f calc" where
  "after_cards m =
     positions_card_append (atomic_positions_units m) (atom_rows m)
       ((if ibrav_zero m
         then cell_append (cell_parameters_units m) (v1 m) (v2 m) (v3 m)
         else (\<lambda>c. c))
         (species_append (species_rows m) (after_namelists m)))"

definition after_k_points :: "'f calc \<Rightarrow> 'f calc" where
  "after_k_points m =
     (if k_points_type m = ''automatic''
      then grid_assign (the (nk1 m)) (the (nk2 m)) (the (nk3 m))
             (the (sk1 m)) (the (sk2 m)) (the (sk3 m))
      else k_points_type_update (\<lambda>_. ''gamma''))
       (after_cards m)"

lemma cell_namelist_read:
  assumes "idle r" and "safe_dict (cell m)"
  shows "read_lines F r (map (\<lambda>l. l @ [nl]) (cell_namelist_lines m))
    = (on_obj (if variable_cell m then cell_update (dict_apply (cell m)) else (\<lambda>c. c)) r, None)"
proof (cases "variable_cell m")
  case True
  with assms show ?thesis
    by (simp add: cell_namelist_lines_def cell_block_read safe_dict_def)
next
  case False
  then show ?thesis by (simp add: cell_namelist_lines_def on_obj_def)
qed

lemma cell_lines_read:
  assumes "idle r" and "r_j r = 0" and "unit_tag (cell_parameters_units m)"
    and "ibrav_zero m \<Longrightarrow> length (v1 m) = 3 \<and> length (v2 m) = 3 \<and> length (v3 m) = 3"
    and "\<forall>x \<in> set (v1 m @ v2 m @ v3 m). float_ok F x"
  shows "read_lines F r (map (\<lambda>l. l @ [nl]) (cell_lines F m))
    = (on_obj (if ibrav_zero m
               then cell_append (cell_parameters_units m) (v1 m) (v2 m) (v3 m)
               else (\<lambda>c. c)) r, None)"
proof (cases "ibrav_zero m")
  case True
  with assms(4) have l: "length (v1 m) = 3" "length (v2 m) = 3" "length (v3 m) = 3"
    by simp_all
  show ?thesis
    unfolding cell_lines_def if_P [OF True]
    by (rule cell_card_read [OF assms(1-3) l assms(5)])
next
  case False
  then show ?thesis by (simp add: cell_lines_def on_obj_def)
qed

lemma k_points_lines_read:
  assumes "idle r"
    and "if k_points_type m = ''gamma'' then True
        else k_points_type m = ''automatic''
             \<and> nk1 m \<noteq> None \<and> nk2 m \<noteq> None \<and> nk3 m \<noteq> None
             \<and> sk1 m \<noteq> None \<and> sk2 m \<noteq> None \<and> sk3 m \<noteq> None"
  shows "\<exists>r'. read_lines F r (map (\<lambda>l. l @ [nl]) (k_points_lines m)) = (r', None)
    \<and> obj r' =
       (if k_points_type m = ''automatic''
        then grid_assign (the (nk1 m)) (the (nk2 m)) (the (nk3 m))
               (the (sk1 m)) (the (sk2 m)) (the (sk3 m))
        else k_points_type_update (\<lambda>_. ''gamma'')) (obj r)"
proof (cases "k_points_type m = ''gamma''")
  case True
  have "map (\<lambda>l. l @ [nl]) (k_points_lines m) = [''K_POINTS '' @ ''gamma'' @ [nl]]"
    by (simp add: k_points_lines_def True)
  then have "read_lines F r (map (\<lambda>l. l @ [nl]) (k_points_lines m))
      = (on_obj (k_points_type_update (\<lambda>_. ''gamma'')) r, None)"
    by (simp only: read_lines.simps k_points_gamma_read [OF assms(1)] prod.case option.case)
  then show ?thesis by (simp add: True on_obj_def)
next
  case False
  with assms(2) obtain n1 n2 n3 s1 s2 s3 where a: "k_points_type m = ''automatic''"
    and g: "nk1 m = Some n1" "nk2 m = Some n2" "nk3 m = Some n3"
      "sk1 m = Some s1" "sk2 m = Some s2" "sk3 m = Some s3"
    by auto
  have "map (\<lambda>l. l @ [nl]) (k_points_lines m)
      = [''K_POINTS '' @ ''automatic'' @ [nl], grid_text n1 n2 n3 s1 s2 s3 @ [nl]]"
    by (simp add: k_points_lines_def a grid_row_text [OF g])
  then have "read_lines F r (map (\<lambda>l. l @ [nl]) (k_points_lines m))
      = ((on_obj (grid_assign n1 n2 n3 s1 s2 s3) r)\<lparr>iskpoints := True\<rparr>, None)"
    by (simp only: k_points_automatic_read [OF assms(1)])
  then show ?thesis by (simp add: a g on_obj_def)
qed

lemma system_after_namelists:
  assumes "distinct (map fst (system m))"
  shows "system (after_namelists m) = system m"
  using assms by (simp add: after_namelists_def calc_init_def dict_apply_distinct)

lemma deck_read:
  assumes "roundtrip_ok F m"
  shows "\<exists>r. read_lines F (reader_init calc_init) (map (\<lambda>l. l @ [nl]) (deck_lines F m))
      = (r, None) \<and> obj r = after_k_points m"
proof -
  from assms have sd: "safe_dict (control m)" "safe_dict (system m)" "safe_dict (electrons m)"
    "safe_dict (ions m)" "safe_dict (cell m)"
    by (simp_all add: roundtrip_ok_def)
  from assms have counts:
    "map_of (system m) ''nat'' = Some (str_int (int (length (atom_type m))))"
    "map_of (system m) ''ntyp'' = Some (str_int (int (length (atomic_species m))))"
    "atomic_species m \<noteq> []" "atom_type m \<noteq> []"
    by (simp_all add: roundtrip_ok_def)
  from assms have len: "length (atomic_mass m) = length (atomic_species m)"
    "length (pseudopotential m) = length (atomic_species m)"
    "length (pos_x m) = length (atom_type m)" "length (pos_y m) = length (atom_type m)"
    "length (pos_z m) = length (atom_type m)"
    by (simp_all add: roundtrip_ok_def)
  from assms have tok:
    "\<forall>t \<in> set (atomic_species m). token t \<and> py_lower t \<notin> set headers_before_species"
    "\<forall>t \<in> set (atomic_mass m). token t" "\<forall>t \<in> set (pseudopotential m). token t"
    "\<forall>t \<in> set (atom_type m). token t \<and> py_lower t \<notin> set headers_before_positions"
    by (simp_all add: roundtrip_ok_def)
  from assms have fl: "\<forall>a \<in> set (pos_x m @ pos_y m @ pos_z m). float_ok F a"
    "\<forall>a \<in> set (v1 m @ v2 m @ v3 m). float_ok F a"
    by (auto simp: roundtrip_ok_def)
  from assms have cellv:
    "ibrav_zero m \<Longrightarrow> length (v1 m) = 3 \<and> length (v2 m) = 3 \<and> length (v3 m) = 3"
    by (simp add: roundtrip_ok_def)
  from assms have units: "unit_tag (atomic_positions_units m)"
    "unit_tag (cell_parameters_units m)"
    by (simp_all add: roundtrip_ok_def)
  from assms have kp: "if k_points_type m = ''gamma'' then True
        else k_points_type m = ''automatic''
             \<and> nk1 m \<noteq> None \<and> nk2 m \<noteq> None \<and> nk3 m \<noteq> None
             \<and> sk1 m \<noteq> None \<and> sk2 m \<noteq> None \<and> sk3 m \<noteq> None"
    by (simp add: roundtrip_ok_def split: if_splits)
  note rows = sd [unfolded safe_dict_def, THEN conjunct2]
  define r0 :: "'a reader" where "r0 = reader_init calc_init"
  define r1 where "r1 = on_obj (control_update (dict_apply (control m))) r0"
  define r2 where "r2 = on_obj (system_update (dict_apply (system m))) r1"
  define r3 where "r3 = on_obj (electrons_update (dict_apply (electrons m))) r2"
  define r4 where "r4 = on_obj (ions_update (dict_apply (ions m))) r3"
  define r5 where "r5 = on_obj (if variable_cell m then cell_update (dict_apply (cell m))
      else (\<lambda>c. c)) r4"
  define r6 where "r6 = on_obj (species_append (species_rows m)) r5"
  define r7 where "r7 = on_obj (if ibrav_zero m
      then cell_append (cell_parameters_units m) (v1 m) (v2 m) (v3 m) else (\<lambda>c. c)) r6"
  define r8 where "r8 = on_obj (positions_card_append (atomic_positions_units m) (atom_rows m)) r7"
  have i0: "idle r0" "r_j r0 = 0" by (simp_all add: r0_def reader_init_def idle_def)
  have i1: "idle r1" "r_j r1 = 0" using i0 by (simp_all add: r1_def on_obj_flags)
  have i2: "idle r2" "r_j r2 = 0" using i1 by (simp_all add: r2_def on_obj_flags)
  have i3: "idle r3" "r_j r3 = 0" using i2 by (simp_all add: r3_def on_obj_flags)
  have i4: "idle r4" "r_j r4 = 0" using i3 by (simp_all add: r4_def on_obj_flags)
  have i5: "idle r5" "r_j r5 = 0" using i4 by (simp_all add: r5_def on_obj_flags)
  have i6: "idle r6" "r_j r6 = 0" using i5 by (simp_all add: r6_def on_obj_flags)
  have i7: "idle r7" "r_j r7 = 0" using i6 by (simp_all add: r7_def on_obj_flags)
  have i8: "idle r8" "r_j r8 = 0" using i7 by (simp_all add: r8_def on_obj_flags)
  have o5: "obj r5 = after_namelists m"
    by (simp add: r5_def r4_def r3_def r2_def r1_def r0_def on_obj_def reader_init_def
        after_namelists_def)
  have o8: "obj r8 = after_cards m"
    by (simp add: r8_def r7_def r6_def on_obj_def o5 after_cards_def)
  have s5: "system (obj r5) = system m"
    unfolding o5 using sd(2) by (simp add: system_after_namelists safe_dict_def)
  have s7: "system (obj r7) = system m"
    using s5
    by (simp add: r7_def r6_def on_obj_def species_append_def cell_append_def)
  have n5: "Option.bind (map_of (system (obj r5)) ''ntyp'') py_int
      = Some (int (length (species_rows m)))"
    by (simp add: s5 counts(2) py_int_str_int species_rows_length [OF len(1,2)])
  have n7: "Option.bind (map_of (system (obj r7)) ''nat'') py_int
      = Some (int (length (atom_rows m)))"
    by (simp add: s7 counts(1) py_int_str_int atom_rows_length)
  have ne: "species_rows m \<noteq> []" "atom_rows m \<noteq> []"
    using counts(3,4) species_rows_length [OF len(1,2)] atom_rows_length [of m]
    by auto
  have 1: "read_lines F r0 (map (\<lambda>l. l @ [nl]) (namelist_block ''&CONTROL'' (control m)))
      = (r1, None)"
    unfolding r1_def by (rule control_block_read [OF i0(1) rows(1)])
  have 2: "read_lines F r1 (map (\<lambda>l. l @ [nl]) (namelist_block ''&SYSTEM'' (system m)))
      = (r2, None)"
    unfolding r2_def by (rule system_block_read [OF i1(1) rows(2)])
  have 3: "read_lines F r2 (map (\<lambda>l. l @ [nl]) (namelist_block ''&ELECTRONS'' (electrons m)))
      = (r3, None)"
    unfolding r3_def by (rule electrons_block_read [OF i2(1) rows(3)])
  have 4: "read_lines F r3 (map (\<lambda>l. l @ [nl]) (namelist_block ''&IONS'' (ions m)))
      = (r4, None)"
    unfolding r4_def by (rule ions_block_read [OF i3(1) rows(4)])
  have 5: "read_lines F r4 (map (\<lambda>l. l @ [nl]) (cell_namelist_lines m)) = (r5, None)"
    unfolding r5_def by (rule cell_namelist_read [OF i4(1) sd(5)])
  have 6: "read_lines F r5
      (map (\<lambda>l. l @ [nl]) (''ATOMIC_SPECIES'' # map species_text (species_rows m)))
      = (r6, None)"
    unfolding r6_def
    by (rule species_card_read [OF i5 n5 ne(1) species_rows_ok [OF len(1,2) tok(1-3)]])
  have 7: "read_lines F r6 (map (\<lambda>l. l @ [nl]) (cell_lines F m)) = (r7, None)"
    unfolding r7_def by (rule cell_lines_read [OF i6 units(2) cellv fl(2)])
  have 8: "read_lines F r7
      (map (\<lambda>l. l @ [nl]) ((''ATOMIC_POSITIONS '' @ atomic_positions_units m)
         # map (position_text F) (atom_rows m)))
      = (r8, None)"
    unfolding r8_def
    by (rule positions_card_read
        [OF i7 units(1) n7 ne(2) atom_rows_ok [OF len(3-5) tok(4) fl(1)]])
  obtain r9 where 9: "read_lines F r8 (map (\<lambda>l. l @ [nl]) (k_points_lines m)) = (r9, None)"
    and o9: "obj r9 = after_k_points m"
    using k_points_lines_read [OF i8(1) kp, of F] unfolding o8 after_k_points_def by blast
  have "read_lines F r0 (map (\<lambda>l. l @ [nl]) (deck_lines F m)) = (r9, None)"
    unfolding deck_lines_parts [OF len(1,2)] map_append read_lines_append
    by (simp only: 1 2 3 4 5 6 7 8 9 prod.case option.case)
  with o9 show ?thesis unfolding r0_def by blast
qed

text \<open>What the reader has assigned is the object that was written.\<close>

lemma after_namelists_ident:
  assumes "roundtrip_ok F m"
  shows "after_namelists m = calc_init\<lparr>control := control m, system := system m,
    electrons := electrons m, ions := ions m, cell := cell m\<rparr>"
proof -
  from assms have d: "dict_apply (control m) [] = control m"
    "dict_apply (system m) [] = system m" "dict_apply (electrons m) [] = electrons m"
    "dict_apply (ions m) [] = ions m" "dict_apply (cell m) [] = cell m"
    by (simp_all add: roundtrip_ok_def safe_dict_def dict_apply_distinct)
  from assms have c: "\<not> variable_cell m \<Longrightarrow> cell m = []"
    by (simp add: roundtrip_ok_def)
  show ?thesis
    using c by (simp add: after_namelists_def calc_init_def d)
qed

lemma after_cards_ident:
  assumes "roundtrip_ok F m"
  shows "after_cards m = m\<lparr>k_points_type := [], nk1 := None, nk2 := None, nk3 := None,
    sk1 := None, sk2 := None, sk3 := None\<rparr>"
proof -
  from assms have len: "length (atomic_mass m) = length (atomic_species m)"
    "length (pseudopotential m) = length (atomic_species m)"
    "length (pos_x m) = length (atom_type m)" "length (pos_y m) = length (atom_type m)"
    "length (pos_z m) = length (atom_type m)"
    by (simp_all add: roundtrip_ok_def)
  from assms have fp: "if if_pos1 m = [] then if_pos2 m = [] \<and> if_pos3 m = []
        else length (if_pos1 m) = length (atom_type m)
             \<and> length (if_pos2 m) = length (atom_type m)
             \<and> length (if_pos3 m) = length (atom_type m)"
    by (simp add: roundtrip_ok_def)
  from assms have cv: "\<not> ibrav_zero m \<Longrightarrow>
      v1 m = [] \<and> v2 m = [] \<and> v3 m = [] \<and> cell_parameters_units m = []"
    by (simp add: roundtrip_ok_def split: if_splits)
  from assms have k: "kx m = []" "ky m = []" "kz m = []" "wk m = []"
    by (simp_all add: roundtrip_ok_def)
  note sf = species_rows_fields [OF len(1,2)]
  note af = atom_rows_fields [OF len(3-5) fp]
  show ?thesis
    using cv k
    by (intro calc.equality)
      (simp_all add: after_cards_def after_namelists_ident [OF assms] calc_init_def
        positions_card_append_def position_append_def cell_append_def species_append_def
        sf af)
qed

lemma after_k_points_ident:
  assumes "roundtrip_ok F m"
  shows "after_k_points m = m"
proof -
  from assms have kp: "if k_points_type m = ''gamma''
        then nk1 m = None \<and> nk2 m = None \<and> nk3 m = None
             \<and> sk1 m = None \<and> sk2 m = None \<and> sk3 m = None
        else k_points_type m = ''automatic''
             \<and> nk1 m \<noteq> None \<and> nk2 m \<noteq> None \<and> nk3 m \<noteq> None
             \<and> sk1 m \<noteq> None \<and> sk2 m \<noteq> None \<and> sk3 m \<noteq> None"
    by (simp add: roundtrip_ok_def)
  show ?thesis
  proof (cases "k_points_type m = ''gamma''")
    case True
    with kp show ?thesis
      by (intro calc.equality)
        (simp_all add: after_k_points_def after_cards_ident [OF assms])
  next
    case False
    with kp show ?thesis
      by (intro calc.equality)
        (auto simp: after_k_points_def after_cards_ident [OF assms] grid_assign_def)
  qed
qed

lemma deck_lines_no_eol:
  assumes "roundtrip_ok F m"
  shows "\<forall>l \<in> set (deck_lines F m). no_eol l"
proof -
  from assms have sd: "safe_dict (control m)" "safe_dict (system m)" "safe_dict (electrons m)"
    "safe_dict (ions m)" "safe_dict (cell m)"
    by (simp_all add: roundtrip_ok_def)
  from assms have len: "length (atomic_mass m) = length (atomic_species m)"
    "length (pseudopotential m) = length (atomic_species m)"
    "length (pos_x m) = length (atom_type m)" "length (pos_y m) = length (atom_type m)"
    "length (pos_z m) = length (atom_type m)"
    by (simp_all add: roundtrip_ok_def)
  from assms have tok:
    "\<forall>t \<in> set (atomic_species m). token t \<and> py_lower t \<notin> set headers_before_species"
    "\<forall>t \<in> set (atomic_mass m). token t" "\<forall>t \<in> set (pseudopotential m). token t"
    "\<forall>t \<in> set (atom_type m). token t \<and> py_lower t \<notin> set headers_before_positions"
    by (simp_all add: roundtrip_ok_def)
  from assms have fl: "\<forall>a \<in> set (pos_x m @ pos_y m @ pos_z m). float_ok F a"
    "\<forall>a \<in> set (v1 m). float_ok F a" "\<forall>a \<in> set (v2 m). float_ok F a"
    "\<forall>a \<in> set (v3 m). float_ok F a"
    by (auto simp: roundtrip_ok_def)
  from assms have cellv:
    "ibrav_zero m \<Longrightarrow> length (v1 m) = 3 \<and> length (v2 m) = 3 \<and> length (v3 m) = 3"
    by (simp add: roundtrip_ok_def)
  from assms have units: "unit_tag (atomic_positions_units m)"
    "unit_tag (cell_parameters_units m)"
    by (simp_all add: roundtrip_ok_def)
  from assms have kp: "k_points_type m = ''gamma'' \<or> k_points_type m = ''automatic''
      \<and> nk1 m \<noteq> None \<and> nk2 m \<noteq> None \<and> nk3 m \<noteq> None
      \<and> sk1 m \<noteq> None \<and> sk2 m \<noteq> None \<and> sk3 m \<noteq> None"
    by (simp add: roundtrip_ok_def split: if_splits)
  have 1: "\<forall>l \<in> set (namelist_block ''&CONTROL'' (control m)). no_eol l"
    by (rule namelist_block_no_eol [OF no_eol_literals(4) sd(1)])
  have 2: "\<forall>l \<in> set (namelist_block ''&SYSTEM'' (system m)). no_eol l"
    by (rule namelist_block_no_eol [OF no_eol_literals(5) sd(2)])
  have 3: "\<forall>l \<in> set (namelist_block ''&ELECTRONS'' (electrons m)). no_eol l"
    by (rule namelist_block_no_eol [OF no_eol_literals(6) sd(3)])
  have 4: "\<forall>l \<in> set (namelist_block ''&IONS'' (ions m)). no_eol l"
    by (rule namelist_block_no_eol [OF no_eol_literals(7) sd(4)])
  have 5: "\<forall>l \<in> set (cell_namelist_lines m). no_eol l"
    using namelist_block_no_eol [OF no_eol_literals(8) sd(5)]
    by (simp add: cell_namelist_lines_def)
  have 6: "\<forall>l \<in> set (''ATOMIC_SPECIES'' # map species_text (species_rows m)). no_eol l"
    using species_rows_ok [OF len(1,2) tok(1-3)]
    by (simp add: no_eol_literals species_text_no_eol)
  have 7: "\<forall>l \<in> set (cell_lines F m). no_eol l"
  proof (cases "ibrav_zero m")
    case True
    have h: "no_eol (''CELL_PARAMETERS '' @ cell_parameters_units m)"
      unfolding no_eol_append
      by (intro conjI no_eol_literals unit_tag_no_eol units)
    from cellv [OF True] have "no_eol (vector_row F (v1 m))" "no_eol (vector_row F (v2 m))"
      "no_eol (vector_row F (v3 m))"
      using fl(2-4) by (simp_all add: vector_row_no_eol)
    with h show ?thesis
      unfolding cell_lines_def if_P [OF True] by simp
  next
    case False
    then show ?thesis by (simp add: cell_lines_def)
  qed
  have 8: "\<forall>l \<in> set ((''ATOMIC_POSITIONS '' @ atomic_positions_units m)
      # map (position_text F) (atom_rows m)). no_eol l"
  proof -
    have h: "no_eol (''ATOMIC_POSITIONS '' @ atomic_positions_units m)"
      unfolding no_eol_append
      by (intro conjI no_eol_literals unit_tag_no_eol units)
    with atom_rows_ok [OF len(3-5) tok(4) fl(1)] show ?thesis
      unfolding list.set(2) ball_simps(7)
      by (simp add: position_text_no_eol del: append.simps)
  qed
  have 9: "\<forall>l \<in> set (k_points_lines m). no_eol l"
  proof -
    have "no_eol (k_points_type m)"
      using kp by (auto simp: no_eol_token token_literals)
    then have t: "no_eol (''K_POINTS '' @ k_points_type m)"
      unfolding no_eol_append by (intro conjI no_eol_literals)
    from kp have "k_points_type m = ''automatic'' \<Longrightarrow> no_eol (grid_row m)"
      by (auto simp: grid_row_text grid_text_no_eol)
    with t show ?thesis by (simp add: k_points_lines_def)
  qed
  show ?thesis
    unfolding deck_lines_parts [OF len(1,2)] set_append ball_Un
    by (intro conjI 1 2 3 4 5 6 7 8 9)
qed

lemma read_input_deck:
  assumes "roundtrip_ok F m"
  shows "read_input F calc_init (Some (unlines (deck_lines F m))) = (m, None)"
proof -
  obtain r where "read_lines F (reader_init calc_init) (map (\<lambda>l. l @ [nl]) (deck_lines F m))
      = (r, None)" and "obj r = m"
    using deck_read [OF assms] after_k_points_ident [OF assms] by auto
  then show ?thesis
    by (simp add: read_input_def readlines_unlines [OF deck_lines_no_eol [OF assms]])
qed

subsection \<open>The round trip\<close>

text \<open>
  The hydrogen molecule with movement flags and an automatic grid, and the deck that
  \<^verbatim>\<open>build_input\<close> writes for it.
\<close>

definition h2_grid :: "rat calc" where
  "h2_grid = h2_model
     \<lparr>if_pos1 := [0, 1], if_pos2 := [0, 1], if_pos3 := [0, 1],
      nk1 := Some 4, nk2 := Some 4, nk3 := Some 4, sk1 := Some 0, sk2 := Some 0, sk3 := Some 0,
      k_points_type := ''automatic''\<rparr>"

definition h2_grid_deck :: string where
  "h2_grid_deck = unlines
       [''&CONTROL'',
        ''calculation = '' @ [quote] @ ''relax'' @ [quote] @ '','',
        ''/'',
        ''&SYSTEM'',
        ''ibrav = 0,'',
        ''nat = 2,'',
        ''ntyp = 1,'',
        ''ecutwfc = 30.0,'',
        ''/'',
        ''&ELECTRONS'',
        ''/'',
        ''&IONS'',
        ''/'',
        ''ATOMIC_SPECIES'',
        ''H   1.008   H.pbe.UPF'',
        ''CELL_PARAMETERS angstrom'',
        ''10.0   0.0   0.0'',
        ''0.0   10.0   0.0'',
        ''0.0   0.0   10.0'',
        ''ATOMIC_POSITIONS angstrom'',
        ''H   0.0   0.0   0.0   0   0   0'',
        ''H   0.7   0.0   0.0   1   1   1'',
        ''K_POINTS automatic'',
        ''4   4   4   0   0   0'']"

text \<open>
  The same molecule with a title of two words in \<^verbatim>\<open>control\<close>, its deck, and what
  \<^verbatim>\<open>read_input\<close> stores for the title: \<^verbatim>\<open>l[2]\<close>, the first word.
\<close>

definition h2_titled :: "rat calc" where
  "h2_titled = h2_model
     \<lparr>control := [(''calculation'', [quote] @ ''relax'' @ [quote]),
                  (''title'', [quote] @ ''H2 molecule'' @ [quote])]\<rparr>"

definition h2_titled_deck :: string where
  "h2_titled_deck = unlines
       [''&CONTROL'',
        ''calculation = '' @ [quote] @ ''relax'' @ [quote] @ '','',
        ''title = '' @ [quote] @ ''H2 molecule'' @ [quote] @ '','',
        ''/'',
        ''&SYSTEM'',
        ''ibrav = 0,'',
        ''nat = 2,'',
        ''ntyp = 1,'',
        ''ecutwfc = 30.0,'',
        ''/'',
        ''&ELECTRONS'',
        ''/'',
        ''&IONS'',
        ''/'',
        ''ATOMIC_SPECIES'',
        ''H   1.008   H.pbe.UPF'',
        ''CELL_PARAMETERS angstrom'',
        ''10.0   0.0   0.0'',
        ''0.0   10.0   0.0'',
        ''0.0   0.0   10.0'',
        ''ATOMIC_POSITIONS angstrom'',
        ''H   0.0   0.0   0.0'',
        ''H   0.7   0.0   0.0'',
        ''K_POINTS gamma'']"

definition h2_title_cut :: "rat calc" where
  "h2_title_cut = h2_model
     \<lparr>control := [(''calculation'', [quote] @ ''relax'' @ [quote]),
                  (''title'', [quote] @ ''H2'')]\<rparr>"

text \<open>
  The same molecule with one k-point given in a list, and its deck: the line after the
  header of \<^verbatim>\<open>K_POINTS\<close> is \<^verbatim>\<open>str(self.wk)\<close>, a list in brackets, where \<^verbatim>\<open>read_input\<close>
  converts the count of the points with \<^verbatim>\<open>int\<close>.
\<close>

definition h2_points :: "rat calc" where
  "h2_points = h2_model
     \<lparr>kx := [0], ky := [0], kz := [0], wk := [1], k_points_type := ''crystal''\<rparr>"

definition h2_points_deck :: string where
  "h2_points_deck = unlines
       [''&CONTROL'',
        ''calculation = '' @ [quote] @ ''relax'' @ [quote] @ '','',
        ''/'',
        ''&SYSTEM'',
        ''ibrav = 0,'',
        ''nat = 2,'',
        ''ntyp = 1,'',
        ''ecutwfc = 30.0,'',
        ''/'',
        ''&ELECTRONS'',
        ''/'',
        ''&IONS'',
        ''/'',
        ''ATOMIC_SPECIES'',
        ''H   1.008   H.pbe.UPF'',
        ''CELL_PARAMETERS angstrom'',
        ''10.0   0.0   0.0'',
        ''0.0   10.0   0.0'',
        ''0.0   0.0   10.0'',
        ''ATOMIC_POSITIONS angstrom'',
        ''H   0.0   0.0   0.0'',
        ''H   0.7   0.0   0.0'',
        ''K_POINTS crystal'',
        ''[1.0]'',
        ''0.0   0.0   0.0   1.0'']"

lemma roundtrip_ok_h2_grid: "roundtrip_ok dec_ops h2_grid"
  by code_simp

lemma build_input_h2_grid: "build_input dec_ops h2_grid = (h2_grid, Inr h2_grid_deck)"
  by code_simp

lemma explicit_k_points_not_read_back:
  "build_input dec_ops h2_points = (h2_points, Inr h2_points_deck)
   \<and> snd (read_input dec_ops calc_init (Some h2_points_deck)) = Some ValueError"
  by code_simp

text \<open>
  Claim C1, as amended. For the k-points \<^verbatim>\<open>gamma\<close> and \<^verbatim>\<open>automatic\<close> only:
  \<^verbatim>\<open>build_input\<close> returns a text and leaves \<open>m\<close> as it was, and \<^verbatim>\<open>read_input\<close> on a new
  object reads that text without an exception and leaves an object equal to \<open>m\<close>, for
  every model \<open>m\<close> such that

  \<^item> in the five namelists every key is one token, neither \<^verbatim>\<open>/\<close> nor, in any case of
    the letters, the header of a namelist, and every value holds no white space and no
    comma;
  \<^item> \<^verbatim>\<open>control\<close> holds \<^verbatim>\<open>calculation\<close>, and \<^verbatim>\<open>cell\<close> is empty unless the calculation is
    \<^verbatim>\<open>'vc-relax'\<close> or \<^verbatim>\<open>'vc-md'\<close>;
  \<^item> \<^verbatim>\<open>nat\<close> and \<^verbatim>\<open>ntyp\<close> in \<^verbatim>\<open>system\<close> are the lengths of \<^verbatim>\<open>atom_type\<close> and
    \<^verbatim>\<open>atomic_species\<close>, and neither list is empty;
  \<^item> \<^verbatim>\<open>atomic_mass\<close> and \<^verbatim>\<open>pseudopotential\<close> have the length of \<^verbatim>\<open>atomic_species\<close>, \<^verbatim>\<open>x\<close>,
    \<^verbatim>\<open>y\<close>, \<^verbatim>\<open>z\<close> the length of \<^verbatim>\<open>atom_type\<close>, and \<^verbatim>\<open>if_pos1\<close>, \<^verbatim>\<open>if_pos2\<close>, \<^verbatim>\<open>if_pos3\<close> are all
    empty or all of the length of \<^verbatim>\<open>atom_type\<close>;
  \<^item> the labels of species and atoms, the masses and the pseudopotentials are single
    tokens, and no label is, in any case of the letters, a header that \<^verbatim>\<open>read_input\<close>
    tests before it reads the card;
  \<^item> every float \<open>x\<close> of the positions and cell vectors is given back by
    \<^verbatim>\<open>float(str(x))\<close>, and \<^verbatim>\<open>str(x)\<close> is one token and no header;
  \<^item> \<^verbatim>\<open>int\<close> accepts \<^verbatim>\<open>ibrav\<close>; \<^verbatim>\<open>v1\<close>, \<^verbatim>\<open>v2\<close>, \<^verbatim>\<open>v3\<close> have three entries when it is 0, and
    are empty, with an empty \<^verbatim>\<open>cell_parameters_units\<close>, otherwise;
  \<^item> the two unit tags are empty or single tokens;
  \<^item> \<^verbatim>\<open>kx\<close>, \<^verbatim>\<open>ky\<close>, \<^verbatim>\<open>kz\<close>, \<^verbatim>\<open>wk\<close> are empty, and \<^verbatim>\<open>nk1\<close> to \<^verbatim>\<open>sk3\<close> are all \<^verbatim>\<open>None\<close> for
    \<^verbatim>\<open>gamma\<close> and all integers for \<^verbatim>\<open>automatic\<close>.

  These conditions are \<open>roundtrip_ok\<close>.
\<close>

theorem build_input_read_input:
  assumes "roundtrip_ok F m"
  shows "\<exists>deck. build_input F m = (m, Inr deck)
    \<and> read_input F calc_init (Some deck) = (m, None)"
  using build_input_lines [OF assms] read_input_deck [OF assms] by blast

theorem build_input_read_input_witness:
  "roundtrip_ok dec_ops h2_grid
   \<and> build_input dec_ops h2_grid = (h2_grid, Inr h2_grid_deck)
   \<and> read_input dec_ops calc_init (Some h2_grid_deck) = (h2_grid, None)"
proof -
  from build_input_read_input [OF roundtrip_ok_h2_grid] obtain deck
    where "build_input dec_ops h2_grid = (h2_grid, Inr deck)"
      and "read_input dec_ops calc_init (Some deck) = (h2_grid, None)"
    by blast
  then show ?thesis
    using roundtrip_ok_h2_grid build_input_h2_grid by simp
qed

text \<open>
  The claim as it was stated fails on a model that satisfies its invariants (the counts
  are right, the cell vectors are there and \<^verbatim>\<open>ibrav\<close> is 0): a value of two words is
  written whole and read back as its first word.
\<close>

theorem read_input_cuts_value:
  "build_input dec_ops h2_titled = (h2_titled, Inr h2_titled_deck)
   \<and> read_input dec_ops calc_init (Some h2_titled_deck) = (h2_title_cut, None)
   \<and> control h2_title_cut \<noteq> control h2_titled"
  by code_simp


end
